theory Spec2Isabelle
  imports Complex_Main "HOL-Library.AList" "HOL-Library.Sublist"
begin

section \<open>Shared data: exceptions, JSON payloads, protocol records\<close>

text \<open>
  Python exceptions are values: a class and the text that \<^verbatim>\<open>str(e)\<close> gives.
  \<^verbatim>\<open>except Exception\<close> catches every class below but the three that derive from
  \<^verbatim>\<open>BaseException\<close> only (\<^verbatim>\<open>asyncio.CancelledError\<close>, \<^verbatim>\<open>KeyboardInterrupt\<close>,
  \<^verbatim>\<open>SystemExit\<close>).
\<close>

datatype exc_class =
    ValueError | KeyError | TypeError | RuntimeError | ValidationError
  | TimeoutError | OtherException
  | CancelledError | KeyboardInterrupt | SystemExit

datatype py_exception = Exc exc_class string

fun exc_cls :: "py_exception \<Rightarrow> exc_class" where
  "exc_cls (Exc c m) = c"

fun exc_str :: "py_exception \<Rightarrow> string" where
  "exc_str (Exc c m) = m"

fun is_Exception :: "exc_class \<Rightarrow> bool" where
  "is_Exception CancelledError = False"
| "is_Exception KeyboardInterrupt = False"
| "is_Exception SystemExit = False"
| "is_Exception c = True"

text \<open>JSON values, the content of a payload (\<^verbatim>\<open>Dict[str, Any]\<close>), and Python's truth test.\<close>

datatype json =
    JNull | JBool bool | JInt int | JStr string
  | JList "json list" | JDict "(string \<times> json) list"

type_synonym payload = "(string \<times> json) list"

fun truthy :: "json \<Rightarrow> bool" where
  "truthy JNull = False"
| "truthy (JBool b) = b"
| "truthy (JInt i) = (i \<noteq> 0)"
| "truthy (JStr s) = (s \<noteq> [])"
| "truthy (JList xs) = (xs \<noteq> [])"
| "truthy (JDict kvs) = (kvs \<noteq> [])"

text \<open>
  Modelled from the spec: the declarations of \<^verbatim>\<open>MessageHeader\<close>, \<^verbatim>\<open>RequestPayload\<close> and
  \<^verbatim>\<open>ResponsePayload\<close> (module \<^verbatim>\<open>protocol\<close>) are not among the sources. The header has
  the fields the spec and the constructor calls name; the time stamp is kept as a whole
  number. A response is a status code with optional data and optional error text; a
  request is a method name with keyword parameters. The data of a response is, on the
  server, the Python object the dispatcher puts there, and on a client the JSON value
  that was decoded: the record leaves its type open.
\<close>

record message_header =
  msg_id :: string
  msg_type :: string
  correlation_id :: "string option"
  timestamp :: int

record 'd response_payload =
  code :: int
  data :: "'d option"
  error :: "string option"

record request_payload =
  req_method :: string
  params :: payload

text \<open>
  A Python \<^verbatim>\<open>float\<close> that holds a duration is taken as a real number; \<^verbatim>\<open>int(x)\<close> cuts
  off the fraction, towards zero.
\<close>

definition py_int :: "real \<Rightarrow> int" where
  "py_int x = (if 0 \<le> x then \<lfloor>x\<rfloor> else \<lceil>x\<rceil>)"

text \<open>Python's \<^verbatim>\<open>needle in haystack\<close> on strings and \<^verbatim>\<open>str.lower\<close> (ASCII letters).\<close>

fun str_in :: "string \<Rightarrow> string \<Rightarrow> bool" where
  "str_in needle [] = (needle = [])"
| "str_in needle (c # cs) = (take (length needle) (c # cs) = needle \<or> str_in needle cs)"

definition char_lower :: "char \<Rightarrow> char" where
  "char_lower c =
     (let n = (of_char c :: nat) in if 65 \<le> n \<and> n \<le> 90 then char_of (n + 32) else c)"

definition lower :: "string \<Rightarrow> string" where
  "lower s = map char_lower s"

section \<open>The thread-based client (package lazytea): \<^verbatim>\<open>WebSocketClient\<close>\<close>

text \<open>
  The fields of \<^verbatim>\<open>WebSocketClient\<close> that \<^verbatim>\<open>run\<close>, \<^verbatim>\<open>stop\<close> and the connection callback
  touch. \<open>thread_pool\<close> lists the workers handed to \<^verbatim>\<open>thread_pool.start\<close>, in call order;
  \<open>closed\<close> lists the sockets on which \<^verbatim>\<open>close()\<close> was called. The two stop events are the
  \<^verbatim>\<open>stop_event\<close> of the receive worker and of the heartbeat worker.
\<close>

datatype worker = WebSocketWorker | HeartbeatWorker

record ws_client =
  ws :: "nat option"
  connected :: bool
  workers_started :: bool
  ws_worker_stop_event :: bool
  heartbeat_worker_stop_event :: bool
  thread_pool :: "worker list"
  closed :: "nat list"

definition WebSocketClient_init :: ws_client where
  "WebSocketClient_init =
     \<lparr>ws = None, connected = False, workers_started = False,
      ws_worker_stop_event = False, heartbeat_worker_stop_event = False,
      thread_pool = [], closed = []\<rparr>"

definition WebSocketClient_run :: "ws_client \<Rightarrow> ws_client" where
  "WebSocketClient_run c =
     (if workers_started c then c
      else c\<lparr>thread_pool := thread_pool c @ [WebSocketWorker, HeartbeatWorker],
             workers_started := True\<rparr>)"

definition WebSocketClient_stop :: "ws_client \<Rightarrow> ws_client" where
  "WebSocketClient_stop c =
     c\<lparr>ws_worker_stop_event := True,
       heartbeat_worker_stop_event := True,
       closed := (case ws c of Some w \<Rightarrow> closed c @ [w] | None \<Rightarrow> closed c),
       connected := False,
       workers_started := False\<rparr>"

text \<open>\<^verbatim>\<open>_on_connection_state\<close>: store the state; the callback is run by the caller.\<close>

definition on_connection_state :: "ws_client \<Rightarrow> bool \<Rightarrow> ws_client" where
  "on_connection_state c state = c\<lparr>connected := state\<rparr>"

section \<open>The server (package noobui): \<^verbatim>\<open>Server\<close>\<close>

text \<open>
  A connection is known by a number. \<open>wire\<close> lists, in order, what the server has done
  on its connections: accepted one, closed one with a code, or called \<^verbatim>\<open>send_text\<close> with
  the encoding of a message of some type and payload (the fresh message id and the time
  stamp of the header are left out). A \<^verbatim>\<open>send_text\<close> that fails is still listed: the
  entries are the calls made.

  Calling an \<^verbatim>\<open>async def\<close> function builds a coroutine object and runs none of its body;
  the body runs when the object is awaited. \<open>awaited\<close> is such a call under \<^verbatim>\<open>await\<close>,
  \<open>unawaited\<close> is a call whose coroutine object is dropped.
\<close>

type_synonym websocket = nat

datatype ws_action = Accept | Close int | SendText string payload

definition awaited :: "'a list \<Rightarrow> 'a list" where
  "awaited effects = effects"

definition unawaited :: "'a list \<Rightarrow> 'a list" where
  "unawaited effects = []"

text \<open>
  What a Python function hands back: it returns an object or raises. The objects that
  matter here are JSON values and coroutine objects; a coroutine object holds what
  awaiting it will give.
\<close>

datatype outcome = Returns pyobject | Raises py_exception
  and pyobject = Json json | CoroutineObject outcome

text \<open>
  A handler is a function defined with \<^verbatim>\<open>def\<close> or with \<^verbatim>\<open>async def\<close>: its name, the
  names of its parameters without a default value, the names of its parameters with
  one (all of them ordinary parameters, which take a positional or a keyword argument,
  as those of the registered handlers are), and its body, which is given the keyword
  arguments.
\<close>

datatype handler =
    Def string "string list" "string list" "payload \<Rightarrow> outcome"
  | AsyncDef string "string list" "string list" "payload \<Rightarrow> outcome"

fun qualname :: "handler \<Rightarrow> string" where
  "qualname (Def name required optional body) = name"
| "qualname (AsyncDef name required optional body) = name"

fun required :: "handler \<Rightarrow> string list" where
  "required (Def name req opt body) = req"
| "required (AsyncDef name req opt body) = req"

fun optional :: "handler \<Rightarrow> string list" where
  "optional (Def name req opt body) = opt"
| "optional (AsyncDef name req opt body) = opt"

fun body :: "handler \<Rightarrow> payload \<Rightarrow> outcome" where
  "body (Def name req opt b) = b"
| "body (AsyncDef name req opt b) = b"

fun iscoroutinefunction :: "handler \<Rightarrow> bool" where
  "iscoroutinefunction (Def name req opt b) = False"
| "iscoroutinefunction (AsyncDef name req opt b) = True"

text \<open>
  The texts of the \<^verbatim>\<open>TypeError\<close> that a call raises when the keyword arguments do not
  fit the parameters, as CPython 3.11 words them. \<open>repr\<close> is the text of a string
  without quote characters; \<open>decimal\<close> writes a number.
\<close>

definition repr :: "string \<Rightarrow> string" where
  "repr s = CHR 0x27 # s @ [CHR 0x27]"

fun decimal :: "nat \<Rightarrow> string" where
  "decimal n =
     (if n < 10 then [''0123456789'' ! n]
      else decimal (n div 10) @ [''0123456789'' ! (n mod 10)])"

declare decimal.simps [simp del]

fun name_list :: "string list \<Rightarrow> string" where
  "name_list [] = []"
| "name_list [a] = repr a"
| "name_list [a, b] = repr a @ '' and '' @ repr b"
| "name_list (a # b # c # rest) =
     (if rest = [] then repr a @ '', '' @ repr b @ '', and '' @ repr c
      else repr a @ '', '' @ name_list (b # c # rest))"

definition missing_arguments :: "string \<Rightarrow> string list \<Rightarrow> py_exception" where
  "missing_arguments name missing =
     Exc TypeError
       (name @ ''() missing '' @ decimal (length missing) @ '' required positional argument''
        @ (if length missing = 1 then [] else ''s'') @ '': '' @ name_list missing)"

definition unexpected_keyword :: "string \<Rightarrow> string \<Rightarrow> py_exception" where
  "unexpected_keyword name k =
     Exc TypeError (name @ ''() got an unexpected keyword argument '' @ repr k)"

text \<open>
  Binding the keyword arguments of \<^verbatim>\<open>handler(**request.params)\<close> to the parameters:
  the first keyword that names no parameter is refused, then the parameters without a
  default that got no argument. \<open>None\<close>: the arguments fit.
\<close>

definition bind_arguments :: "handler \<Rightarrow> payload \<Rightarrow> py_exception option" where
  "bind_arguments h kwargs =
     (let unexpected = filter (\<lambda>k. k \<notin> set (required h @ optional h)) (map fst kwargs);
          missing = filter (\<lambda>p. p \<notin> set (map fst kwargs)) (required h)
      in if unexpected \<noteq> [] then Some (unexpected_keyword (qualname h) (hd unexpected))
         else if missing \<noteq> [] then Some (missing_arguments (qualname h) missing)
         else None)"

text \<open>
  The call \<^verbatim>\<open>handler(**request.params)\<close>. A function defined with \<^verbatim>\<open>def\<close> runs its
  body. A function defined with \<^verbatim>\<open>async def\<close> runs nothing of it: the call returns a
  coroutine object, and the body runs when that object is awaited.
\<close>

definition call :: "handler \<Rightarrow> payload \<Rightarrow> outcome" where
  "call h kwargs =
     (case bind_arguments h kwargs of
        Some e \<Rightarrow> Raises e
      | None \<Rightarrow>
          if iscoroutinefunction h then Returns (CoroutineObject (body h kwargs))
          else body h kwargs)"

fun type_name :: "json \<Rightarrow> string" where
  "type_name JNull = ''NoneType''"
| "type_name (JBool b) = ''bool''"
| "type_name (JInt i) = ''int''"
| "type_name (JStr s) = ''str''"
| "type_name (JList xs) = ''list''"
| "type_name (JDict kvs) = ''dict''"

fun await :: "pyobject \<Rightarrow> outcome" where
  "await (CoroutineObject result) = result"
| "await (Json v) =
     Raises (Exc TypeError
       (''object '' @ type_name v @ '' can'' @ [CHR 0x27] @ ''t be used in ''
        @ repr ''await'' @ '' expression''))"

text \<open>
  The dispatcher asks \<^verbatim>\<open>asyncio.iscoroutinefunction\<close>: it awaits the call of a
  coroutine function, and calls any other function without awaiting what comes back.
\<close>

definition call_handler :: "handler \<Rightarrow> payload \<Rightarrow> outcome" where
  "call_handler h kwargs =
     (if iscoroutinefunction h
      then (case call h kwargs of
              Raises e \<Rightarrow> Raises e
            | Returns coroutine \<Rightarrow> await coroutine)
      else call h kwargs)"

text \<open>
  A task is a coroutine that the event loop holds: \<^verbatim>\<open>_flush_buffer()\<close> as
  \<^verbatim>\<open>asyncio.create_task\<close> made it, not started yet, or \<^verbatim>\<open>_flush_buffer()\<close> suspended
  in its loop \<^verbatim>\<open>for msg_type, data in messages\<close>, with the messages it has still to
  broadcast.
\<close>

datatype task = FlushBuffer | FlushBufferLoop "(string \<times> payload) list"

text \<open>
  \<open>active_connections\<close> is a Python set; the list holds each connection once, in the
  order of arrival (the order in which a set is walked is not fixed by Python, and no
  statement below depends on it). \<open>tasks\<close> are the tasks made with
  \<^verbatim>\<open>asyncio.create_task\<close> that have not run to their end.
\<close>

record server =
  active_connections :: "websocket list"
  handlers :: "string \<rightharpoonup> handler"
  message_buffer :: "(string \<times> payload) list"
  has_connected :: bool
  tasks :: "task list"
  wire :: "(websocket \<times> ws_action) list"

definition Server_init :: server where
  "Server_init =
     \<lparr>active_connections = [], handlers = Map.empty, message_buffer = [],
      has_connected = False, tasks = [], wire = []\<rparr>"

definition set_add :: "'a \<Rightarrow> 'a list \<Rightarrow> 'a list" where
  "set_add x xs = (if x \<in> set xs then xs else xs @ [x])"

definition register_handler :: "server \<Rightarrow> string \<Rightarrow> handler \<Rightarrow> server" where
  "register_handler s name func = s\<lparr>handlers := (handlers s)(name \<mapsto> func)\<rparr>"

text \<open>
  \<^verbatim>\<open>Server.start\<close> up to the receive loop. The result says whether the call goes on
  into the receive loop (\<open>True\<close>) or has returned (\<open>False\<close>). On a token mismatch the
  source writes \<^verbatim>\<open>websocket.close(code=4000)\<close> with no \<^verbatim>\<open>await\<close> and returns.
\<close>

definition start_connect ::
    "server \<Rightarrow> websocket \<Rightarrow> string option \<Rightarrow> string \<Rightarrow> server \<times> bool" where
  "start_connect s websocket rq_token token =
     (if rq_token \<noteq> Some token
      then (s\<lparr>wire := wire s @ unawaited [(websocket, Close 4000)]\<rparr>, False)
      else
        let s1 = s\<lparr>wire := wire s @ awaited [(websocket, Accept)]\<rparr>;
            s2 = s1\<lparr>active_connections := set_add websocket (active_connections s1)\<rparr>
        in if \<not> has_connected s2
           then (s2\<lparr>has_connected := True, tasks := tasks s2 @ [FlushBuffer]\<rparr>, True)
           else (s2, True))"

text \<open>
  \<^verbatim>\<open>_cleanup_connection\<close>. The test \<^verbatim>\<open>ws.client_state != "disconnected"\<close> compares an
  enumeration value with a string and so always holds: the close is always awaited.
\<close>

definition cleanup_connection :: "server \<Rightarrow> websocket \<Rightarrow> server" where
  "cleanup_connection s w =
     (if w \<in> set (active_connections s)
      then s\<lparr>active_connections := removeAll w (active_connections s),
             wire := wire s @ awaited [(w, Close 1000)]\<rparr>
      else s)"

text \<open>
  \<^verbatim>\<open>_real_broadcast\<close>: one \<^verbatim>\<open>send_text\<close> per active connection, gathered with
  \<^verbatim>\<open>return_exceptions=True\<close>, so a failing send raises nothing and changes nothing.
  The encoding of the message is taken to succeed.
\<close>

definition real_broadcast :: "server \<Rightarrow> string \<Rightarrow> payload \<Rightarrow> server" where
  "real_broadcast s message_type content =
     (if active_connections s = [] then s
      else s\<lparr>wire := wire s @
               awaited (map (\<lambda>w. (w, SendText message_type content)) (active_connections s))\<rparr>)"

text \<open>
  \<^verbatim>\<open>_flush_buffer\<close>, one step at a time. Started, it copies and clears the buffer
  under the buffer lock and enters its loop. Each pass of the loop awaits
  \<^verbatim>\<open>_real_broadcast\<close> for one message; the coroutine can be suspended there (at the
  connection lock, at the gathered sends), so that other coroutines run between two
  passes. With no message left it returns. The result is the server and what is left of
  the coroutine.
\<close>

fun flush_buffer :: "server \<Rightarrow> task \<Rightarrow> server \<times> task option" where
  "flush_buffer s FlushBuffer =
     (let messages = message_buffer s
      in (s\<lparr>message_buffer := []\<rparr>, Some (FlushBufferLoop messages)))"
| "flush_buffer s (FlushBufferLoop []) = (s, None)"
| "flush_buffer s (FlushBufferLoop ((message_type, content) # messages)) =
     (real_broadcast s message_type content, Some (FlushBufferLoop messages))"

definition broadcast :: "server \<Rightarrow> string \<Rightarrow> payload \<Rightarrow> server" where
  "broadcast s message_type content =
     (if \<not> has_connected s
      then s\<lparr>message_buffer := message_buffer s @ [(message_type, content)]\<rparr>
      else real_broadcast s message_type content)"

text \<open>
  The event loop gives the oldest task its turn; a task that has not returned waits
  for its next turn behind the others.
\<close>

definition run_task :: "server \<Rightarrow> server" where
  "run_task s =
     (case tasks s of
        [] \<Rightarrow> s
      | k # ts \<Rightarrow>
          (case flush_buffer (s\<lparr>tasks := ts\<rparr>) k of
             (s1, None) \<Rightarrow> s1
           | (s1, Some k') \<Rightarrow> s1\<lparr>tasks := tasks s1 @ [k']\<rparr>))"

text \<open>
  What happens to a server, one event at a time: a collaborator publishes, a client
  connects with a token parameter, the event loop gives a task its turn, a client goes
  away. The connection lock makes each of them one step: whoever holds it adds the
  connection, removes it, or sends one message to the connections of that moment.
\<close>

datatype server_event =
    Publish string payload
  | Connect websocket "string option"
  | RunTask
  | Disconnect websocket

fun server_step :: "string \<Rightarrow> server \<Rightarrow> server_event \<Rightarrow> server" where
  "server_step token s (Publish message_type content) = broadcast s message_type content"
| "server_step token s (Connect w rq_token) = fst (start_connect s w rq_token token)"
| "server_step token s RunTask = run_task s"
| "server_step token s (Disconnect w) = cleanup_connection s w"

definition server_run :: "string \<Rightarrow> server \<Rightarrow> server_event list \<Rightarrow> server" where
  "server_run token s es = foldl (server_step token) s es"

text \<open>The messages a task has still to broadcast.\<close>

fun remaining :: "task \<Rightarrow> (string \<times> payload) list" where
  "remaining FlushBuffer = []"
| "remaining (FlushBufferLoop messages) = messages"

text \<open>
  What the flush has still to send: the buffer, until the task takes it, and then what
  the task has left.
\<close>

definition unsent :: "server \<Rightarrow> (string \<times> payload) list" where
  "unsent s = message_buffer s @ concat (map remaining (tasks s))"

text \<open>
  A server is \<open>flushed\<close> once a consumer has attached, the buffer is empty and no task
  has a message left to broadcast.
\<close>

definition flushed :: "server \<Rightarrow> bool" where
  "flushed s \<longleftrightarrow>
     has_connected s \<and> message_buffer s = [] \<and> concat (map remaining (tasks s)) = []"

fun is_Publish :: "server_event \<Rightarrow> bool" where
  "is_Publish (Publish t d) = True"
| "is_Publish e = False"

text \<open>A sequence of events is \<open>quiet\<close> when nothing is published in it.\<close>

fun quiet :: "server_event list \<Rightarrow> bool" where
  "quiet [] = True"
| "quiet (e # es) = (\<not> is_Publish e \<and> quiet es)"

text \<open>The messages for which \<^verbatim>\<open>send_text\<close> was called on one connection, in order.\<close>

fun sent_to :: "websocket \<Rightarrow> (websocket \<times> ws_action) list \<Rightarrow> (string \<times> payload) list" where
  "sent_to w [] = []"
| "sent_to w ((w', SendText t d) # xs) =
     (if w' = w then (t, d) # sent_to w xs else sent_to w xs)"
| "sent_to w ((w', Accept) # xs) = sent_to w xs"
| "sent_to w ((w', Close c) # xs) = sent_to w xs"

text \<open>
  The shape of a server that started empty: each active connection is held once; before
  the first consumer there is no task; after it there is the flush task, not started,
  or the buffer has been taken and at most the running flush is left.
\<close>

definition well_formed :: "server \<Rightarrow> bool" where
  "well_formed s \<longleftrightarrow>
     distinct (active_connections s)
     \<and> (if has_connected s
        then tasks s = [FlushBuffer]
             \<or> (message_buffer s = []
                \<and> (case tasks s of
                      [] \<Rightarrow> True
                    | k # ts \<Rightarrow> ts = [] \<and> k \<noteq> FlushBuffer))
        else tasks s = [])"

text \<open>
  Consumer \<open>c\<close> has been sent, in order and each at most once, some of the messages
  \<open>ms\<close> that are no longer waiting to be sent.
\<close>

definition sent_in_order :: "websocket \<Rightarrow> (string \<times> payload) list \<Rightarrow> server \<Rightarrow> bool" where
  "sent_in_order c ms s \<longleftrightarrow>
     well_formed s
     \<and> (\<exists>sent. ms = sent @ unsent s \<and> subseq (sent_to c (wire s)) sent)"

subsection \<open>The method dispatcher\<close>

text \<open>
  \<^verbatim>\<open>_handle_request\<close>. \<open>RequestPayload\<close> stands for the constructor call
  \<^verbatim>\<open>RequestPayload(**payload)\<close> of the pydantic class, which is not among the sources:
  \<open>None\<close> is its \<^verbatim>\<open>ValidationError\<close>. The constructor calls of \<^verbatim>\<open>ResponsePayload\<close> are
  taken to succeed. \<open>new_id\<close> and \<open>now\<close> are the values of \<^verbatim>\<open>uuid.uuid4()\<close> and
  \<^verbatim>\<open>time.time()\<close>. The result is the response header and payload handed to
  \<^verbatim>\<open>_send_response\<close>, or the exception that leaves the function.
\<close>

definition ResponsePayload :: "int \<Rightarrow> 'd option \<Rightarrow> string option \<Rightarrow> 'd response_payload" where
  "ResponsePayload c d e = \<lparr>code = c, data = d, error = e\<rparr>"

definition response_header :: "string \<Rightarrow> int \<Rightarrow> message_header \<Rightarrow> message_header" where
  "response_header new_id now header =
     \<lparr>msg_id = new_id, msg_type = ''response'',
      correlation_id = Some (msg_id header), timestamp = now\<rparr>"

definition handle_request ::
    "server \<Rightarrow> (payload \<Rightarrow> request_payload option) \<Rightarrow> string \<Rightarrow> int \<Rightarrow>
     message_header \<Rightarrow> payload \<Rightarrow>
     py_exception + (message_header \<times> (string \<times> pyobject) list response_payload)" where
  "handle_request s RequestPayload new_id now header content =
     (let attempt =
        (case RequestPayload content of
           None \<Rightarrow> Inr (ResponsePayload 400 None (Some ''Invalid request format''))
         | Some request \<Rightarrow>
             (case handlers s (req_method request) of
                None \<Rightarrow> Inr (ResponsePayload 404 None (Some ''Method not found''))
              | Some h \<Rightarrow>
                  (case call_handler h (params request) of
                     Returns result \<Rightarrow>
                       Inr (ResponsePayload 200 (Some [(''result'', result)]) None)
                   | Raises e \<Rightarrow>
                       if exc_cls e = ValidationError
                       then Inr (ResponsePayload 400 None (Some ''Invalid request format''))
                       else if is_Exception (exc_cls e)
                       then Inr (ResponsePayload 500 None (Some (exc_str e)))
                       else Inl e)))
      in case attempt of
           Inl e \<Rightarrow> Inl e
         | Inr response \<Rightarrow> Inr (response_header new_id now header, response))"

text \<open>
  Modelled from the spec: the fields of \<^verbatim>\<open>RequestPayload\<close> are known from its
  constructor calls only. This validation, used where a concrete one is needed, asks
  for a string under "method" and takes a dictionary under "params" (none: no
  parameters).
\<close>

definition request_of :: "payload \<Rightarrow> request_payload option" where
  "request_of content =
     (case map_of content ''method'' of
        Some (JStr m) \<Rightarrow>
          (case map_of content ''params'' of
             Some (JDict ps) \<Rightarrow> Some \<lparr>req_method = m, params = ps\<rparr>
           | None \<Rightarrow> Some \<lparr>req_method = m, params = []\<rparr>
           | _ \<Rightarrow> None)
      | _ \<Rightarrow> None)"

subsection \<open>Cutting the received text into frames\<close>

text \<open>
  \<open>split1 sep s\<close> is \<^verbatim>\<open>s.split(sep, 1)\<close> where \<^verbatim>\<open>sep in s\<close>: the text before the first
  occurrence of the separator and the text after it; \<open>None\<close> where the separator does
  not occur. The separator \<^verbatim>\<open>ProtocolMessage.SEPARATOR\<close> and the decoder
  \<^verbatim>\<open>ProtocolMessage.decode\<close> are not among the sources and are parameters. Python
  refuses an empty separator with a \<^verbatim>\<open>ValueError\<close>.
\<close>

fun split1 :: "string \<Rightarrow> string \<Rightarrow> (string \<times> string) option" where
  "split1 sep [] = (if sep = [] then Some ([], []) else None)"
| "split1 sep (c # cs) =
     (if take (length sep) (c # cs) = sep then Some ([], drop (length sep) (c # cs))
      else map_option (\<lambda>(m, r). (c # m, r)) (split1 sep cs))"

lemma split1_shorter:
  "split1 sep s = Some (m, r) \<Longrightarrow> length m + length sep + length r = length s"
proof (induction s arbitrary: m)
  case Nil
  then show ?case by (simp split: if_splits)
next
  case (Cons c cs)
  show ?case
  proof (cases "take (length sep) (c # cs) = sep")
    case True
    then have "length (take (length sep) (c # cs)) = length sep"
      by simp
    then have "length sep \<le> length (c # cs)"
      by (simp only: length_take)
    with True Cons.prems show ?thesis by auto
  next
    case False
    with Cons.prems obtain m' where m': "split1 sep cs = Some (m', r)" and m: "m = c # m'"
      by auto
    from Cons.IH [OF m'] m show ?thesis by simp
  qed
qed

text \<open>
  The inner loop of both receive loops:
  \<^verbatim>\<open>while SEPARATOR in buffer: msg, buffer = buffer.split(SEPARATOR, 1); process(msg)\<close>.
  It gives the messages cut off, in order, and the text left in the buffer.
\<close>

function split_frames :: "string \<Rightarrow> string \<Rightarrow> py_exception + (string list \<times> string)" where
  "split_frames sep buffer =
     (if sep = [] then Inl (Exc ValueError ''empty separator'')
      else case split1 sep buffer of
             None \<Rightarrow> Inr ([], buffer)
           | Some (msg, rest) \<Rightarrow>
               (case split_frames sep rest of
                  Inl e \<Rightarrow> Inl e
                | Inr (msgs, left) \<Rightarrow> Inr (msg # msgs, left)))"
  by pat_completeness auto
termination
proof (relation "measure (\<lambda>(sep, buffer). length buffer)")
  show "wf (measure (\<lambda>(sep, buffer). length buffer))" by simp
next
  fix sep buffer :: string and x2 :: "string \<times> string" and msg rest :: string
  assume "sep \<noteq> []" and "split1 sep buffer = Some x2" and "(msg, rest) = x2"
  then have "length msg + length sep + length rest = length buffer"
    using split1_shorter [of sep buffer msg rest] by simp
  with \<open>sep \<noteq> []\<close> show "((sep, rest), (sep, buffer)) \<in> measure (\<lambda>(sep, buffer). length buffer)"
    by (cases sep) auto
qed

declare split_frames.simps [simp del]

text \<open>
  The receive loop of the server and of the async client: each read is appended to the
  buffer and the buffer is cut. \<open>receive_loop\<close> gives every message handed on for
  decoding, in order, and the buffer after the last read.
\<close>

fun receive_loop ::
    "string \<Rightarrow> string \<Rightarrow> string list \<Rightarrow> py_exception + (string list \<times> string)" where
  "receive_loop sep buffer [] = Inr ([], buffer)"
| "receive_loop sep buffer (raw_data # reads) =
     (case split_frames sep (buffer @ raw_data) of
        Inl e \<Rightarrow> Inl e
      | Inr (msgs, left) \<Rightarrow>
          (case receive_loop sep left reads of
             Inl e \<Rightarrow> Inl e
           | Inr (later, final) \<Rightarrow> Inr (msgs @ later, final)))"

definition Server_receive ::
    "string \<Rightarrow> (string \<Rightarrow> 'r) \<Rightarrow> string list \<Rightarrow> py_exception + 'r list" where
  "Server_receive sep decode reads =
     (case receive_loop sep [] reads of
        Inl e \<Rightarrow> Inl e
      | Inr (msgs, left) \<Rightarrow> Inr (map decode msgs))"

section \<open>The async client (package noobui)\<close>

subsection \<open>\<^verbatim>\<open>WebSocketClient\<close>\<close>

datatype async_task = Receiver | Heartbeat

record async_client =
  a_ws :: "nat option"
  a_active :: bool
  a_tasks :: "async_task list"
  a_reconnect_flag :: bool
  a_closed :: "nat list"

definition async_client_init :: async_client where
  "async_client_init =
     \<lparr>a_ws = None, a_active = False, a_tasks = [], a_reconnect_flag = False, a_closed = []\<rparr>"

text \<open>\<^verbatim>\<open>_cleanup\<close>: the tasks are cancelled and forgotten, an open socket is closed.\<close>

definition cleanup :: "async_client \<Rightarrow> async_client" where
  "cleanup c =
     c\<lparr>a_active := False,
       a_tasks := [],
       a_closed := (case a_ws c of Some w \<Rightarrow> a_closed c @ [w] | None \<Rightarrow> a_closed c),
       a_ws := None\<rparr>"

definition handle_reconnection :: "async_client \<Rightarrow> async_client" where
  "handle_reconnection c = cleanup (c\<lparr>a_reconnect_flag := True, a_tasks := []\<rparr>)"

text \<open>
  The receive loop \<^verbatim>\<open>_receiver\<close> is, line for line, the loop of the server. Its
  \<^verbatim>\<open>except Exception\<close> ends the loop on an exception; the messages handed on before it
  stay handed on.
\<close>

definition WebSocketClient_receiver ::
    "string \<Rightarrow> (string \<Rightarrow> 'r) \<Rightarrow> string list \<Rightarrow> py_exception + 'r list" where
  "WebSocketClient_receiver sep decode reads =
     (case receive_loop sep [] reads of
        Inl e \<Rightarrow> Inl e
      | Inr (msgs, left) \<Rightarrow> Inr (map decode msgs))"

subsection \<open>\<^verbatim>\<open>MessageHandler\<close>: queues and futures\<close>

text \<open>
  An \<^verbatim>\<open>asyncio.Future\<close> is an object shared by the pending table and the caller who
  waits on it, so futures live in a store: \<open>futures\<close> gives the state of the future
  with a number, \<open>next_future\<close> is the number of the next one made. A future is done
  when its state is not \<open>Pending\<close>.

  \<open>a_clock\<close> is the time of the event loop in seconds. \<open>waits\<close> holds the callers of
  \<^verbatim>\<open>send_request\<close> that are suspended in \<^verbatim>\<open>asyncio.wait_for(future, timeout)\<close>: under the
  message id, the future waited for and the time at which the wait runs out, which is
  the time of the call plus \<open>timeout\<close>; \<^verbatim>\<open>wait_for\<close> does not time out before it.
\<close>

datatype future_state =
    Pending | Result "json response_payload" | Exception py_exception | Cancelled

record async_handler =
  a_client :: async_client
  queues :: "(string \<times> (message_header \<times> payload) list) list"
  a_pending_requests :: "(string \<times> nat) list"
  futures :: "nat \<Rightarrow> future_state"
  next_future :: nat
  a_clock :: real
  waits :: "(string \<times> nat \<times> real) list"

definition async_handler_init :: async_handler where
  "async_handler_init =
     \<lparr>a_client = async_client_init,
      queues = [(''message'', []), (''call_api'', []), (''bot_connect'', []),
                (''bot_disconnect'', [])],
      a_pending_requests = [],
      futures = (\<lambda>r. Pending),
      next_future = 0,
      a_clock = 0,
      waits = []\<rparr>"

text \<open>
  \<^verbatim>\<open>send_request\<close> up to its return or its wait: a new future is stored under the
  message id and the request is sent. \<open>mid\<close> (the message id) is the value of
  \<^verbatim>\<open>uuid.uuid4()\<close>; \<open>send_closed\<close> says that the send met a closed connection;
  \<open>timeout\<close> is the time to wait in seconds (10.0 when the caller gives none). With
  \<open>wait\<close> false the call returns the future here, and nothing times out. With \<open>wait\<close>
  true the caller is suspended in \<^verbatim>\<open>wait_for\<close>. The result holds the future.
\<close>

definition async_send_request ::
    "async_handler \<Rightarrow> string \<Rightarrow> bool \<Rightarrow> real \<Rightarrow> bool \<Rightarrow> async_handler \<times> nat" where
  "async_send_request h mid send_closed timeout wait =
     (let future = next_future h;
          h1 = h\<lparr>futures := (futures h)(future := Pending),
                 next_future := Suc future,
                 a_pending_requests := AList.update mid future (a_pending_requests h)\<rparr>;
          c = a_client h1;
          c1 = (if a_ws c \<noteq> None \<and> send_closed then c\<lparr>a_reconnect_flag := True\<rparr> else c);
          h2 = h1\<lparr>a_client := c1\<rparr>
      in if \<not> wait then (h2, future)
         else (h2\<lparr>waits := AList.update mid (future, a_clock h2 + timeout) (waits h2)\<rparr>,
               future))"

text \<open>
  The timeout of \<^verbatim>\<open>asyncio.wait_for(future, timeout)\<close> and the \<^verbatim>\<open>except\<close> clause of
  \<^verbatim>\<open>send_request\<close> after it. \<^verbatim>\<open>wait_for\<close> times out only on a future that is not done;
  it cancels the future and raises a \<^verbatim>\<open>TimeoutError\<close> made with no argument. The clause
  takes the entry out of the table, would set an exception on a future that is not done,
  and raises the same \<^verbatim>\<open>TimeoutError\<close> again. The result holds what the caller gets.
\<close>

definition wait_for_timeout ::
    "async_handler \<Rightarrow> string \<Rightarrow> nat \<Rightarrow> async_handler \<times> py_exception option" where
  "wait_for_timeout h mid future =
     (if futures h future \<noteq> Pending then (h, None)
      else
        let h1 = h\<lparr>futures := (futures h)(future := Cancelled)\<rparr>;
            h2 = (case map_of (a_pending_requests h1) mid of
                    None \<Rightarrow> h1
                  | Some popped \<Rightarrow>
                      let h' = h1\<lparr>a_pending_requests :=
                                    AList.delete mid (a_pending_requests h1)\<rparr>
                      in if futures h' popped = Pending
                         then h'\<lparr>futures := (futures h')
                                   (popped := Exception (Exc TimeoutError ''Request timeout''))\<rparr>
                         else h')
        in (h2, Some (Exc TimeoutError [])))"

text \<open>
  The event loop turns to the wait of the caller who sent a message id: while the time
  of the wait has not run out, and when nobody waits, nothing happens; after that the
  wait times out as above.
\<close>

definition wait_for_expires ::
    "async_handler \<Rightarrow> string \<Rightarrow> async_handler \<times> py_exception option" where
  "wait_for_expires h mid =
     (case map_of (waits h) mid of
        None \<Rightarrow> (h, None)
      | Some (future, deadline) \<Rightarrow>
          if a_clock h < deadline then (h, None)
          else wait_for_timeout (h\<lparr>waits := AList.delete mid (waits h)\<rparr>) mid future)"

text \<open>Time passes: \<open>d\<close> seconds.\<close>

definition async_elapse :: "async_handler \<Rightarrow> real \<Rightarrow> async_handler" where
  "async_elapse h d = h\<lparr>a_clock := a_clock h + d\<rparr>"

text \<open>
  \<^verbatim>\<open>sort_data\<close> of the async client. \<open>validate\<close> stands for
  \<^verbatim>\<open>ResponsePayload(**payload)\<close>; \<open>None\<close> is its \<^verbatim>\<open>ValidationError\<close>.
\<close>

definition async_sort_data ::
    "(payload \<Rightarrow> json response_payload option) \<Rightarrow> async_handler \<Rightarrow> message_header \<Rightarrow> payload
     \<Rightarrow> async_handler" where
  "async_sort_data validate h header content =
     (if msg_type header = ''response''
      then
        (case correlation_id header of
           None \<Rightarrow> h
         | Some cid \<Rightarrow>
             (case map_of (a_pending_requests h) cid of
                None \<Rightarrow> h
              | Some future \<Rightarrow>
                  let h1 = h\<lparr>a_pending_requests := AList.delete cid (a_pending_requests h)\<rparr>
                  in if futures h1 future = Pending
                     then (case validate content of
                             Some response \<Rightarrow>
                               h1\<lparr>futures := (futures h1)(future := Result response)\<rparr>
                           | None \<Rightarrow>
                               h1\<lparr>futures := (futures h1)
                                    (future := Exception (Exc ValidationError []))\<rparr>)
                     else h1))
      else
        (case map_of (queues h) (msg_type header) of
           None \<Rightarrow> h
         | Some queue \<Rightarrow>
             h\<lparr>queues := AList.update (msg_type header) (queue @ [(header, content)])
                            (queues h)\<rparr>))"

text \<open>The keys of \<^verbatim>\<open>self.queues\<close>, as \<^verbatim>\<open>__init__\<close> makes them.\<close>

definition queue_types :: "string list" where
  "queue_types = [''message'', ''call_api'', ''bot_connect'', ''bot_disconnect'']"

text \<open>
  \<^verbatim>\<open>get_message\<close> up to its wait: no type is a \<^verbatim>\<open>ValueError\<close>; the list comprehension
  looks every type up in \<^verbatim>\<open>self.queues\<close> in turn, and the first one that is no key
  raises \<^verbatim>\<open>KeyError\<close>. Otherwise the call waits on the queues of the types given.
\<close>

definition get_message :: "async_handler \<Rightarrow> string list \<Rightarrow> py_exception + string list" where
  "get_message h types =
     (if types = [] then Inl (Exc ValueError ''At least one type required'')
      else case find (\<lambda>t. map_of (queues h) t = None) types of
             Some t \<Rightarrow> Inl (Exc KeyError t)
           | None \<Rightarrow> Inr types)"

text \<open>
  What can happen to a request of the async client: a frame arrives, the wait of a
  caller times out, the connection is cleaned up.
\<close>

datatype async_event =
    AFrame message_header payload
  | ATimeout string nat
  | ACleanup

fun async_step ::
    "(payload \<Rightarrow> json response_payload option) \<Rightarrow> async_handler \<Rightarrow> async_event \<Rightarrow> async_handler" where
  "async_step validate h (AFrame header content) = async_sort_data validate h header content"
| "async_step validate h (ATimeout mid future) = fst (wait_for_timeout h mid future)"
| "async_step validate h ACleanup = h\<lparr>a_client := cleanup (a_client h)\<rparr>"

definition async_run ::
    "(payload \<Rightarrow> json response_payload option) \<Rightarrow> async_handler \<Rightarrow> async_event list \<Rightarrow> async_handler" where
  "async_run validate h es = foldl (async_step validate) h es"

section \<open>The thread-based client (package lazytea): worker and \<^verbatim>\<open>MessageHandler\<close>\<close>

subsection \<open>\<^verbatim>\<open>WebSocketWorker._handle_message\<close>\<close>

text \<open>
  The worker calls \<^verbatim>\<open>_handle_message\<close> with every text that \<^verbatim>\<open>recv\<close> returns. The
  function keeps no buffer: it takes the text before the first separator, decodes it and
  emits \<^verbatim>\<open>message_received\<close> when a header came out, or \<^verbatim>\<open>error\<close> when decoding
  raised. The result lists the signals emitted by one call.
\<close>

datatype worker_signal = MessageReceived message_header payload | WorkerError string

definition WebSocketWorker_handle_message ::
    "string \<Rightarrow> (string \<Rightarrow> py_exception + (message_header option \<times> payload)) \<Rightarrow> string
     \<Rightarrow> py_exception + worker_signal list" where
  "WebSocketWorker_handle_message sep decode raw_data =
     (if sep = [] then Inl (Exc ValueError ''empty separator'')
      else case split1 sep raw_data of
             None \<Rightarrow> Inr []
           | Some (msg, rest) \<Rightarrow>
               (case decode msg of
                  Inl e \<Rightarrow>
                    if is_Exception (exc_cls e)
                    then Inr [WorkerError (''Message decoding error: '' @ exc_str e)]
                    else Inl e
                | Inr (None, content) \<Rightarrow> Inr []
                | Inr (Some header, content) \<Rightarrow> Inr [MessageReceived header content]))"

text \<open>The signals of a sequence of reads, one call per read, as the worker's loop makes them.\<close>

fun WebSocketWorker_reads ::
    "string \<Rightarrow> (string \<Rightarrow> py_exception + (message_header option \<times> payload)) \<Rightarrow> string list
     \<Rightarrow> py_exception + worker_signal list" where
  "WebSocketWorker_reads sep decode [] = Inr []"
| "WebSocketWorker_reads sep decode (raw_data # reads) =
     (case WebSocketWorker_handle_message sep decode raw_data of
        Inl e \<Rightarrow> Inl e
      | Inr sigs \<Rightarrow>
          (case WebSocketWorker_reads sep decode reads of
             Inl e \<Rightarrow> Inl e
           | Inr later \<Rightarrow> Inr (sigs @ later)))"

subsection \<open>Signals and the state of \<^verbatim>\<open>MessageHandler\<close>\<close>

text \<open>
  A \<^verbatim>\<open>SignalInstance\<close> is known by a number. Emitting on it reaches the receiver or
  raises a \<^verbatim>\<open>RuntimeError\<close> (the error the source catches around every \<^verbatim>\<open>emit\<close>; Qt
  raises it with a text that says "deleted" once the object behind the signal is gone).
  Which of the two happens is given by the environment \<open>env\<close>.

  \<open>emitted\<close> lists the emissions that reached their receiver: one made for a request
  (with the request's message id), one made for a subscribed event, or one of the
  handler's own hooks. Each request has one single-shot timer; \<open>running_timers\<close> holds the
  message ids whose timer is running and has neither fired nor been stopped.

  \<open>clock\<close> is the time of the Qt event loop in milliseconds, and \<open>timer_due\<close> gives,
  for the timer of a message id, the time of its start plus the interval it was started
  with: the event loop delivers the \<^verbatim>\<open>timeout\<close> signal of a running timer once, and not
  before that time.
\<close>

type_synonym signal = nat

datatype emit_result = Emitted | EmitRuntimeError string

datatype emitted_value = ResponseValue "json response_payload" | TextValue string

datatype hook = Started | Stopping

datatype emission =
    RequestEmit string signal emitted_value
  | EventEmit signal string payload
  | HookEmit hook

record request_dict =
  success_signal :: "signal option"
  error_signal :: "signal option"

record message_handler =
  client :: ws_client
  signal_dict :: "(string \<times> signal list) list"
  pending_requests :: "(string \<times> request_dict) list"
  started_emitted_this_session :: bool
  running_timers :: "string set"
  emitted :: "emission list"
  clock :: nat
  timer_due :: "string \<Rightarrow> nat"

definition MessageHandler_init :: message_handler where
  "MessageHandler_init =
     \<lparr>client = WebSocketClient_init, signal_dict = [], pending_requests = [],
      started_emitted_this_session = False, running_timers = {}, emitted = [],
      clock = 0, timer_due = (\<lambda>mid. 0)\<rparr>"

definition emit ::
    "(signal \<Rightarrow> emit_result) \<Rightarrow> message_handler \<Rightarrow> signal \<Rightarrow> emission
     \<Rightarrow> message_handler \<times> py_exception option" where
  "emit env h sg e =
     (case env sg of
        Emitted \<Rightarrow> (h\<lparr>emitted := emitted h @ [e]\<rparr>, None)
      | EmitRuntimeError m \<Rightarrow> (h, Some (Exc RuntimeError m)))"

definition mentions_deleted :: "py_exception \<Rightarrow> bool" where
  "mentions_deleted e = str_in ''deleted'' (lower (exc_str e))"

text \<open>
  A signal is \<open>live\<close> when emitting on it reaches the receiver, and \<open>gone\<close> when
  emitting raises a \<^verbatim>\<open>RuntimeError\<close> whose text mentions "deleted".
\<close>

definition live :: "(signal \<Rightarrow> emit_result) \<Rightarrow> signal \<Rightarrow> bool" where
  "live env sg \<longleftrightarrow> env sg = Emitted"

definition gone :: "(signal \<Rightarrow> emit_result) \<Rightarrow> signal \<Rightarrow> bool" where
  "gone env sg \<longleftrightarrow>
     (case env sg of Emitted \<Rightarrow> False | EmitRuntimeError m \<Rightarrow> str_in ''deleted'' (lower m))"

fun live_or_gone :: "(signal \<Rightarrow> emit_result) \<Rightarrow> signal list \<Rightarrow> bool" where
  "live_or_gone env [] = True"
| "live_or_gone env (sg # sgs) = ((live env sg \<or> gone env sg) \<and> live_or_gone env sgs)"

subsection \<open>Connection state\<close>

definition handle_connection_change :: "message_handler \<Rightarrow> bool \<Rightarrow> message_handler" where
  "handle_connection_change h is_connected =
     (if is_connected \<and> \<not> started_emitted_this_session h
      then h\<lparr>emitted := emitted h @ [HookEmit Started], started_emitted_this_session := True\<rparr>
      else if \<not> is_connected then h\<lparr>started_emitted_this_session := False\<rparr>
      else h)"

text \<open>
  The worker's \<^verbatim>\<open>connection_state\<close> signal reaches \<^verbatim>\<open>_on_connection_state\<close> of the
  client, which stores the state and calls \<^verbatim>\<open>_handle_connection_change\<close>.
\<close>

definition connection_state_signal :: "message_handler \<Rightarrow> bool \<Rightarrow> message_handler" where
  "connection_state_signal h state =
     handle_connection_change (h\<lparr>client := on_connection_state (client h) state\<rparr>) state"

text \<open>
  The connection drops while the worker receives: \<^verbatim>\<open>recv\<close> raises
  \<^verbatim>\<open>ConnectionClosed\<close>, the worker sets its stop event and leaves the loop, its
  \<^verbatim>\<open>finally\<close> closes and forgets the socket and emits \<^verbatim>\<open>connection_state(False)\<close>.
\<close>

definition WebSocketWorker_connection_lost :: "message_handler \<Rightarrow> message_handler" where
  "WebSocketWorker_connection_lost h =
     (let c = client h;
          c1 = c\<lparr>ws_worker_stop_event := True,
                 closed := (case ws c of Some w \<Rightarrow> closed c @ [w] | None \<Rightarrow> closed c),
                 ws := None\<rparr>
      in connection_state_signal (h\<lparr>client := c1\<rparr>) False)"

subsection \<open>Requests: send, response, timeout, stop\<close>

datatype send_result = SendOk | SendConnectionClosed | SendError

definition send_raw_message :: "ws_client \<Rightarrow> send_result \<Rightarrow> ws_client \<times> bool" where
  "send_raw_message c r =
     (if \<not> connected c \<or> ws c = None then (c, False)
      else case r of
             SendOk \<Rightarrow> (c, True)
           | SendConnectionClosed \<Rightarrow> (c\<lparr>connected := False\<rparr>, False)
           | SendError \<Rightarrow> (c, False))"

definition cleanup_request :: "message_handler \<Rightarrow> string \<Rightarrow> message_handler" where
  "cleanup_request h mid =
     (case map_of (pending_requests h) mid of
        None \<Rightarrow> h
      | Some request_info \<Rightarrow>
          h\<lparr>pending_requests := AList.delete mid (pending_requests h),
            running_timers := running_timers h - {mid}\<rparr>)"

text \<open>
  \<^verbatim>\<open>timer.start(msec)\<close> on the single-shot timer of a message id: the timer runs and is
  due \<open>msec\<close> milliseconds from now. Qt takes no negative interval; the timer is then
  taken not to start, and no statement below is about a negative timeout.
\<close>

definition start_timer :: "message_handler \<Rightarrow> string \<Rightarrow> int \<Rightarrow> message_handler" where
  "start_timer h mid msec =
     (if msec < 0 then h
      else h\<lparr>running_timers := insert mid (running_timers h),
             timer_due := (timer_due h)(mid := clock h + nat msec)\<rparr>)"

text \<open>
  \<^verbatim>\<open>send_request\<close>. \<open>mid\<close> is the value of \<^verbatim>\<open>uuid.uuid4()\<close>, \<open>r\<close> what the socket's
  \<^verbatim>\<open>send\<close> does, \<open>timeout\<close> the time to wait in seconds (3.0 when the caller gives
  none). The second part of every result below is the exception that leaves the
  function, if one does.
\<close>

definition send_request ::
    "(signal \<Rightarrow> emit_result) \<Rightarrow> send_result \<Rightarrow> message_handler \<Rightarrow> string \<Rightarrow>
     signal option \<Rightarrow> signal option \<Rightarrow> real \<Rightarrow> message_handler \<times> py_exception option" where
  "send_request env r h mid on_success on_error timeout =
     (let h0 = h\<lparr>pending_requests :=
                   AList.update mid \<lparr>success_signal = on_success, error_signal = on_error\<rparr>
                     (pending_requests h)\<rparr>;
          h1 = start_timer h0 mid (py_int (timeout * 1000));
          (c, ok) = send_raw_message (client h1) r;
          h2 = h1\<lparr>client := c\<rparr>
      in if ok then (h2, None)
         else
           let h3 = cleanup_request h2 mid
           in case on_error of
                None \<Rightarrow> (h3, None)
              | Some sg \<Rightarrow>
                  emit env h3 sg
                    (RequestEmit mid sg (TextValue ''Failed to send request: Not connected'')))"

definition handle_timeout ::
    "(signal \<Rightarrow> emit_result) \<Rightarrow> message_handler \<Rightarrow> string
     \<Rightarrow> message_handler \<times> py_exception option" where
  "handle_timeout env h mid =
     (case map_of (pending_requests h) mid of
        None \<Rightarrow> (h, None)
      | Some request_info \<Rightarrow>
          let h1 = h\<lparr>pending_requests := AList.delete mid (pending_requests h)\<rparr>
          in case error_signal request_info of
               Some sg \<Rightarrow>
                 emit env h1 sg (RequestEmit mid sg (TextValue (''Request timeout for '' @ mid)))
             | None \<Rightarrow> (h1, None))"

text \<open>
  The event loop turns to the timer of a message id. A single-shot timer fires only
  while it runs and once it is due, and runs no more after it fired; its \<^verbatim>\<open>timeout\<close>
  signal is connected to \<^verbatim>\<open>_handle_timeout\<close>.
\<close>

definition timer_fires ::
    "(signal \<Rightarrow> emit_result) \<Rightarrow> message_handler \<Rightarrow> string
     \<Rightarrow> message_handler \<times> py_exception option" where
  "timer_fires env h mid =
     (if mid \<in> running_timers h \<and> timer_due h mid \<le> clock h
      then handle_timeout env (h\<lparr>running_timers := running_timers h - {mid}\<rparr>) mid
      else (h, None))"

text \<open>Time passes: \<open>d\<close> milliseconds.\<close>

definition elapse :: "message_handler \<Rightarrow> nat \<Rightarrow> message_handler" where
  "elapse h d = h\<lparr>clock := clock h + d\<rparr>"

text \<open>
  \<^verbatim>\<open>_handle_response\<close>. \<open>validate\<close> stands for \<^verbatim>\<open>ResponsePayload(**payload)\<close>, with
  \<open>None\<close> for its \<^verbatim>\<open>ValidationError\<close> (whose text is not modelled).
\<close>

definition handle_response ::
    "(signal \<Rightarrow> emit_result) \<Rightarrow> (payload \<Rightarrow> json response_payload option) \<Rightarrow> message_handler \<Rightarrow>
     string \<Rightarrow> payload \<Rightarrow> message_handler \<times> py_exception option" where
  "handle_response env validate h mid content =
     (case map_of (pending_requests h) mid of
        None \<Rightarrow> (h, None)
      | Some request_info \<Rightarrow>
          let h1 = h\<lparr>pending_requests := AList.delete mid (pending_requests h),
                     running_timers := running_timers h - {mid}\<rparr>
          in case validate content of
               None \<Rightarrow> (h1, Some (Exc ValidationError []))
             | Some response \<Rightarrow>
                 let (h2, raised) =
                       (if (case map_of content ''error'' of Some v \<Rightarrow> truthy v | None \<Rightarrow> False)
                        then (case error_signal request_info of
                                Some sg \<Rightarrow>
                                  emit env h1 sg (RequestEmit mid sg (ResponseValue response))
                              | None \<Rightarrow> (h1, None))
                        else (case success_signal request_info of
                                Some sg \<Rightarrow>
                                  emit env h1 sg (RequestEmit mid sg (ResponseValue response))
                              | None \<Rightarrow> (h1, None)))
                 in case raised of
                      None \<Rightarrow> (h2, None)
                    | Some e \<Rightarrow>
                        if exc_cls e = RuntimeError \<and> mentions_deleted e then (h2, None)
                        else (h2, Some e))"

text \<open>
  \<^verbatim>\<open>stop\<close>: the loop over \<^verbatim>\<open>list(self._pending_requests.items())\<close> stops every timer
  and emits the shutdown text on every error signal, passing over a \<^verbatim>\<open>RuntimeError\<close>;
  then the table is cleared.
\<close>

fun stop_requests ::
    "(signal \<Rightarrow> emit_result) \<Rightarrow> message_handler \<Rightarrow> (string \<times> request_dict) list
     \<Rightarrow> message_handler" where
  "stop_requests env h [] = h"
| "stop_requests env h ((mid, request_info) # rest) =
     (let h1 = h\<lparr>running_timers := running_timers h - {mid}\<rparr>;
          h2 = (case error_signal request_info of
                  Some sg \<Rightarrow>
                    fst (emit env h1 sg
                      (RequestEmit mid sg
                        (TextValue ''Client is shutting down. Request cancelled.'')))
                | None \<Rightarrow> h1)
      in stop_requests env h2 rest)"

text \<open>
  What an emit made for a request adds to the emissions: the value on the signal, when
  there is a signal and it is live.
\<close>

definition request_emission ::
    "(signal \<Rightarrow> emit_result) \<Rightarrow> string \<Rightarrow> signal option \<Rightarrow> emitted_value \<Rightarrow> emission list" where
  "request_emission env mid target v =
     (case target of
        Some sg \<Rightarrow> if live env sg then [RequestEmit mid sg v] else []
      | None \<Rightarrow> [])"

text \<open>The signal a response goes to: the error signal when the payload has an error.\<close>

definition response_target :: "request_dict \<Rightarrow> payload \<Rightarrow> signal option" where
  "response_target request_info content =
     (if (case map_of content ''error'' of Some v \<Rightarrow> truthy v | None \<Rightarrow> False)
      then error_signal request_info
      else success_signal request_info)"

text \<open>What the loop of \<^verbatim>\<open>stop\<close> emits for one entry of the table.\<close>

definition shutdown_emissions ::
    "(signal \<Rightarrow> emit_result) \<Rightarrow> string \<times> request_dict \<Rightarrow> emission list" where
  "shutdown_emissions env entry =
     (case error_signal (snd entry) of
        Some sg \<Rightarrow>
          if live env sg
          then [RequestEmit (fst entry) sg
                 (TextValue ''Client is shutting down. Request cancelled.'')]
          else []
      | None \<Rightarrow> [])"

definition MessageHandler_stop ::
    "(signal \<Rightarrow> emit_result) \<Rightarrow> message_handler \<Rightarrow> message_handler" where
  "MessageHandler_stop env h =
     (let h0 = h\<lparr>emitted := emitted h @ [HookEmit Stopping],
                 client := WebSocketClient_stop (client h)\<rparr>;
          h1 = stop_requests env h0 (pending_requests h0)
      in h1\<lparr>pending_requests := []\<rparr>)"

subsection \<open>Subscriptions and \<^verbatim>\<open>sort_data\<close>\<close>

definition subscribe ::
    "message_handler \<Rightarrow> string list \<Rightarrow> signal \<Rightarrow> py_exception + message_handler" where
  "subscribe h types sg =
     (if types = [] then Inl (Exc ValueError ''At least one type required'')
      else Inr (h\<lparr>signal_dict :=
                    foldl (\<lambda>d t. case map_of d t of
                                    None \<Rightarrow> d @ [(t, [sg])]
                                  | Some sgs \<Rightarrow> AList.update t (sgs @ [sg]) d)
                      (signal_dict h) types\<rparr>))"

text \<open>
  The eviction inside \<^verbatim>\<open>sort_data\<close>:
  \<^verbatim>\<open>if signal in self.signal_dict[t]: self.signal_dict[t].remove(signal)\<close>. The
  dictionary is a \<^verbatim>\<open>defaultdict(list)\<close>, so reading a missing key adds it with an empty
  list; \<^verbatim>\<open>remove\<close> takes out the first occurrence.
\<close>

definition evict :: "message_handler \<Rightarrow> string \<Rightarrow> signal \<Rightarrow> message_handler" where
  "evict h t sg =
     (let d = (case map_of (signal_dict h) t of
                 None \<Rightarrow> signal_dict h @ [(t, [])]
               | Some sgs \<Rightarrow> signal_dict h)
      in h\<lparr>signal_dict := AList.map_entry t (remove1 sg) d\<rparr>)"

text \<open>
  The loop of \<^verbatim>\<open>sort_data\<close> over the copy \<^verbatim>\<open>signals_to_emit\<close>: a \<^verbatim>\<open>RuntimeError\<close> whose
  text mentions "deleted" evicts the signal and the loop goes on; any other one is raised
  again and ends the loop.
\<close>

fun fan_out ::
    "(signal \<Rightarrow> emit_result) \<Rightarrow> message_handler \<Rightarrow> string \<Rightarrow> payload \<Rightarrow> signal list
     \<Rightarrow> message_handler \<times> py_exception option" where
  "fan_out env h t content [] = (h, None)"
| "fan_out env h t content (sg # rest) =
     (case emit env h sg (EventEmit sg t content) of
        (h1, None) \<Rightarrow> fan_out env h1 t content rest
      | (h1, Some e) \<Rightarrow>
          if exc_cls e = RuntimeError \<and> mentions_deleted e
          then fan_out env (evict h1 t sg) t content rest
          else (h1, Some e))"

definition sort_data ::
    "(signal \<Rightarrow> emit_result) \<Rightarrow> (payload \<Rightarrow> json response_payload option) \<Rightarrow> message_handler \<Rightarrow>
     message_header \<Rightarrow> payload \<Rightarrow> message_handler \<times> py_exception option" where
  "sort_data env validate h header content =
     (case (if msg_type header = ''response'' then correlation_id header else None) of
        Some (c # cs) \<Rightarrow> handle_response env validate h (c # cs) content
      | _ \<Rightarrow>
          (let signals_to_emit =
                 (case map_of (signal_dict h) (msg_type header) of
                    None \<Rightarrow> []
                  | Some sgs \<Rightarrow> sgs)
           in fan_out env h (msg_type header) content signals_to_emit))"

text \<open>
  What can happen to the requests of the thread-based client: a frame arrives, the
  timeout handler of a request runs, the handler is stopped.
\<close>

datatype handler_event =
    Frame message_header payload
  | Timeout string
  | Stop

fun handler_step ::
    "(signal \<Rightarrow> emit_result) \<Rightarrow> (payload \<Rightarrow> json response_payload option) \<Rightarrow> message_handler \<Rightarrow>
     handler_event \<Rightarrow> message_handler" where
  "handler_step env validate h (Frame header content) =
     fst (sort_data env validate h header content)"
| "handler_step env validate h (Timeout mid) = fst (handle_timeout env h mid)"
| "handler_step env validate h Stop = MessageHandler_stop env h"

definition handler_run ::
    "(signal \<Rightarrow> emit_result) \<Rightarrow> (payload \<Rightarrow> json response_payload option) \<Rightarrow> message_handler \<Rightarrow>
     handler_event list \<Rightarrow> message_handler" where
  "handler_run env validate h es = foldl (handler_step env validate) h es"

text \<open>
  The same with time: a frame arrives, the event loop turns to the timer of a request,
  the handler is stopped, time passes.
\<close>

datatype clock_event =
    Arrives message_header payload
  | TimerTurn string
  | Stops
  | Elapses nat

fun clock_step ::
    "(signal \<Rightarrow> emit_result) \<Rightarrow> (payload \<Rightarrow> json response_payload option) \<Rightarrow> message_handler \<Rightarrow>
     clock_event \<Rightarrow> message_handler" where
  "clock_step env validate h (Arrives header content) =
     fst (sort_data env validate h header content)"
| "clock_step env validate h (TimerTurn mid) = fst (timer_fires env h mid)"
| "clock_step env validate h Stops = MessageHandler_stop env h"
| "clock_step env validate h (Elapses d) = elapse h d"

definition clock_run ::
    "(signal \<Rightarrow> emit_result) \<Rightarrow> (payload \<Rightarrow> json response_payload option) \<Rightarrow> message_handler \<Rightarrow>
     clock_event list \<Rightarrow> message_handler" where
  "clock_run env validate h es = foldl (clock_step env validate) h es"

text \<open>The text that \<^verbatim>\<open>_handle_timeout\<close> emits for a message id.\<close>

definition timeout_text :: "string \<Rightarrow> emitted_value" where
  "timeout_text mid = TextValue (''Request timeout for '' @ mid)"

text \<open>An emission is the timeout of a message id.\<close>

fun is_timeout_of :: "string \<Rightarrow> emission \<Rightarrow> bool" where
  "is_timeout_of mid (RequestEmit m sg v) = (m = mid \<and> v = timeout_text mid)"
| "is_timeout_of mid (EventEmit sg t c) = False"
| "is_timeout_of mid (HookEmit k) = False"

text \<open>The emissions made for one request, in order.\<close>

fun emissions_for :: "string \<Rightarrow> emission list \<Rightarrow> emission list" where
  "emissions_for mid [] = []"
| "emissions_for mid (RequestEmit m sg v # es) =
     (if m = mid then RequestEmit m sg v # emissions_for mid es else emissions_for mid es)"
| "emissions_for mid (EventEmit sg t c # es) = emissions_for mid es"
| "emissions_for mid (HookEmit k # es) = emissions_for mid es"

text \<open>
  Going from \<open>h\<close> to \<open>h'\<close> resolves a message id at most once: at most one emission
  for the id is added, and none unless the id's entry leaves the table.
\<close>

definition resolves_at_most_once ::
    "string \<Rightarrow> message_handler \<Rightarrow> message_handler \<Rightarrow> bool" where
  "resolves_at_most_once mid h h' \<longleftrightarrow>
     (\<exists>xs. emissions_for mid (emitted h') = emissions_for mid (emitted h) @ xs
           \<and> length xs \<le> 1
           \<and> (xs \<noteq> [] \<longrightarrow> mid \<in> fst ` set (pending_requests h)
                            \<and> mid \<notin> fst ` set (pending_requests h')))"

section \<open>Concrete servers and clients\<close>

text \<open>
  A server with the two handlers of \<^verbatim>\<open>func_call\<close> (no plugin is loaded but "alpha",
  which has no configuration) and four more: a coroutine function that raises, a
  function that raises an exception without a message, a coroutine function that is
  cancelled, a function whose own validation fails. Then the header of a request with
  message id "r1".
\<close>

definition get_plugins :: handler where
  "get_plugins =
     Def ''get_plugins'' [] [] (\<lambda>kwargs. Returns (Json (JDict [(''alpha'', JDict [])])))"

definition get_plugin_config :: handler where
  "get_plugin_config =
     Def ''get_plugin_config'' [''name''] []
       (\<lambda>kwargs.
          if map_of kwargs ''name'' = Some (JStr ''alpha'')
          then Returns (Json (JDict [(''error'', JStr ''Plugin config not found'')]))
          else Returns (Json (JDict [(''error'', JStr ''Plugin not found'')])))"

definition demo_fails :: handler where
  "demo_fails = AsyncDef ''fails'' [] [] (\<lambda>kwargs. Raises (Exc ValueError ''bad name''))"

definition demo_silent :: handler where
  "demo_silent = Def ''silent'' [] [] (\<lambda>kwargs. Raises (Exc OtherException []))"

definition demo_cancelled :: handler where
  "demo_cancelled = AsyncDef ''cancelled'' [] [] (\<lambda>kwargs. Raises (Exc CancelledError []))"

definition demo_checks :: handler where
  "demo_checks =
     Def ''checks'' [] [] (\<lambda>kwargs. Raises (Exc ValidationError ''1 validation error''))"

definition demo_server :: server where
  "demo_server =
     register_handler
       (register_handler
         (register_handler
           (register_handler
             (register_handler
               (register_handler Server_init ''get_plugins'' get_plugins)
               ''get_plugin_config'' get_plugin_config)
             ''fails'' demo_fails)
           ''silent'' demo_silent)
         ''cancelled'' demo_cancelled)
       ''checks'' demo_checks"

definition demo_header :: message_header where
  "demo_header =
     \<lparr>msg_id = ''r1'', msg_type = ''request'', correlation_id = Some ''r1'', timestamp = 0\<rparr>"

text \<open>
  A decoder for concrete reads: it takes every text for a well-formed frame of type
  "message" and makes the text the message id.
\<close>

definition demo_decode :: "string \<Rightarrow> py_exception + (message_header option \<times> payload)" where
  "demo_decode m =
     Inr (Some \<lparr>msg_id = m, msg_type = ''message'', correlation_id = None, timestamp = 0\<rparr>, [])"

text \<open>
  Signals for concrete handlers: the object behind signal 2 has been deleted, emitting
  on signal 9 fails for another reason, every other signal is live.
\<close>

definition demo_env :: "signal \<Rightarrow> emit_result" where
  "demo_env sg =
     (if sg = 2 then EmitRuntimeError ''Signal source has been deleted''
      else if sg = 9 then EmitRuntimeError ''boom''
      else Emitted)"

definition demo_event_header :: message_header where
  "demo_event_header =
     \<lparr>msg_id = ''e1'', msg_type = ''message'', correlation_id = None, timestamp = 0\<rparr>"

definition demo_subscribed :: "signal list \<Rightarrow> message_handler" where
  "demo_subscribed sgs = MessageHandler_init\<lparr>signal_dict := [(''message'', sgs)]\<rparr>"

text \<open>
  A thread-based handler whose client is connected, and the handler after three
  requests were sent, each with the default timeout of 3 seconds: "r1" and "r2" with
  success signal 1 and error signal 3, "r3" with no signal, as the defaults of
  \<^verbatim>\<open>send_request\<close> have it.
\<close>

definition demo_connected :: message_handler where
  "demo_connected =
     MessageHandler_init\<lparr>client := WebSocketClient_init\<lparr>ws := Some 7, connected := True\<rparr>\<rparr>"

definition demo_pending :: message_handler where
  "demo_pending =
     fst (send_request demo_env SendOk
       (fst (send_request demo_env SendOk
         (fst (send_request demo_env SendOk demo_connected ''r1'' (Some 1) (Some 3) 3))
         ''r2'' (Some 1) (Some 3) 3))
       ''r3'' None None 3)"

text \<open>
  An async handler on an open connection, after three requests were sent whose callers
  wait for the default 10 seconds, and after one more whose caller took the future and
  does not wait.
\<close>

definition demo_async_connected :: async_handler where
  "demo_async_connected =
     async_handler_init\<lparr>a_client := async_client_init\<lparr>a_ws := Some 7, a_active := True\<rparr>\<rparr>"

definition demo_async_pending :: async_handler where
  "demo_async_pending =
     fst (async_send_request
       (fst (async_send_request
         (fst (async_send_request demo_async_connected ''r1'' False 10 True))
         ''r2'' False 10 True))
       ''r3'' False 10 True)"

definition demo_async_no_wait :: async_handler where
  "demo_async_no_wait = fst (async_send_request demo_async_pending ''r4'' False 10 False)"

text \<open>A validation of response payloads for concrete responses: a whole-number code.\<close>

definition demo_validate :: "payload \<Rightarrow> json response_payload option" where
  "demo_validate content =
     (case map_of content ''code'' of
        Some (JInt c) \<Rightarrow>
          Some \<lparr>code = c,
                data = (case map_of content ''data'' of Some JNull \<Rightarrow> None | d \<Rightarrow> d),
                error = (case map_of content ''error'' of Some (JStr e) \<Rightarrow> Some e | _ \<Rightarrow> None)\<rparr>
      | _ \<Rightarrow> None)"

text \<open>The payload of a response of code 200, as the server's dispatcher dumps it.\<close>

definition demo_ok :: payload where
  "demo_ok = [(''code'', JInt 200), (''data'', JDict [(''result'', JNull)]), (''error'', JNull)]"

text \<open>The header of a response to the request with a given message id.\<close>

definition demo_response_header :: "string \<Rightarrow> message_header" where
  "demo_response_header mid =
     \<lparr>msg_id = ''s1'', msg_type = ''response'', correlation_id = Some mid, timestamp = 0\<rparr>"

section \<open>The concrete clients, computed\<close>

lemma demo_pending_state:
  "pending_requests demo_pending
     = [(''r1'', \<lparr>success_signal = Some 1, error_signal = Some 3\<rparr>),
        (''r2'', \<lparr>success_signal = Some 1, error_signal = Some 3\<rparr>),
        (''r3'', \<lparr>success_signal = None, error_signal = None\<rparr>)]"
  "running_timers demo_pending = {''r1'', ''r2'', ''r3''}"
  "emitted demo_pending = []"
  "signal_dict demo_pending = []"
  by (auto simp: demo_pending_def send_request_def send_raw_message_def demo_connected_def
        MessageHandler_init_def WebSocketClient_init_def Let_def start_timer_def py_int_def)

lemma demo_pending_clock:
  "clock demo_pending = 0"
  "timer_due demo_pending ''r1'' = 3000"
  by (simp_all add: demo_pending_def send_request_def send_raw_message_def demo_connected_def
        MessageHandler_init_def WebSocketClient_init_def Let_def start_timer_def py_int_def)

lemma demo_async_pending_state:
  "a_pending_requests demo_async_pending = [(''r1'', 0), (''r2'', 1), (''r3'', 2)]"
  "futures demo_async_pending 0 = Pending"
  by (simp_all add: demo_async_pending_def demo_async_connected_def async_send_request_def
        async_handler_init_def async_client_init_def Let_def)

lemma demo_async_futures: "futures demo_async_pending r = Pending"
  by (simp add: demo_async_pending_def demo_async_connected_def async_send_request_def
        async_handler_init_def async_client_init_def Let_def)

lemma demo_async_pending_waits:
  "waits demo_async_pending = [(''r1'', 0, 10), (''r2'', 1, 10), (''r3'', 2, 10)]"
  "a_clock demo_async_pending = 0"
  by (simp_all add: demo_async_pending_def demo_async_connected_def async_send_request_def
        async_handler_init_def async_client_init_def Let_def)

lemma demo_async_no_wait_state:
  "a_pending_requests demo_async_no_wait = [(''r1'', 0), (''r2'', 1), (''r3'', 2), (''r4'', 3)]"
  "waits demo_async_no_wait = [(''r1'', 0, 10), (''r2'', 1, 10), (''r3'', 2, 10)]"
  "a_clock demo_async_no_wait = 0"
  "futures demo_async_no_wait 3 = Pending"
  by (simp_all add: demo_async_no_wait_def demo_async_pending_def demo_async_connected_def
        async_send_request_def async_handler_init_def async_client_init_def Let_def)

section \<open>Properties of the server\<close>

subsection \<open>The token check\<close>

lemma start_connect_mismatch:
  "rq_token \<noteq> Some token \<Longrightarrow> start_connect s w rq_token token = (s, False)"
  by (simp add: start_connect_def unawaited_def)

lemma start_connect_match:
  "start_connect s w (Some token) token =
     (s\<lparr>wire := wire s @ [(w, Accept)],
        active_connections := set_add w (active_connections s),
        has_connected := True,
        tasks := (if has_connected s then tasks s else tasks s @ [FlushBuffer])\<rparr>, True)"
  by (simp add: start_connect_def awaited_def Let_def)

lemma start_connect_match_active:
  "w \<in> set (active_connections (fst (start_connect s w (Some token) token)))"
  by (simp add: start_connect_match set_add_def)

text \<open>
  C7. A connection whose token parameter differs from the configured token is neither
  accepted nor added to the active connections, and \<^verbatim>\<open>start\<close> returns before its
  receive loop. But no close is sent: \<^verbatim>\<open>websocket.close(code=4000)\<close> is called without
  \<^verbatim>\<open>await\<close>, so the coroutine never runs and the server does nothing at all on the
  connection. Here connection 1 presents the token "wrong" to a new server configured
  with "secret": the server is left as it was, its wire log is empty, and in particular
  holds no close with code 4000.
\<close>

theorem token_mismatch_sends_no_close:
  "start_connect Server_init 1 (Some ''wrong'') ''secret'' = (Server_init, False)
   \<and> wire (fst (start_connect Server_init 1 (Some ''wrong'') ''secret'')) = []
   \<and> (1, Close 4000) \<notin> set (wire (fst (start_connect Server_init 1 (Some ''wrong'') ''secret'')))
   \<and> active_connections (fst (start_connect Server_init 1 (Some ''wrong'') ''secret'')) = []"
  by (simp add: start_connect_def unawaited_def Server_init_def)

subsection \<open>The broadcast buffer\<close>

lemma sent_to_append: "sent_to c (xs @ ys) = sent_to c xs @ sent_to c ys"
  by (induction c xs rule: sent_to.induct) auto

lemma sent_to_sends:
  "sent_to c (map (\<lambda>w. (w, SendText t d)) conns) = replicate (count_list conns c) (t, d)"
  by (induction conns) auto

lemma real_broadcast_fields:
  "message_buffer (real_broadcast s t d) = message_buffer s"
  "has_connected (real_broadcast s t d) = has_connected s"
  "tasks (real_broadcast s t d) = tasks s"
  "active_connections (real_broadcast s t d) = active_connections s"
  "handlers (real_broadcast s t d) = handlers s"
  by (simp_all add: real_broadcast_def)

lemma real_broadcast_sent:
  "sent_to c (wire (real_broadcast s t d))
     = sent_to c (wire s) @ replicate (count_list (active_connections s) c) (t, d)"
  by (simp add: real_broadcast_def awaited_def sent_to_append sent_to_sends)

lemma real_broadcast_wire_other:
  "active_connections s = [] \<Longrightarrow> real_broadcast s t d = s"
  by (simp add: real_broadcast_def)

lemma set_add_distinct: "distinct xs \<Longrightarrow> distinct (set_add x xs)"
  by (simp add: set_add_def)

lemma count_list_distinct: "distinct xs \<Longrightarrow> count_list xs x \<le> 1"
  by (induction xs) auto

text \<open>One turn of a task, by what the task is.\<close>

lemma run_task_none: "tasks s = [] \<Longrightarrow> run_task s = s"
  by (simp add: run_task_def)

lemma run_task_start:
  "tasks s = FlushBuffer # ts \<Longrightarrow>
   run_task s = s\<lparr>message_buffer := [], tasks := ts @ [FlushBufferLoop (message_buffer s)]\<rparr>"
  by (simp add: run_task_def Let_def)

lemma run_task_done:
  "tasks s = FlushBufferLoop [] # ts \<Longrightarrow> run_task s = s\<lparr>tasks := ts\<rparr>"
  by (simp add: run_task_def)

lemma run_task_send:
  "tasks s = FlushBufferLoop ((t, d) # rest) # ts \<Longrightarrow>
   run_task s = (real_broadcast s t d)\<lparr>tasks := ts @ [FlushBufferLoop rest]\<rparr>"
  by (simp add: run_task_def real_broadcast_def)

lemma run_task_cases:
  obtains "tasks s = []"
  | ts where "tasks s = FlushBuffer # ts"
  | ts where "tasks s = FlushBufferLoop [] # ts"
  | t d rest ts where "tasks s = FlushBufferLoop ((t, d) # rest) # ts"
proof (cases "tasks s")
  case Nil
  then show ?thesis using that(1) by simp
next
  case (Cons k ts)
  show ?thesis
  proof (cases k)
    case FlushBuffer
    with Cons show ?thesis using that(2) by simp
  next
    case (FlushBufferLoop ms)
    show ?thesis
    proof (cases ms)
      case Nil
      with Cons FlushBufferLoop show ?thesis using that(3) by simp
    next
      case (Cons m rest)
      obtain t d where "m = (t, d)" by (cases m)
      with Cons \<open>tasks s = k # ts\<close> FlushBufferLoop show ?thesis using that(4) by simp
    qed
  qed
qed

lemma run_task_fields:
  "has_connected (run_task s) = has_connected s"
  "active_connections (run_task s) = active_connections s"
  "handlers (run_task s) = handlers s"
  by (cases s rule: run_task_cases;
      simp add: run_task_none run_task_start run_task_done run_task_send real_broadcast_fields)+

text \<open>
  What the flush has still to send: the buffer, as long as the task has not taken it,
  and then what the task has left.
\<close>

lemma unsent_flushed: "flushed s \<longleftrightarrow> has_connected s \<and> unsent s = []"
  by (simp add: flushed_def unsent_def)

lemma flushed_step: "flushed s \<Longrightarrow> flushed (server_step token s e)"
proof (cases e)
  case (Publish t d)
  assume "flushed s"
  then show ?thesis
    by (simp add: Publish flushed_def broadcast_def real_broadcast_fields)
next
  case (Connect w rq)
  assume "flushed s"
  then show ?thesis
    by (cases "rq = Some token")
       (simp_all add: Connect flushed_def start_connect_match start_connect_mismatch)
next
  case RunTask
  assume fl: "flushed s"
  show ?thesis
  proof (cases s rule: run_task_cases)
    case 1
    with fl show ?thesis by (simp add: RunTask run_task_none)
  next
    case (2 ts)
    with fl show ?thesis by (simp add: RunTask run_task_start flushed_def)
  next
    case (3 ts)
    with fl show ?thesis by (simp add: RunTask run_task_done flushed_def)
  next
    case (4 t d rest ts)
    with fl show ?thesis by (simp add: flushed_def)
  qed
next
  case (Disconnect w)
  assume "flushed s"
  then show ?thesis
    by (simp add: Disconnect flushed_def cleanup_connection_def)
qed

lemma flushed_run: "flushed s \<Longrightarrow> flushed (server_run token s es)"
  unfolding server_run_def
  by (induction es arbitrary: s) (simp_all add: flushed_step)

lemma quiet_step:
  "flushed s \<Longrightarrow> \<not> is_Publish e \<Longrightarrow>
   sent_to c (wire (server_step token s e)) = sent_to c (wire s)"
proof (cases e)
  case (Publish t d)
  assume "\<not> is_Publish e"
  with Publish show ?thesis by simp
next
  case (Connect w rq)
  show ?thesis
    by (cases "rq = Some token")
       (simp_all add: Connect start_connect_match start_connect_mismatch sent_to_append)
next
  case RunTask
  assume fl: "flushed s"
  show ?thesis
  proof (cases s rule: run_task_cases)
    case 1
    then show ?thesis by (simp add: RunTask run_task_none)
  next
    case (2 ts)
    then show ?thesis by (simp add: RunTask run_task_start)
  next
    case (3 ts)
    then show ?thesis by (simp add: RunTask run_task_done)
  next
    case (4 t d rest ts)
    with fl show ?thesis by (simp add: flushed_def)
  qed
next
  case (Disconnect w)
  show ?thesis
    by (simp add: Disconnect cleanup_connection_def awaited_def sent_to_append)
qed

lemma quiet_run:
  "flushed s \<Longrightarrow> quiet es \<Longrightarrow>
   sent_to c (wire (server_run token s es)) = sent_to c (wire s)"
proof (induction es arbitrary: s)
  case Nil
  show ?case by (simp add: server_run_def)
next
  case (Cons e es)
  from Cons.prems have fl: "flushed (server_step token s e)" and q: "\<not> is_Publish e"
    and rest: "quiet es"
    by (simp_all add: flushed_step)
  have "sent_to c (wire (server_run token (server_step token s e) es))
      = sent_to c (wire (server_step token s e))"
    using fl rest by (rule Cons.IH)
  also have "\<dots> = sent_to c (wire s)"
    using Cons.prems(1) q by (rule quiet_step)
  finally show ?case by (simp add: server_run_def)
qed

lemma server_run_append:
  "server_run token s (es @ fs) = server_run token (server_run token s es) fs"
  by (simp add: server_run_def)

lemma server_run_Cons:
  "server_run token s (e # es) = server_run token (server_step token s e) es"
  by (simp add: server_run_def)

text \<open>The flag, once set, stays set, and the buffer gets no new entry.\<close>

lemma has_connected_step:
  "has_connected s \<Longrightarrow>
   has_connected (server_step token s e)
   \<and> (message_buffer (server_step token s e) = message_buffer s
      \<or> message_buffer (server_step token s e) = [])"
proof (cases e)
  case (Publish t d)
  assume "has_connected s"
  then show ?thesis
    by (simp add: Publish broadcast_def real_broadcast_fields)
next
  case (Connect w rq)
  assume "has_connected s"
  then show ?thesis
    by (cases "rq = Some token")
       (simp_all add: Connect start_connect_match start_connect_mismatch)
next
  case RunTask
  assume "has_connected s"
  then show ?thesis
    by (cases s rule: run_task_cases)
       (simp_all add: RunTask run_task_none run_task_start run_task_done run_task_send
          real_broadcast_fields)
next
  case (Disconnect w)
  assume "has_connected s"
  then show ?thesis
    by (simp add: Disconnect cleanup_connection_def)
qed

lemma has_connected_run:
  "has_connected s \<Longrightarrow>
   has_connected (server_run token s es)
   \<and> (message_buffer (server_run token s es) = message_buffer s
      \<or> message_buffer (server_run token s es) = [])"
proof (induction es arbitrary: s)
  case Nil
  then show ?case by (simp add: server_run_def)
next
  case (Cons e es)
  from has_connected_step [OF Cons.prems, of token e]
  have h: "has_connected (server_step token s e)"
    and b: "message_buffer (server_step token s e) = message_buffer s
        \<or> message_buffer (server_step token s e) = []"
    by simp_all
  from Cons.IH [OF h] b show ?case
    by (auto simp: server_run_Cons)
qed

text \<open>
  In a sequence of events without a publication every consumer is sent the buffered
  messages in order, each at most once.
\<close>

lemma subseq_snoc:
  "subseq xs ys \<Longrightarrow> n \<le> 1 \<Longrightarrow> subseq (xs @ replicate n x) (ys @ [x])"
proof -
  assume a: "subseq xs ys" and "n \<le> 1"
  then have "n = 0 \<or> n = 1" by auto
  then have "subseq (replicate n x) [x]" by auto
  with a show ?thesis by (rule list_emb_append_mono)
qed

lemma sent_in_order_step:
  assumes "sent_in_order c ms s" and "\<not> is_Publish e"
  shows "sent_in_order c ms (server_step token s e)"
proof -
  from assms(1) obtain sent where wf: "well_formed s" and ms: "ms = sent @ unsent s"
    and sub: "subseq (sent_to c (wire s)) sent"
    by (auto simp: sent_in_order_def)
  show ?thesis
  proof (cases e)
    case (Publish t d)
    with assms(2) show ?thesis by simp
  next
    case (Connect w rq)
    show ?thesis
    proof (cases "rq = Some token")
      case False
      with assms(1) show ?thesis
        by (simp add: Connect start_connect_mismatch)
    next
      case True
      let ?s' = "server_step token s e"
      have s': "?s' = s\<lparr>wire := wire s @ [(w, Accept)],
          active_connections := set_add w (active_connections s),
          has_connected := True,
          tasks := (if has_connected s then tasks s else tasks s @ [FlushBuffer])\<rparr>"
        by (simp add: Connect True start_connect_match)
      have "well_formed ?s'"
        using wf by (auto simp: s' well_formed_def set_add_distinct split: if_splits)
      moreover have "unsent ?s' = unsent s"
        by (simp add: s' unsent_def)
      moreover have "sent_to c (wire ?s') = sent_to c (wire s)"
        by (simp add: s' sent_to_append)
      ultimately show ?thesis
        using ms sub by (auto simp: sent_in_order_def)
    qed
  next
    case (Disconnect w)
    let ?s' = "server_step token s e"
    have "well_formed ?s'"
      using wf by (auto simp: Disconnect cleanup_connection_def well_formed_def distinct_removeAll)
    moreover have "unsent ?s' = unsent s"
      by (simp add: Disconnect cleanup_connection_def unsent_def)
    moreover have "sent_to c (wire ?s') = sent_to c (wire s)"
      by (simp add: Disconnect cleanup_connection_def awaited_def sent_to_append)
    ultimately show ?thesis
      using ms sub by (auto simp: sent_in_order_def)
  next
    case RunTask
    show ?thesis
    proof (cases s rule: run_task_cases)
      case 1
      with assms(1) show ?thesis by (simp add: RunTask run_task_none)
    next
      case (2 ts)
      with wf have ts: "ts = []"
        by (auto simp: well_formed_def split: if_splits)
      let ?s' = "server_step token s e"
      have s': "?s' = s\<lparr>message_buffer := [], tasks := [FlushBufferLoop (message_buffer s)]\<rparr>"
        using 2 ts by (simp add: RunTask run_task_start)
      have "well_formed ?s'"
        using wf 2 by (auto simp: s' well_formed_def split: if_splits)
      moreover have "unsent ?s' = unsent s"
        using 2 ts by (simp add: s' unsent_def)
      moreover have "sent_to c (wire ?s') = sent_to c (wire s)"
        by (simp add: s')
      ultimately show ?thesis
        using ms sub by (auto simp: sent_in_order_def)
    next
      case (3 ts)
      with wf have ts: "ts = []"
        by (auto simp: well_formed_def split: if_splits)
      let ?s' = "server_step token s e"
      have s': "?s' = s\<lparr>tasks := []\<rparr>"
        using 3 ts by (simp add: RunTask run_task_done)
      have "well_formed ?s'"
        using wf 3 by (auto simp: s' well_formed_def split: if_splits)
      moreover have "unsent ?s' = unsent s"
        using 3 ts by (simp add: s' unsent_def)
      moreover have "sent_to c (wire ?s') = sent_to c (wire s)"
        by (simp add: s')
      ultimately show ?thesis
        using ms sub by (auto simp: sent_in_order_def)
    next
      case (4 t d rest ts)
      with wf have ts: "ts = []" and buf: "message_buffer s = []"
        and dist: "distinct (active_connections s)"
        by (auto simp: well_formed_def split: if_splits)
      let ?s' = "server_step token s e"
      have s': "?s' = (real_broadcast s t d)\<lparr>tasks := [FlushBufferLoop rest]\<rparr>"
        using 4 ts by (simp add: RunTask run_task_send)
      have "well_formed ?s'"
        using wf 4 by (auto simp: s' well_formed_def real_broadcast_fields split: if_splits)
      moreover have "unsent s = (t, d) # rest"
        using 4 ts buf by (simp add: unsent_def)
      then have "ms = (sent @ [(t, d)]) @ unsent ?s'"
        using ms buf by (simp add: s' unsent_def real_broadcast_fields)
      moreover have "sent_to c (wire ?s')
          = sent_to c (wire s) @ replicate (count_list (active_connections s) c) (t, d)"
        by (simp add: s' real_broadcast_sent)
      then have "subseq (sent_to c (wire ?s')) (sent @ [(t, d)])"
        using sub count_list_distinct [OF dist, of c] by (simp add: subseq_snoc)
      ultimately show ?thesis
        unfolding sent_in_order_def by blast
    qed
  qed
qed

lemma sent_in_order_run:
  "sent_in_order c ms s \<Longrightarrow> quiet es \<Longrightarrow> sent_in_order c ms (server_run token s es)"
proof (induction es arbitrary: s)
  case Nil
  then show ?case by (simp add: server_run_def)
next
  case (Cons e es)
  then have "sent_in_order c ms (server_step token s e)" and "quiet es"
    by (simp_all add: sent_in_order_step)
  then show ?case
    by (simp add: server_run_Cons Cons.IH)
qed

lemma sent_in_order_subseq:
  assumes "sent_in_order c ms s"
  shows "subseq (sent_to c (wire s)) ms"
proof -
  from assms obtain sent where ms: "ms = sent @ unsent s"
    and sub: "subseq (sent_to c (wire s)) sent"
    by (auto simp: sent_in_order_def)
  have "subseq (sent_to c (wire s) @ []) (sent @ unsent s)"
    using sub by (rule list_emb_append_mono) simp
  with ms show ?thesis by simp
qed

lemma buffered_state:
  "server_run token Server_init [Publish t1 d1, Publish t2 d2]
   = Server_init\<lparr>message_buffer := [(t1, d1), (t2, d2)]\<rparr>"
  by (simp add: server_run_def Server_init_def broadcast_def)

lemma buffered_sent_in_order:
  "sent_in_order c [(t1, d1), (t2, d2)]
     (server_run token Server_init [Publish t1 d1, Publish t2 d2])"
  unfolding buffered_state
  by (simp add: sent_in_order_def well_formed_def unsent_def Server_init_def)

text \<open>Concrete schedules for two buffered events.\<close>

lemmas schedule_simps =
  server_run_def Server_init_def broadcast_def start_connect_match set_add_def
  run_task_def real_broadcast_def awaited_def cleanup_connection_def Let_def

lemma attached_state:
  "server_run token Server_init [Publish t1 d1, Publish t2 d2, Connect c1 (Some token)]
   = \<lparr>active_connections = [c1], handlers = Map.empty,
      message_buffer = [(t1, d1), (t2, d2)], has_connected = True, tasks = [FlushBuffer],
      wire = [(c1, Accept)]\<rparr>"
  by (simp add: schedule_simps)

lemma first_flush_state:
  "server_run token Server_init
     [Publish t1 d1, Publish t2 d2, Connect c1 (Some token), RunTask, RunTask, RunTask]
   = \<lparr>active_connections = [c1], handlers = Map.empty, message_buffer = [],
      has_connected = True, tasks = [FlushBufferLoop []],
      wire = [(c1, Accept), (c1, SendText t1 d1), (c1, SendText t2 d2)]\<rparr>"
  by (simp add: schedule_simps)

lemma early_second_state:
  "c2 \<noteq> c1 \<Longrightarrow>
   server_run token Server_init
     [Publish t1 d1, Publish t2 d2, Connect c1 (Some token), Connect c2 (Some token),
      RunTask, RunTask, RunTask]
   = \<lparr>active_connections = [c1, c2], handlers = Map.empty, message_buffer = [],
      has_connected = True, tasks = [FlushBufferLoop []],
      wire = [(c1, Accept), (c2, Accept), (c1, SendText t1 d1), (c2, SendText t1 d1),
              (c1, SendText t2 d2), (c2, SendText t2 d2)]\<rparr>"
  by (simp add: schedule_simps)

lemma between_state:
  "c2 \<noteq> c1 \<Longrightarrow>
   server_run token Server_init
     [Publish t1 d1, Publish t2 d2, Connect c1 (Some token), RunTask, RunTask,
      Connect c2 (Some token), RunTask]
   = \<lparr>active_connections = [c1, c2], handlers = Map.empty, message_buffer = [],
      has_connected = True, tasks = [FlushBufferLoop []],
      wire = [(c1, Accept), (c1, SendText t1 d1), (c2, Accept),
              (c1, SendText t2 d2), (c2, SendText t2 d2)]\<rparr>"
  by (simp add: schedule_simps)

lemma left_early_state:
  "server_run token Server_init
     [Publish t1 d1, Publish t2 d2, Connect c1 (Some token), Disconnect c1,
      RunTask, RunTask, RunTask]
   = \<lparr>active_connections = [], handlers = Map.empty, message_buffer = [],
      has_connected = True, tasks = [FlushBufferLoop []],
      wire = [(c1, Accept), (c1, Close 1000)]\<rparr>"
  by (simp add: schedule_simps)

text \<open>
  C3, as amended. Two events published to a new server before any consumer has
  attached are appended to the buffer in that order and nothing is sent. The first
  consumer's attachment sets \<^verbatim>\<open>has_connected\<close> and only creates the flush task: the
  buffer is still full and nothing has been sent. From then on, whatever happens, the
  flag stays set and the buffer is as it was or empty: nothing is buffered again. In
  every sequence of events without a further publication, each consumer is sent a
  subsequence of the two events: each at most once, the first before the second.

  Which consumers are sent them depends on when the task gets its turns. If it has
  them all (one to take the buffer, one for each event) before any other event, the
  first consumer is sent both events, and as long as nothing new is published it is
  sent nothing more and any other consumer nothing at all. If a second consumer
  attaches before the task's first turn, it is sent both events too; if it attaches
  between the two sends, it is sent the second event. If the first consumer has gone
  before the task's first turn, the events are taken from the buffer and sent to
  nobody, then and later.
\<close>

theorem buffer_flush_schedules:
  "message_buffer (server_run token Server_init [Publish t1 d1, Publish t2 d2])
     = [(t1, d1), (t2, d2)]
   \<and> wire (server_run token Server_init [Publish t1 d1, Publish t2 d2]) = []
   \<and> has_connected (server_run token Server_init
        [Publish t1 d1, Publish t2 d2, Connect c1 (Some token)])
   \<and> tasks (server_run token Server_init
        [Publish t1 d1, Publish t2 d2, Connect c1 (Some token)]) = [FlushBuffer]
   \<and> message_buffer (server_run token Server_init
        [Publish t1 d1, Publish t2 d2, Connect c1 (Some token)]) = [(t1, d1), (t2, d2)]
   \<and> sent_to c (wire (server_run token Server_init
        [Publish t1 d1, Publish t2 d2, Connect c1 (Some token)])) = []
   \<and> has_connected (server_run token Server_init
        ([Publish t1 d1, Publish t2 d2, Connect c1 (Some token)] @ es))
   \<and> (message_buffer (server_run token Server_init
          ([Publish t1 d1, Publish t2 d2, Connect c1 (Some token)] @ es))
        = [(t1, d1), (t2, d2)]
      \<or> message_buffer (server_run token Server_init
          ([Publish t1 d1, Publish t2 d2, Connect c1 (Some token)] @ es)) = [])
   \<and> (quiet es \<longrightarrow>
        subseq (sent_to c (wire (server_run token Server_init
                  ([Publish t1 d1, Publish t2 d2] @ es))))
          [(t1, d1), (t2, d2)])
   \<and> sent_to c1 (wire (server_run token Server_init
        [Publish t1 d1, Publish t2 d2, Connect c1 (Some token), RunTask, RunTask, RunTask]))
       = [(t1, d1), (t2, d2)]
   \<and> message_buffer (server_run token Server_init
        ([Publish t1 d1, Publish t2 d2, Connect c1 (Some token), RunTask, RunTask, RunTask]
         @ es)) = []
   \<and> (quiet es \<longrightarrow>
        sent_to c1 (wire (server_run token Server_init
          ([Publish t1 d1, Publish t2 d2, Connect c1 (Some token), RunTask, RunTask, RunTask]
           @ es)))
          = [(t1, d1), (t2, d2)])
   \<and> (quiet es \<and> c2 \<noteq> c1 \<longrightarrow>
        sent_to c2 (wire (server_run token Server_init
          ([Publish t1 d1, Publish t2 d2, Connect c1 (Some token), RunTask, RunTask, RunTask]
           @ es))) = [])
   \<and> (c2 \<noteq> c1 \<longrightarrow>
        sent_to c2 (wire (server_run token Server_init
          [Publish t1 d1, Publish t2 d2, Connect c1 (Some token), Connect c2 (Some token),
           RunTask, RunTask, RunTask]))
          = [(t1, d1), (t2, d2)])
   \<and> (c2 \<noteq> c1 \<longrightarrow>
        sent_to c2 (wire (server_run token Server_init
          [Publish t1 d1, Publish t2 d2, Connect c1 (Some token), RunTask, RunTask,
           Connect c2 (Some token), RunTask]))
          = [(t2, d2)])
   \<and> message_buffer (server_run token Server_init
        [Publish t1 d1, Publish t2 d2, Connect c1 (Some token), Disconnect c1,
         RunTask, RunTask, RunTask]) = []
   \<and> (quiet es \<longrightarrow>
        sent_to c (wire (server_run token Server_init
          ([Publish t1 d1, Publish t2 d2, Connect c1 (Some token), Disconnect c1,
            RunTask, RunTask, RunTask] @ es))) = [])"
proof -
  let ?pub = "[Publish t1 d1, Publish t2 d2]"
  let ?att = "[Publish t1 d1, Publish t2 d2, Connect c1 (Some token)]"
  let ?fav = "[Publish t1 d1, Publish t2 d2, Connect c1 (Some token), RunTask, RunTask, RunTask]"
  let ?left = "[Publish t1 d1, Publish t2 d2, Connect c1 (Some token), Disconnect c1,
      RunTask, RunTask, RunTask]"
  have p1: "message_buffer (server_run token Server_init ?pub) = [(t1, d1), (t2, d2)]"
    and p2: "wire (server_run token Server_init ?pub) = []"
    unfolding buffered_state by (simp_all add: Server_init_def)
  have a1: "has_connected (server_run token Server_init ?att)"
    and a2: "tasks (server_run token Server_init ?att) = [FlushBuffer]"
    and a3: "message_buffer (server_run token Server_init ?att) = [(t1, d1), (t2, d2)]"
    and a4: "sent_to c (wire (server_run token Server_init ?att)) = []"
    by (simp_all add: attached_state)
  have a5: "has_connected (server_run token Server_init (?att @ es))"
    and a6: "message_buffer (server_run token Server_init (?att @ es)) = [(t1, d1), (t2, d2)]
        \<or> message_buffer (server_run token Server_init (?att @ es)) = []"
    using has_connected_run [OF a1, of token es] a3
    by (simp_all only: server_run_append)
  have o: "subseq (sent_to c (wire (server_run token Server_init (?pub @ es))))
      [(t1, d1), (t2, d2)]" if "quiet es"
  proof -
    have "sent_in_order c [(t1, d1), (t2, d2)]
        (server_run token (server_run token Server_init ?pub) es)"
      using buffered_sent_in_order that by (rule sent_in_order_run)
    then show ?thesis
      by (simp only: server_run_append sent_in_order_subseq)
  qed
  have fl: "flushed (server_run token Server_init ?fav)"
    by (simp add: first_flush_state flushed_def)
  have f1: "sent_to c1 (wire (server_run token Server_init ?fav)) = [(t1, d1), (t2, d2)]"
    by (simp add: first_flush_state)
  have f2: "message_buffer (server_run token Server_init (?fav @ es)) = []"
    using flushed_run [OF fl, of token es]
    by (simp only: server_run_append flushed_def)
  have f3: "sent_to c1 (wire (server_run token Server_init (?fav @ es)))
      = [(t1, d1), (t2, d2)]" if "quiet es"
    using quiet_run [OF fl that, of c1 token] f1
    by (simp only: server_run_append)
  have f4: "sent_to c2 (wire (server_run token Server_init (?fav @ es))) = []"
    if "quiet es" and "c2 \<noteq> c1"
  proof -
    have "sent_to c2 (wire (server_run token Server_init ?fav)) = []"
      using that(2) by (simp add: first_flush_state)
    with quiet_run [OF fl that(1), of c2 token] show ?thesis
      by (simp only: server_run_append)
  qed
  have e1: "sent_to c2 (wire (server_run token Server_init
        [Publish t1 d1, Publish t2 d2, Connect c1 (Some token), Connect c2 (Some token),
         RunTask, RunTask, RunTask])) = [(t1, d1), (t2, d2)]" if "c2 \<noteq> c1"
    using that by (simp add: early_second_state)
  have e2: "sent_to c2 (wire (server_run token Server_init
        [Publish t1 d1, Publish t2 d2, Connect c1 (Some token), RunTask, RunTask,
         Connect c2 (Some token), RunTask])) = [(t2, d2)]" if "c2 \<noteq> c1"
    using that by (simp add: between_state)
  have ll: "flushed (server_run token Server_init ?left)"
    by (simp add: left_early_state flushed_def)
  have l1: "message_buffer (server_run token Server_init ?left) = []"
    by (simp add: left_early_state)
  have l2: "sent_to c (wire (server_run token Server_init (?left @ es))) = []" if "quiet es"
  proof -
    have "sent_to c (wire (server_run token Server_init ?left)) = []"
      by (simp add: left_early_state)
    with quiet_run [OF ll that, of c token] show ?thesis
      by (simp only: server_run_append)
  qed
  show ?thesis
    by (intro conjI impI p1 p2 a1 a2 a3 a4 a5 a6 o f1 f2 f3 f4 e1 e2 l1 l2) simp_all
qed

theorem buffer_flush_schedules_witness:
  "quiet [Connect 2 (Some ''tok''), RunTask, Disconnect 1, Disconnect 2]
   \<and> (2::nat) \<noteq> 1
   \<and> subseq (sent_to 2 (wire (server_run ''tok'' Server_init
        ([Publish ''message'' [(''n'', JInt 1)], Publish ''message'' [(''n'', JInt 2)]]
         @ [Connect 2 (Some ''tok''), RunTask, Disconnect 1, Disconnect 2]))))
        [(''message'', [(''n'', JInt 1)]), (''message'', [(''n'', JInt 2)])]
   \<and> sent_to 1 (wire (server_run ''tok'' Server_init
        ([Publish ''message'' [(''n'', JInt 1)], Publish ''message'' [(''n'', JInt 2)],
          Connect 1 (Some ''tok''), RunTask, RunTask, RunTask]
         @ [Connect 2 (Some ''tok''), RunTask, Disconnect 1, Disconnect 2])))
       = [(''message'', [(''n'', JInt 1)]), (''message'', [(''n'', JInt 2)])]
   \<and> sent_to 2 (wire (server_run ''tok'' Server_init
        ([Publish ''message'' [(''n'', JInt 1)], Publish ''message'' [(''n'', JInt 2)],
          Connect 1 (Some ''tok''), RunTask, RunTask, RunTask]
         @ [Connect 2 (Some ''tok''), RunTask, Disconnect 1, Disconnect 2]))) = []
   \<and> sent_to 2 (wire (server_run ''tok'' Server_init
        [Publish ''message'' [(''n'', JInt 1)], Publish ''message'' [(''n'', JInt 2)],
          Connect 1 (Some ''tok''), Connect 2 (Some ''tok''), RunTask, RunTask, RunTask]))
       = [(''message'', [(''n'', JInt 1)]), (''message'', [(''n'', JInt 2)])]
   \<and> sent_to 2 (wire (server_run ''tok'' Server_init
        [Publish ''message'' [(''n'', JInt 1)], Publish ''message'' [(''n'', JInt 2)],
          Connect 1 (Some ''tok''), RunTask, RunTask, Connect 2 (Some ''tok''), RunTask]))
       = [(''message'', [(''n'', JInt 2)])]
   \<and> sent_to 2 (wire (server_run ''tok'' Server_init
        ([Publish ''message'' [(''n'', JInt 1)], Publish ''message'' [(''n'', JInt 2)],
          Connect 1 (Some ''tok''), Disconnect 1, RunTask, RunTask, RunTask]
         @ [Connect 2 (Some ''tok''), RunTask, Disconnect 1, Disconnect 2]))) = []
   \<and> has_connected (server_run ''tok'' Server_init
        ([Publish ''message'' [(''n'', JInt 1)], Publish ''message'' [(''n'', JInt 2)],
          Connect 1 (Some ''tok''), RunTask, RunTask, RunTask]
         @ [Connect 2 (Some ''tok''), RunTask, Disconnect 1, Disconnect 2]))
   \<and> active_connections (server_run ''tok'' Server_init
        ([Publish ''message'' [(''n'', JInt 1)], Publish ''message'' [(''n'', JInt 2)],
          Connect 1 (Some ''tok''), RunTask, RunTask, RunTask]
         @ [Connect 2 (Some ''tok''), RunTask, Disconnect 1, Disconnect 2])) = []"
proof -
  have quiet: "quiet [Connect 2 (Some ''tok''), RunTask, Disconnect 1, Disconnect 2]"
    by simp
  have active: "active_connections (server_run ''tok'' Server_init
        ([Publish ''message'' [(''n'', JInt 1)], Publish ''message'' [(''n'', JInt 2)],
          Connect 1 (Some ''tok''), RunTask, RunTask, RunTask]
         @ [Connect 2 (Some ''tok''), RunTask, Disconnect 1, Disconnect 2])) = []"
    by (simp add: schedule_simps)
  have flag: "has_connected (server_run ''tok'' Server_init
        ([Publish ''message'' [(''n'', JInt 1)], Publish ''message'' [(''n'', JInt 2)],
          Connect 1 (Some ''tok''), RunTask, RunTask, RunTask]
         @ [Connect 2 (Some ''tok''), RunTask, Disconnect 1, Disconnect 2]))"
    by (simp add: schedule_simps)
  show ?thesis
    using buffer_flush_schedules
      [where token = "''tok''" and ?t1.0 = "''message''" and ?d1.0 = "[(''n'', JInt 1)]"
         and ?t2.0 = "''message''" and ?d2.0 = "[(''n'', JInt 2)]" and ?c1.0 = 1
         and ?c2.0 = 2 and c = 2
         and es = "[Connect 2 (Some ''tok''), RunTask, Disconnect 1, Disconnect 2]"]
      quiet active flag
    by simp
qed

text \<open>
  Against C3 as stated. Consumer 2 attaches after the first consumer and before the
  flush task has had its turn: it is not the first consumer, and it is sent both
  buffered events. And when the first consumer goes away before the task's turn, the
  buffer is emptied and the first consumer has been sent nothing.
\<close>

theorem second_consumer_sent_buffer_counterexample:
  "sent_to 2 (wire (server_run ''tok'' Server_init
        [Publish ''message'' [(''n'', JInt 1)], Publish ''message'' [(''n'', JInt 2)],
          Connect 1 (Some ''tok''), Connect 2 (Some ''tok''), RunTask, RunTask, RunTask]))
     = [(''message'', [(''n'', JInt 1)]), (''message'', [(''n'', JInt 2)])]
   \<and> sent_to 1 (wire (server_run ''tok'' Server_init
        [Publish ''message'' [(''n'', JInt 1)], Publish ''message'' [(''n'', JInt 2)],
          Connect 1 (Some ''tok''), Disconnect 1, RunTask, RunTask, RunTask])) = []
   \<and> message_buffer (server_run ''tok'' Server_init
        [Publish ''message'' [(''n'', JInt 1)], Publish ''message'' [(''n'', JInt 2)],
          Connect 1 (Some ''tok''), Disconnect 1, RunTask, RunTask, RunTask]) = []"
  by (simp add: schedule_simps)

subsection \<open>The dispatcher\<close>

lemma decimal_digit: "n < 10 \<Longrightarrow> decimal n = [''0123456789'' ! n]"
  by (simp add: decimal.simps)

lemma call_fits:
  "bind_arguments h kwargs = None \<Longrightarrow>
   call_handler h kwargs = body h kwargs"
  by (cases h) (simp_all add: call_handler_def call_def)

lemma call_misfit:
  "bind_arguments h kwargs = Some e \<Longrightarrow> call_handler h kwargs = Raises e"
  by (cases h) (simp_all add: call_handler_def call_def)

lemma bind_arguments_TypeError:
  "bind_arguments h kwargs = Some e \<Longrightarrow> exc_cls e = TypeError"
  by (auto simp: bind_arguments_def Let_def unexpected_keyword_def missing_arguments_def
           split: if_splits)

lemma bind_arguments_fits:
  "bind_arguments h kwargs = None
   \<longleftrightarrow> set (map fst kwargs) \<subseteq> set (required h @ optional h)
       \<and> set (required h) \<subseteq> set (map fst kwargs)"
  by (auto simp: bind_arguments_def Let_def filter_empty_conv)

lemma call_handler_uniform:
  "call_handler (Def name req opt b) kwargs = call_handler (AsyncDef name req opt b) kwargs"
  by (simp add: call_handler_def call_def bind_arguments_def Let_def)

text \<open>
  A function defined with \<^verbatim>\<open>def\<close> that hands back a coroutine object is not a coroutine
  function for the dispatcher: the object is not awaited and becomes the result.
\<close>

lemma plain_function_not_awaited:
  "call_handler (Def name [] [] (\<lambda>kwargs. Returns (CoroutineObject result))) []
     = Returns (CoroutineObject result)"
  by (simp add: call_handler_def call_def bind_arguments_def)

lemma handle_request_invalid:
  "RequestPayload content = None \<Longrightarrow>
   handle_request s RequestPayload new_id now header content
     = Inr (response_header new_id now header,
            ResponsePayload 400 None (Some ''Invalid request format''))"
  by (simp add: handle_request_def)

lemma handle_request_unknown:
  "RequestPayload content = Some request \<Longrightarrow> handlers s (req_method request) = None \<Longrightarrow>
   handle_request s RequestPayload new_id now header content
     = Inr (response_header new_id now header,
            ResponsePayload 404 None (Some ''Method not found''))"
  by (simp add: handle_request_def)

lemma handle_request_returns:
  "RequestPayload content = Some request \<Longrightarrow> handlers s (req_method request) = Some h \<Longrightarrow>
   call_handler h (params request) = Returns v \<Longrightarrow>
   handle_request s RequestPayload new_id now header content
     = Inr (response_header new_id now header,
            ResponsePayload 200 (Some [(''result'', v)]) None)"
  by (simp add: handle_request_def)

lemma handle_request_raises:
  "RequestPayload content = Some request \<Longrightarrow> handlers s (req_method request) = Some h \<Longrightarrow>
   call_handler h (params request) = Raises e \<Longrightarrow>
   handle_request s RequestPayload new_id now header content
     = (if exc_cls e = ValidationError
        then Inr (response_header new_id now header,
                  ResponsePayload 400 None (Some ''Invalid request format''))
        else if is_Exception (exc_cls e)
        then Inr (response_header new_id now header,
                  ResponsePayload 500 None (Some (exc_str e)))
        else Inl e)"
  by (simp add: handle_request_def)

lemma handle_request_misfit:
  assumes "RequestPayload content = Some request"
    and "handlers s (req_method request) = Some h"
    and "bind_arguments h (params request) = Some e"
  shows "handle_request s RequestPayload new_id now header content
     = Inr (response_header new_id now header,
            ResponsePayload 500 None (Some (exc_str e)))"
  using assms call_misfit [OF assms(3)] bind_arguments_TypeError [OF assms(3)]
  by (simp add: handle_request_raises)

lemma handle_request_escapes:
  assumes "handle_request s RequestPayload new_id now header content = Inl e"
  shows "\<not> is_Exception (exc_cls e)
         \<and> (\<exists>request h. RequestPayload content = Some request
               \<and> handlers s (req_method request) = Some h
               \<and> call_handler h (params request) = Raises e)"
  using assms
  by (auto simp: handle_request_def split: option.splits outcome.splits if_splits)

text \<open>
  C4, as amended. A payload that does not validate as a \<^verbatim>\<open>RequestPayload\<close> gives code
  400. For one that does: with no handler under the method name the response has code
  404; when the handler's call returns \<open>v\<close>, the response has code 200 and data
  \<^verbatim>\<open>{"result": v}\<close>; when it raises a \<^verbatim>\<open>ValidationError\<close> the code is 400; when it raises
  any other exception that derives from \<^verbatim>\<open>Exception\<close> the code is 500 and the error
  text is \<^verbatim>\<open>str(e)\<close>, whatever that is; an exception that does not derive from
  \<^verbatim>\<open>Exception\<close> leaves the dispatcher, and those are the only ones that do. Parameters
  that do not fit the handler (a keyword that names no parameter, a parameter without
  default that is not given) make the call raise a \<^verbatim>\<open>TypeError\<close>, so the code is 500,
  not 400. A function defined with \<^verbatim>\<open>def\<close> and one defined with \<^verbatim>\<open>async def\<close> that
  have the same parameters and body give the same outcome. Every response answers the
  request: its correlation id is the request's message id.
\<close>

theorem dispatcher_taxonomy:
  "(RequestPayload content = None \<longrightarrow>
      handle_request s RequestPayload new_id now header content
        = Inr (response_header new_id now header,
               ResponsePayload 400 None (Some ''Invalid request format'')))
   \<and> (RequestPayload content = Some request \<and> handlers s (req_method request) = None \<longrightarrow>
      handle_request s RequestPayload new_id now header content
        = Inr (response_header new_id now header,
               ResponsePayload 404 None (Some ''Method not found'')))
   \<and> (RequestPayload content = Some request \<and> handlers s (req_method request) = Some h
        \<and> call_handler h (params request) = Returns v \<longrightarrow>
      handle_request s RequestPayload new_id now header content
        = Inr (response_header new_id now header,
               ResponsePayload 200 (Some [(''result'', v)]) None))
   \<and> (RequestPayload content = Some request \<and> handlers s (req_method request) = Some h
        \<and> call_handler h (params request) = Raises e \<and> exc_cls e = ValidationError \<longrightarrow>
      handle_request s RequestPayload new_id now header content
        = Inr (response_header new_id now header,
               ResponsePayload 400 None (Some ''Invalid request format'')))
   \<and> (RequestPayload content = Some request \<and> handlers s (req_method request) = Some h
        \<and> call_handler h (params request) = Raises e \<and> exc_cls e \<noteq> ValidationError
        \<and> is_Exception (exc_cls e) \<longrightarrow>
      handle_request s RequestPayload new_id now header content
        = Inr (response_header new_id now header,
               ResponsePayload 500 None (Some (exc_str e))))
   \<and> (RequestPayload content = Some request \<and> handlers s (req_method request) = Some h
        \<and> call_handler h (params request) = Raises e \<and> \<not> is_Exception (exc_cls e) \<longrightarrow>
      handle_request s RequestPayload new_id now header content = Inl e)
   \<and> (handle_request s RequestPayload new_id now header content = Inl e' \<longrightarrow>
        \<not> is_Exception (exc_cls e')
        \<and> (\<exists>request' h'. RequestPayload content = Some request'
              \<and> handlers s (req_method request') = Some h'
              \<and> call_handler h' (params request') = Raises e'))
   \<and> (RequestPayload content = Some request \<and> handlers s (req_method request) = Some h
        \<and> \<not> (set (map fst (params request)) \<subseteq> set (required h @ optional h)
              \<and> set (required h) \<subseteq> set (map fst (params request))) \<longrightarrow>
      (\<exists>m. bind_arguments h (params request) = Some (Exc TypeError m)
           \<and> handle_request s RequestPayload new_id now header content
               = Inr (response_header new_id now header,
                      ResponsePayload 500 None (Some m))))
   \<and> (set (map fst kwargs) \<subseteq> set (required h @ optional h)
        \<and> set (required h) \<subseteq> set (map fst kwargs) \<longrightarrow>
      call_handler h kwargs = body h kwargs)
   \<and> call_handler (Def name req opt b) kwargs = call_handler (AsyncDef name req opt b) kwargs
   \<and> correlation_id (response_header new_id now header) = Some (msg_id header)"
proof -
  have esc: "handle_request s RequestPayload new_id now header content = Inl e' \<longrightarrow>
        \<not> is_Exception (exc_cls e')
        \<and> (\<exists>request' h'. RequestPayload content = Some request'
              \<and> handlers s (req_method request') = Some h'
              \<and> call_handler h' (params request') = Raises e')"
    using handle_request_escapes [of s RequestPayload new_id now header content e'] by blast
  have hdr: "correlation_id (response_header new_id now header) = Some (msg_id header)"
    by (simp add: response_header_def)
  have out: "handle_request s RequestPayload new_id now header content = Inl e"
    if "RequestPayload content = Some request" and "handlers s (req_method request) = Some h"
      and "call_handler h (params request) = Raises e" and "\<not> is_Exception (exc_cls e)"
  proof -
    from that(4) have "exc_cls e \<noteq> ValidationError"
      by (cases "exc_cls e") simp_all
    with that show ?thesis
      by (simp add: handle_request_raises)
  qed
  have misfit: "\<exists>m. bind_arguments h (params request) = Some (Exc TypeError m)
           \<and> handle_request s RequestPayload new_id now header content
               = Inr (response_header new_id now header,
                      ResponsePayload 500 None (Some m))"
    if "RequestPayload content = Some request" and "handlers s (req_method request) = Some h"
      and "\<not> (set (map fst (params request)) \<subseteq> set (required h @ optional h)
              \<and> set (required h) \<subseteq> set (map fst (params request)))"
  proof -
    from that(3) have "bind_arguments h (params request) \<noteq> None"
      using bind_arguments_fits [of h "params request"] by blast
    then obtain e where e: "bind_arguments h (params request) = Some e"
      by blast
    obtain c m where cm: "e = Exc c m"
      by (cases e)
    with bind_arguments_TypeError [OF e] have "e = Exc TypeError m"
      by simp
    moreover have "handle_request s RequestPayload new_id now header content
        = Inr (response_header new_id now header,
               ResponsePayload 500 None (Some (exc_str e)))"
      using that(1,2) e by (rule handle_request_misfit)
    ultimately show ?thesis
      using e by simp
  qed
  have fits: "call_handler h kwargs = body h kwargs"
    if "set (map fst kwargs) \<subseteq> set (required h @ optional h)
        \<and> set (required h) \<subseteq> set (map fst kwargs)"
    using that by (simp add: call_fits bind_arguments_fits)
  have c1: "RequestPayload content = None \<longrightarrow>
      handle_request s RequestPayload new_id now header content
        = Inr (response_header new_id now header,
               ResponsePayload 400 None (Some ''Invalid request format''))"
    by (simp add: handle_request_invalid)
  have c2: "RequestPayload content = Some request \<and> handlers s (req_method request) = None \<longrightarrow>
      handle_request s RequestPayload new_id now header content
        = Inr (response_header new_id now header,
               ResponsePayload 404 None (Some ''Method not found''))"
    by (simp add: handle_request_unknown)
  have c3: "RequestPayload content = Some request \<and> handlers s (req_method request) = Some h
        \<and> call_handler h (params request) = Returns v \<longrightarrow>
      handle_request s RequestPayload new_id now header content
        = Inr (response_header new_id now header,
               ResponsePayload 200 (Some [(''result'', v)]) None)"
    by (simp add: handle_request_returns)
  have c4: "RequestPayload content = Some request \<and> handlers s (req_method request) = Some h
        \<and> call_handler h (params request) = Raises e \<and> exc_cls e = ValidationError \<longrightarrow>
      handle_request s RequestPayload new_id now header content
        = Inr (response_header new_id now header,
               ResponsePayload 400 None (Some ''Invalid request format''))"
    by (simp add: handle_request_raises)
  have c5: "RequestPayload content = Some request \<and> handlers s (req_method request) = Some h
        \<and> call_handler h (params request) = Raises e \<and> exc_cls e \<noteq> ValidationError
        \<and> is_Exception (exc_cls e) \<longrightarrow>
      handle_request s RequestPayload new_id now header content
        = Inr (response_header new_id now header,
               ResponsePayload 500 None (Some (exc_str e)))"
    by (simp add: handle_request_raises)
  have c6: "RequestPayload content = Some request \<and> handlers s (req_method request) = Some h
        \<and> call_handler h (params request) = Raises e \<and> \<not> is_Exception (exc_cls e) \<longrightarrow>
      handle_request s RequestPayload new_id now header content = Inl e"
    using out by blast
  have c8: "RequestPayload content = Some request \<and> handlers s (req_method request) = Some h
        \<and> \<not> (set (map fst (params request)) \<subseteq> set (required h @ optional h)
              \<and> set (required h) \<subseteq> set (map fst (params request))) \<longrightarrow>
      (\<exists>m. bind_arguments h (params request) = Some (Exc TypeError m)
           \<and> handle_request s RequestPayload new_id now header content
               = Inr (response_header new_id now header,
                      ResponsePayload 500 None (Some m)))"
    using misfit by blast
  have c9: "set (map fst kwargs) \<subseteq> set (required h @ optional h)
        \<and> set (required h) \<subseteq> set (map fst kwargs) \<longrightarrow>
      call_handler h kwargs = body h kwargs"
    using fits by blast
  show ?thesis
    by (intro conjI c1 c2 c3 c4 c5 c6 esc c8 c9 hdr call_handler_uniform)
qed

lemma demo_handlers:
  "handlers demo_server ''get_plugins'' = Some get_plugins"
  "handlers demo_server ''get_plugin_config'' = Some get_plugin_config"
  "handlers demo_server ''fails'' = Some demo_fails"
  "handlers demo_server ''silent'' = Some demo_silent"
  "handlers demo_server ''cancelled'' = Some demo_cancelled"
  "handlers demo_server ''checks'' = Some demo_checks"
  "handlers demo_server ''foo'' = None"
  by (simp_all add: demo_server_def register_handler_def Server_init_def)

lemma demo_calls:
  "call_handler get_plugins [] = Returns (Json (JDict [(''alpha'', JDict [])]))"
  "call_handler get_plugin_config [(''name'', JStr ''alpha'')]
     = Returns (Json (JDict [(''error'', JStr ''Plugin config not found'')]))"
  "call_handler get_plugin_config []
     = Raises (Exc TypeError
         (''get_plugin_config() missing 1 required positional argument: '' @ repr ''name''))"
  "call_handler demo_fails [] = Raises (Exc ValueError ''bad name'')"
  "call_handler demo_silent [] = Raises (Exc OtherException [])"
  "call_handler demo_cancelled [] = Raises (Exc CancelledError [])"
  "call_handler demo_checks [] = Raises (Exc ValidationError ''1 validation error'')"
  by (simp_all add: call_handler_def call_def bind_arguments_def missing_arguments_def
        decimal_digit get_plugins_def get_plugin_config_def demo_fails_def demo_silent_def
        demo_cancelled_def demo_checks_def)

lemma demo_requests:
  "request_of [(''params'', JDict [])] = None"
  "request_of [(''method'', JStr m), (''params'', JDict kwargs)]
     = Some \<lparr>req_method = m, params = kwargs\<rparr>"
  by (simp_all add: request_of_def)

theorem dispatcher_taxonomy_witness:
  "handle_request demo_server request_of ''r2'' 1 demo_header [(''params'', JDict [])]
     = Inr (response_header ''r2'' 1 demo_header,
            ResponsePayload 400 None (Some ''Invalid request format''))
   \<and> handle_request demo_server request_of ''r2'' 1 demo_header
        [(''method'', JStr ''foo''), (''params'', JDict [])]
     = Inr (response_header ''r2'' 1 demo_header,
            ResponsePayload 404 None (Some ''Method not found''))
   \<and> handle_request demo_server request_of ''r2'' 1 demo_header
        [(''method'', JStr ''get_plugins''), (''params'', JDict [])]
     = Inr (response_header ''r2'' 1 demo_header,
            ResponsePayload 200 (Some [(''result'', Json (JDict [(''alpha'', JDict [])]))]) None)
   \<and> handle_request demo_server request_of ''r2'' 1 demo_header
        [(''method'', JStr ''fails''), (''params'', JDict [])]
     = Inr (response_header ''r2'' 1 demo_header,
            ResponsePayload 500 None (Some ''bad name''))
   \<and> handle_request demo_server request_of ''r2'' 1 demo_header
        [(''method'', JStr ''checks''), (''params'', JDict [])]
     = Inr (response_header ''r2'' 1 demo_header,
            ResponsePayload 400 None (Some ''Invalid request format''))
   \<and> handle_request demo_server request_of ''r2'' 1 demo_header
        [(''method'', JStr ''cancelled''), (''params'', JDict [])]
     = Inl (Exc CancelledError [])
   \<and> \<not> is_Exception (exc_cls (Exc CancelledError []))
   \<and> \<not> set (required get_plugin_config) \<subseteq> set (map fst [])
   \<and> handle_request demo_server request_of ''r2'' 1 demo_header
        [(''method'', JStr ''get_plugin_config''), (''params'', JDict [])]
     = Inr (response_header ''r2'' 1 demo_header,
            ResponsePayload 500 None
              (Some (''get_plugin_config() missing 1 required positional argument: ''
                     @ repr ''name'')))
   \<and> call_handler get_plugin_config [(''name'', JStr ''alpha'')]
     = body get_plugin_config [(''name'', JStr ''alpha'')]"
proof -
  have sig: "required get_plugin_config = [''name'']" "optional get_plugin_config = []"
    by (simp_all add: get_plugin_config_def)
  have bnd: "bind_arguments get_plugin_config []
      = Some (Exc TypeError
          (''get_plugin_config() missing 1 required positional argument: '' @ repr ''name''))"
    by (simp add: bind_arguments_def missing_arguments_def decimal_digit get_plugin_config_def)
  have w1: "handle_request demo_server request_of ''r2'' 1 demo_header [(''params'', JDict [])]
     = Inr (response_header ''r2'' 1 demo_header,
            ResponsePayload 400 None (Some ''Invalid request format''))"
    using dispatcher_taxonomy
        [where s = demo_server
           and RequestPayload = request_of
           and new_id = "''r2''"
           and now = 1
           and header = demo_header
           and content = "[(''params'', JDict [])]"
           and request = "\<lparr>req_method = ''foo'', params = []\<rparr>"
           and h = get_plugins
           and v = "Json JNull"
           and e = "Exc OtherException []"
           and kwargs = "[]"
           and name = "[]"
           and req = "[]"
           and opt = "[]"
           and b = "body get_plugins"
           and ?e' = "Exc OtherException []"]
      demo_requests demo_handlers demo_calls
    by simp
  have w2: "handle_request demo_server request_of ''r2'' 1 demo_header
        [(''method'', JStr ''foo''), (''params'', JDict [])]
     = Inr (response_header ''r2'' 1 demo_header,
            ResponsePayload 404 None (Some ''Method not found''))"
    using dispatcher_taxonomy
        [where s = demo_server
           and RequestPayload = request_of
           and new_id = "''r2''"
           and now = 1
           and header = demo_header
           and content = "[(''method'', JStr ''foo''), (''params'', JDict [])]"
           and request = "\<lparr>req_method = ''foo'', params = []\<rparr>"
           and h = get_plugins
           and v = "Json JNull"
           and e = "Exc OtherException []"
           and kwargs = "[]"
           and name = "[]"
           and req = "[]"
           and opt = "[]"
           and b = "body get_plugins"
           and ?e' = "Exc OtherException []"]
      demo_requests demo_handlers demo_calls
    by simp
  have w3: "handle_request demo_server request_of ''r2'' 1 demo_header
        [(''method'', JStr ''get_plugins''), (''params'', JDict [])]
     = Inr (response_header ''r2'' 1 demo_header,
            ResponsePayload 200 (Some [(''result'', Json (JDict [(''alpha'', JDict [])]))]) None)"
    using dispatcher_taxonomy
        [where s = demo_server
           and RequestPayload = request_of
           and new_id = "''r2''"
           and now = 1
           and header = demo_header
           and content = "[(''method'', JStr ''get_plugins''), (''params'', JDict [])]"
           and request = "\<lparr>req_method = ''get_plugins'', params = []\<rparr>"
           and h = get_plugins
           and v = "Json (JDict [(''alpha'', JDict [])])"
           and e = "Exc OtherException []"
           and kwargs = "[]"
           and name = "[]"
           and req = "[]"
           and opt = "[]"
           and b = "body get_plugins"
           and ?e' = "Exc OtherException []"]
      demo_requests demo_handlers demo_calls
    by simp
  have w4: "handle_request demo_server request_of ''r2'' 1 demo_header
        [(''method'', JStr ''fails''), (''params'', JDict [])]
     = Inr (response_header ''r2'' 1 demo_header,
            ResponsePayload 500 None (Some ''bad name''))"
    using dispatcher_taxonomy
        [where s = demo_server
           and RequestPayload = request_of
           and new_id = "''r2''"
           and now = 1
           and header = demo_header
           and content = "[(''method'', JStr ''fails''), (''params'', JDict [])]"
           and request = "\<lparr>req_method = ''fails'', params = []\<rparr>"
           and h = demo_fails
           and v = "Json JNull"
           and e = "Exc ValueError ''bad name''"
           and kwargs = "[]"
           and name = "[]"
           and req = "[]"
           and opt = "[]"
           and b = "body get_plugins"
           and ?e' = "Exc OtherException []"]
      demo_requests demo_handlers demo_calls
    by simp
  have w5: "handle_request demo_server request_of ''r2'' 1 demo_header
        [(''method'', JStr ''checks''), (''params'', JDict [])]
     = Inr (response_header ''r2'' 1 demo_header,
            ResponsePayload 400 None (Some ''Invalid request format''))"
    using dispatcher_taxonomy
        [where s = demo_server
           and RequestPayload = request_of
           and new_id = "''r2''"
           and now = 1
           and header = demo_header
           and content = "[(''method'', JStr ''checks''), (''params'', JDict [])]"
           and request = "\<lparr>req_method = ''checks'', params = []\<rparr>"
           and h = demo_checks
           and v = "Json JNull"
           and e = "Exc ValidationError ''1 validation error''"
           and kwargs = "[]"
           and name = "[]"
           and req = "[]"
           and opt = "[]"
           and b = "body get_plugins"
           and ?e' = "Exc OtherException []"]
      demo_requests demo_handlers demo_calls
    by simp
  have w6: "handle_request demo_server request_of ''r2'' 1 demo_header
        [(''method'', JStr ''cancelled''), (''params'', JDict [])]
     = Inl (Exc CancelledError [])"
    using dispatcher_taxonomy
        [where s = demo_server
           and RequestPayload = request_of
           and new_id = "''r2''"
           and now = 1
           and header = demo_header
           and content = "[(''method'', JStr ''cancelled''), (''params'', JDict [])]"
           and request = "\<lparr>req_method = ''cancelled'', params = []\<rparr>"
           and h = demo_cancelled
           and v = "Json JNull"
           and e = "Exc CancelledError []"
           and kwargs = "[]"
           and name = "[]"
           and req = "[]"
           and opt = "[]"
           and b = "body get_plugins"
           and ?e' = "Exc CancelledError []"]
      demo_requests demo_handlers demo_calls
    by simp
  have w7: "handle_request demo_server request_of ''r2'' 1 demo_header
        [(''method'', JStr ''get_plugin_config''), (''params'', JDict [])]
     = Inr (response_header ''r2'' 1 demo_header,
            ResponsePayload 500 None
              (Some (''get_plugin_config() missing 1 required positional argument: ''
                     @ repr ''name'')))"
    using dispatcher_taxonomy
        [where s = demo_server
           and RequestPayload = request_of
           and new_id = "''r2''"
           and now = 1
           and header = demo_header
           and content = "[(''method'', JStr ''get_plugin_config''), (''params'', JDict [])]"
           and request = "\<lparr>req_method = ''get_plugin_config'', params = []\<rparr>"
           and h = get_plugin_config
           and v = "Json JNull"
           and e = "Exc OtherException []"
           and kwargs = "[]"
           and name = "[]"
           and req = "[]"
           and opt = "[]"
           and b = "body get_plugins"
           and ?e' = "Exc OtherException []"]
      demo_requests demo_handlers demo_calls sig bnd
    by simp
  have w8: "call_handler get_plugin_config [(''name'', JStr ''alpha'')]
     = body get_plugin_config [(''name'', JStr ''alpha'')]"
    using dispatcher_taxonomy
        [where s = demo_server
           and RequestPayload = request_of
           and new_id = "''r2''"
           and now = 1
           and header = demo_header
           and content = "[(''method'', JStr ''get_plugin_config''), (''params'', JDict [])]"
           and request = "\<lparr>req_method = ''get_plugin_config'', params = []\<rparr>"
           and h = get_plugin_config
           and v = "Json JNull"
           and e = "Exc OtherException []"
           and kwargs = "[(''name'', JStr ''alpha'')]"
           and name = "[]"
           and req = "[]"
           and opt = "[]"
           and b = "body get_plugins"
           and ?e' = "Exc OtherException []"]
      demo_requests demo_handlers demo_calls sig
    by simp
  have w9: "\<not> is_Exception (exc_cls (Exc CancelledError []))"
    by simp
  have w10: "\<not> set (required get_plugin_config) \<subseteq> set (map fst [])"
    by (simp add: sig)
  show ?thesis
    by (intro conjI w1 w2 w3 w4 w5 w6 w7 w8 w9 w10)
qed

text \<open>
  Against C4 as stated. The request for "get_plugin_config" carries no parameter,
  though the handler has the parameter \<^verbatim>\<open>name\<close> without a default: the call raises a
  \<^verbatim>\<open>TypeError\<close> and the response has code 500, not 400. The handler "silent" raises an
  exception with no message, and the response has code 500 with the empty error text.
  The handler "cancelled" raises \<^verbatim>\<open>CancelledError\<close>, which \<^verbatim>\<open>except Exception\<close> does not
  catch: the exception leaves the dispatcher and no response is made.
\<close>

theorem dispatcher_taxonomy_counterexample:
  "handle_request demo_server request_of ''r2'' 1 demo_header
        [(''method'', JStr ''get_plugin_config''), (''params'', JDict [])]
     = Inr (response_header ''r2'' 1 demo_header,
            \<lparr>code = 500, data = None,
             error = Some (''get_plugin_config() missing 1 required positional argument: ''
                           @ repr ''name'')\<rparr>)
   \<and> handle_request demo_server request_of ''r2'' 1 demo_header
        [(''method'', JStr ''silent''), (''params'', JDict [])]
     = Inr (response_header ''r2'' 1 demo_header, \<lparr>code = 500, data = None, error = Some []\<rparr>)
   \<and> handle_request demo_server request_of ''r2'' 1 demo_header
        [(''method'', JStr ''cancelled''), (''params'', JDict [])]
     = Inl (Exc CancelledError [])"
  by (simp add: handle_request_def demo_requests demo_handlers demo_calls ResponsePayload_def)

section \<open>Framing\<close>

lemma str_in_split1: "str_in sep s \<longleftrightarrow> split1 sep s \<noteq> None"
  by (induction s) auto

lemma split1_extend:
  "split1 sep (f @ sep) = Some (f, []) \<Longrightarrow> split1 sep (f @ sep @ rest) = Some (f, rest)"
proof (induction f)
  case Nil
  show ?case
  proof (cases "sep @ rest")
    case Nil
    then show ?thesis by simp
  next
    case (Cons a list)
    have "take (length sep) (a # list) = sep" and "drop (length sep) (a # list) = rest"
      unfolding Cons [symmetric] by simp_all
    then show ?thesis by (simp add: Cons)
  qed
next
  case (Cons c f)
  have no: "take (length sep) (c # f @ sep) \<noteq> sep"
    using Cons.prems by auto
  with Cons.prems have inner: "split1 sep (f @ sep) = Some (f, [])"
    by auto
  have "take (length sep) ((c # f @ sep) @ rest)
      = take (length sep) (c # f @ sep) @ take (length sep - length (c # f @ sep)) rest"
    by (rule take_append)
  then have "take (length sep) (c # f @ sep @ rest) = take (length sep) (c # f @ sep)"
    by simp
  with no have "take (length sep) (c # f @ sep @ rest) \<noteq> sep"
    by simp
  with Cons.IH [OF inner] show ?case by simp
qed

lemma split_frames_none:
  "sep \<noteq> [] \<Longrightarrow> split1 sep b = None \<Longrightarrow> split_frames sep b = Inr ([], b)"
  by (subst split_frames.simps) simp

lemma split_frames_empty: "sep \<noteq> [] \<Longrightarrow> split_frames sep [] = Inr ([], [])"
  by (rule split_frames_none) simp_all

lemma split_frames_frame:
  "sep \<noteq> [] \<Longrightarrow> split1 sep (f @ sep) = Some (f, []) \<Longrightarrow>
   split_frames sep (f @ sep @ rest)
     = (case split_frames sep rest of
          Inl e \<Rightarrow> Inl e
        | Inr (msgs, left) \<Rightarrow> Inr (f # msgs, left))"
  by (subst split_frames.simps) (simp add: split1_extend)

lemma split_frames_last:
  "sep \<noteq> [] \<Longrightarrow> split1 sep (f @ sep) = Some (f, []) \<Longrightarrow>
   split_frames sep (f @ sep) = Inr ([f], [])"
  using split_frames_frame [of sep f "[]"] by (simp add: split_frames_empty)

text \<open>
  The server's receive loop and the async client's: one read that holds two frames,
  each followed by the separator, hands on the two frames in wire order and leaves the
  buffer empty. A frame is taken whole when the first separator in the frame followed by
  the separator is the one that follows it.
\<close>

lemma receive_two_frames:
  assumes "sep \<noteq> []"
    and "split1 sep (f1 @ sep) = Some (f1, [])"
    and "split1 sep (f2 @ sep) = Some (f2, [])"
  shows "receive_loop sep [] [f1 @ sep @ f2 @ sep] = Inr ([f1, f2], [])"
    and "Server_receive sep decode [f1 @ sep @ f2 @ sep] = Inr [decode f1, decode f2]"
    and "WebSocketClient_receiver sep decode [f1 @ sep @ f2 @ sep] = Inr [decode f1, decode f2]"
proof -
  have "split_frames sep (f1 @ sep @ (f2 @ sep)) = Inr ([f1, f2], [])"
    using assms by (simp add: split_frames_frame split_frames_last del: append_assoc)
  then show loop: "receive_loop sep [] [f1 @ sep @ f2 @ sep] = Inr ([f1, f2], [])"
    by simp
  from loop show "Server_receive sep decode [f1 @ sep @ f2 @ sep] = Inr [decode f1, decode f2]"
    by (simp add: Server_receive_def)
  from loop show
    "WebSocketClient_receiver sep decode [f1 @ sep @ f2 @ sep] = Inr [decode f1, decode f2]"
    by (simp add: WebSocketClient_receiver_def)
qed

text \<open>
  A read that holds only the beginning of a frame hands on nothing and is kept in the
  buffer; the frame is handed on when the read with its end arrives.
\<close>

lemma receive_partial_frame:
  assumes "sep \<noteq> []"
    and "split1 sep p = None"
    and "p @ q = f @ sep"
    and "split1 sep (f @ sep) = Some (f, [])"
  shows "receive_loop sep [] [p] = Inr ([], p)"
    and "receive_loop sep [] [p, q] = Inr ([f], [])"
    and "Server_receive sep decode [p] = Inr []"
    and "Server_receive sep decode [p, q] = Inr [decode f]"
    and "WebSocketClient_receiver sep decode [p] = Inr []"
    and "WebSocketClient_receiver sep decode [p, q] = Inr [decode f]"
proof -
  show one: "receive_loop sep [] [p] = Inr ([], p)"
    using assms(1,2) by (simp add: split_frames_none)
  show two: "receive_loop sep [] [p, q] = Inr ([f], [])"
    using assms by (simp add: split_frames_none split_frames_last)
  from one show "Server_receive sep decode [p] = Inr []"
    by (simp add: Server_receive_def)
  from two show "Server_receive sep decode [p, q] = Inr [decode f]"
    by (simp add: Server_receive_def)
  from one show "WebSocketClient_receiver sep decode [p] = Inr []"
    by (simp add: WebSocketClient_receiver_def)
  from two show "WebSocketClient_receiver sep decode [p, q] = Inr [decode f]"
    by (simp add: WebSocketClient_receiver_def)
qed

text \<open>
  The thread-based client's \<^verbatim>\<open>_handle_message\<close> emits at most one signal for a read,
  and what follows the first separator of the read has no part in it.
\<close>

lemma handle_message_at_most_one:
  "WebSocketWorker_handle_message sep decode raw_data = Inr sigs \<Longrightarrow> length sigs \<le> 1"
  by (auto simp: WebSocketWorker_handle_message_def
           split: if_splits option.splits sum.splits prod.splits)

lemma handle_message_ignores_rest:
  "sep \<noteq> [] \<Longrightarrow> split1 sep (f @ sep) = Some (f, []) \<Longrightarrow>
   WebSocketWorker_handle_message sep decode (f @ sep @ rest)
     = WebSocketWorker_handle_message sep decode (f @ sep)"
  by (simp add: WebSocketWorker_handle_message_def split1_extend)

lemma handle_message_keeps_nothing:
  "sep \<noteq> [] \<Longrightarrow> split1 sep p = None \<Longrightarrow>
   WebSocketWorker_reads sep decode (p # reads) = WebSocketWorker_reads sep decode reads"
  by (simp add: WebSocketWorker_handle_message_def split: sum.splits)

text \<open>
  C2. With the separator "#": the read "a#b#" holds the frames "a" and "b". The
  server's loop and the async client's loop decode both, in wire order. The
  thread-based client emits \<^verbatim>\<open>message_received\<close> for "a" only: "b" is dropped. The
  reads "a" and then "#" deliver the frame "a" in two parts: the two loops decode "a"
  when the second read arrives, while the thread-based client drops the first read and
  decodes the empty text before the separator of the second.
\<close>

theorem thread_client_drops_frames:
  "Server_receive ''#'' demo_decode [''a#b#''] = Inr [demo_decode ''a'', demo_decode ''b'']
   \<and> WebSocketClient_receiver ''#'' demo_decode [''a#b#'']
       = Inr [demo_decode ''a'', demo_decode ''b'']
   \<and> WebSocketWorker_reads ''#'' demo_decode [''a#b#'']
       = Inr [MessageReceived
               \<lparr>msg_id = ''a'', msg_type = ''message'', correlation_id = None, timestamp = 0\<rparr> []]
   \<and> Server_receive ''#'' demo_decode [''a'', ''#''] = Inr [demo_decode ''a'']
   \<and> WebSocketClient_receiver ''#'' demo_decode [''a'', ''#''] = Inr [demo_decode ''a'']
   \<and> WebSocketWorker_reads ''#'' demo_decode [''a'', ''#'']
       = Inr [MessageReceived
               \<lparr>msg_id = [], msg_type = ''message'', correlation_id = None, timestamp = 0\<rparr> []]"
proof -
  have sep: "''#'' \<noteq> []" by simp
  have a: "split1 ''#'' (''a'' @ ''#'') = Some (''a'', [])" by simp
  have b: "split1 ''#'' (''b'' @ ''#'') = Some (''b'', [])" by simp
  have p: "split1 ''#'' ''a'' = None" by simp
  have pq: "''a'' @ ''#'' = ''a'' @ ''#''" by simp
  have two: "''a#b#'' = ''a'' @ ''#'' @ ''b'' @ ''#''" by simp
  have worker2: "WebSocketWorker_reads ''#'' demo_decode [''a#b#'']
       = Inr [MessageReceived
               \<lparr>msg_id = ''a'', msg_type = ''message'', correlation_id = None, timestamp = 0\<rparr> []]"
    by (simp add: WebSocketWorker_handle_message_def demo_decode_def)
  have worker1: "WebSocketWorker_reads ''#'' demo_decode [''a'', ''#'']
       = Inr [MessageReceived
               \<lparr>msg_id = [], msg_type = ''message'', correlation_id = None, timestamp = 0\<rparr> []]"
    by (simp add: WebSocketWorker_handle_message_def demo_decode_def)
  show ?thesis
    unfolding two
    using receive_two_frames(2,3) [OF sep a b, of demo_decode]
      receive_partial_frame(4,6) [OF sep p pq a, of demo_decode]
      worker1 worker2 [unfolded two]
    by simp
qed

section \<open>Properties of the async client\<close>

subsection \<open>The queues of \<^verbatim>\<open>get_message\<close>\<close>

lemma init_queue_keys: "map fst (queues async_handler_init) = queue_types"
  by (simp add: async_handler_init_def queue_types_def)

lemma update_present_keys: "map_of al k = Some v \<Longrightarrow> map fst (AList.update k w al) = map fst al"
  by (induction al) auto

lemma async_sort_data_queue_keys:
  "map fst (queues (async_sort_data validate h header content)) = map fst (queues h)"
  by (auto simp: async_sort_data_def Let_def update_present_keys split: option.splits)

lemma wait_for_timeout_queue_keys:
  "map fst (queues (fst (wait_for_timeout h mid future))) = map fst (queues h)"
  by (simp add: wait_for_timeout_def Let_def split: option.splits)

lemma async_send_request_queue_keys:
  "map fst (queues (fst (async_send_request h mid send_closed timeout wait)))
     = map fst (queues h)"
  by (simp add: async_send_request_def Let_def)

lemma async_step_queue_keys:
  "map fst (queues (async_step validate h e)) = map fst (queues h)"
  by (cases e) (simp_all add: async_sort_data_queue_keys wait_for_timeout_queue_keys)

lemma async_run_queue_keys:
  "map fst (queues (async_run validate h es)) = map fst (queues h)"
  unfolding async_run_def
  by (induction es arbitrary: h) (simp_all add: async_step_queue_keys)

lemma queue_lookup_keys: "map_of al k = None \<longleftrightarrow> k \<notin> set (map fst al)"
  by (simp add: map_of_eq_None_iff)

lemma get_message_no_types:
  "get_message h [] = Inl (Exc ValueError ''At least one type required'')"
  by (simp add: get_message_def)

lemma get_message_unknown_type:
  assumes "t \<in> set types" and "t \<notin> set (map fst (queues h))"
  shows "\<exists>k. k \<in> set types \<and> k \<notin> set (map fst (queues h))
             \<and> get_message h types = Inl (Exc KeyError k)"
proof -
  from assms have "find (\<lambda>t. map_of (queues h) t = None) types \<noteq> None"
    by (auto simp: find_None_iff queue_lookup_keys)
  then obtain k where k: "find (\<lambda>t. map_of (queues h) t = None) types = Some k"
    by auto
  then have "k \<in> set types" and "map_of (queues h) k = None"
    by (auto simp: find_Some_iff)
  with k assms(1) show ?thesis
    by (auto simp: get_message_def queue_lookup_keys)
qed

lemma get_message_waits:
  assumes "get_message h types = Inr r"
  shows "types \<noteq> [] \<and> set types \<subseteq> set (map fst (queues h)) \<and> r = types"
proof -
  from assms have ne: "types \<noteq> []" and none: "find (\<lambda>t. map_of (queues h) t = None) types = None"
    and r: "r = types"
    by (auto simp: get_message_def split: if_splits option.splits)
  from none have "set types \<subseteq> set (map fst (queues h))"
    by (auto simp: find_None_iff queue_lookup_keys)
  with ne r show ?thesis by simp
qed

text \<open>
  C9. On the async client, whatever frames, timeouts and clean-ups its handler has seen
  since it was made: \<^verbatim>\<open>get_message\<close> with no type raises \<^verbatim>\<open>ValueError\<close>; with a type
  that is none of "message", "call_api", "bot_connect" and "bot_disconnect" among its
  arguments it raises \<^verbatim>\<open>KeyError\<close> (for the first such argument); and when it raises
  nothing and goes on to wait, every type given is one of the four.
\<close>

theorem get_message_only_four_types:
  "get_message (async_run validate async_handler_init es) []
     = Inl (Exc ValueError ''At least one type required'')
   \<and> (t \<in> set types \<and> t \<notin> set queue_types \<longrightarrow>
        (\<exists>k. k \<in> set types \<and> k \<notin> set queue_types
             \<and> get_message (async_run validate async_handler_init es) types
                 = Inl (Exc KeyError k)))
   \<and> (get_message (async_run validate async_handler_init es) types = Inr r \<longrightarrow>
        types \<noteq> [] \<and> set types \<subseteq> set queue_types)"
proof -
  let ?h = "async_run validate async_handler_init es"
  have keys: "map fst (queues ?h) = queue_types"
    by (simp add: async_run_queue_keys init_queue_keys)
  show ?thesis
    using get_message_no_types [of ?h] get_message_unknown_type [of t types ?h]
      get_message_waits [of ?h types r]
    unfolding keys by blast
qed

theorem get_message_only_four_types_witness:
  "''notice'' \<in> set [''message'', ''notice''] \<and> ''notice'' \<notin> set queue_types
   \<and> get_message async_handler_init [''message'', ''notice''] = Inl (Exc KeyError ''notice'')
   \<and> get_message async_handler_init [''message'', ''call_api''] = Inr [''message'', ''call_api'']
   \<and> set [''message'', ''call_api''] \<subseteq> set queue_types
   \<and> get_message async_handler_init [] = Inl (Exc ValueError ''At least one type required'')"
proof -
  have run: "async_run validate async_handler_init [] = async_handler_init" for validate
    by (simp add: async_run_def)
  have bad: "get_message async_handler_init [''message'', ''notice''] = Inl (Exc KeyError ''notice'')"
    by (simp add: get_message_def async_handler_init_def)
  have good: "get_message async_handler_init [''message'', ''call_api'']
      = Inr [''message'', ''call_api'']"
    by (simp add: get_message_def async_handler_init_def)
  show ?thesis
    using get_message_only_four_types
        [of "\<lambda>c. None" "[]" "''notice''" "[''message'', ''notice'']" "[''message'', ''notice'']"]
      get_message_only_four_types
        [of "\<lambda>c. None" "[]" "''notice''" "[''message'', ''call_api'']" "[''message'', ''call_api'']"]
      bad good
    by (simp add: run queue_types_def)
qed

section \<open>Properties of the thread-based client\<close>

subsection \<open>Fan-out to subscribers\<close>

lemma emit_live:
  "live env sg \<Longrightarrow> emit env h sg e = (h\<lparr>emitted := emitted h @ [e]\<rparr>, None)"
  by (simp add: emit_def live_def)

lemma emit_gone:
  "gone env sg \<Longrightarrow> \<exists>m. emit env h sg e = (h, Some (Exc RuntimeError m))
                        \<and> mentions_deleted (Exc RuntimeError m)"
  by (auto simp: emit_def gone_def mentions_deleted_def split: emit_result.splits)

lemma live_not_gone: "live env sg \<Longrightarrow> \<not> gone env sg"
  by (simp add: live_def gone_def)

lemma evict_lookup:
  "map_of (signal_dict h) t = Some sgs \<Longrightarrow>
   map_of (signal_dict (evict h t sg)) t' = (if t' = t then Some (remove1 sg sgs) else map_of (signal_dict h) t')"
  by (simp add: evict_def map_of_map_entry)

lemma evict_fields:
  "emitted (evict h t sg) = emitted h"
  "pending_requests (evict h t sg) = pending_requests h"
  "running_timers (evict h t sg) = running_timers h"
  "client (evict h t sg) = client h"
  by (simp_all add: evict_def Let_def)

text \<open>
  The loop, started with the signals \<open>rest\<close> still to visit, while the entry of the type
  holds the signals kept so far followed by \<open>rest\<close>.
\<close>

lemma fan_out_live_or_gone:
  assumes "live_or_gone env rest"
    and "list_all (live env) kept"
    and "map_of (signal_dict h) t = Some (kept @ rest)"
  shows "\<exists>h'. fan_out env h t content rest = (h', None)
           \<and> emitted h' = emitted h @ map (\<lambda>sg. EventEmit sg t content) (filter (live env) rest)
           \<and> map_of (signal_dict h') t = Some (kept @ filter (live env) rest)
           \<and> (\<forall>t'. t' \<noteq> t \<longrightarrow> map_of (signal_dict h') t' = map_of (signal_dict h) t')
           \<and> pending_requests h' = pending_requests h"
  using assms
proof (induction rest arbitrary: h kept)
  case Nil
  then show ?case by simp
next
  case (Cons sg rest)
  show ?case
  proof (cases "live env sg")
    case True
    let ?h1 = "h\<lparr>emitted := emitted h @ [EventEmit sg t content]\<rparr>"
    have step: "fan_out env h t content (sg # rest) = fan_out env ?h1 t content rest"
      using True by (simp add: emit_live)
    have "list_all (live env) (kept @ [sg])"
      using Cons.prems(2) True by simp
    moreover have "map_of (signal_dict ?h1) t = Some ((kept @ [sg]) @ rest)"
      using Cons.prems(3) by simp
    moreover have "live_or_gone env rest"
      using Cons.prems(1) by simp
    ultimately obtain h' where
      "fan_out env ?h1 t content rest = (h', None)"
      "emitted h' = emitted ?h1 @ map (\<lambda>sg. EventEmit sg t content) (filter (live env) rest)"
      "map_of (signal_dict h') t = Some ((kept @ [sg]) @ filter (live env) rest)"
      "\<forall>t'. t' \<noteq> t \<longrightarrow> map_of (signal_dict h') t' = map_of (signal_dict ?h1) t'"
      "pending_requests h' = pending_requests ?h1"
      using Cons.IH [of "kept @ [sg]" ?h1] by blast
    with step True show ?thesis by simp
  next
    case False
    with Cons.prems(1) have g: "gone env sg" by simp
    then obtain m where m: "emit env h sg (EventEmit sg t content) = (h, Some (Exc RuntimeError m))"
      and del: "mentions_deleted (Exc RuntimeError m)"
      using emit_gone by blast
    let ?h1 = "evict h t sg"
    have step: "fan_out env h t content (sg # rest) = fan_out env ?h1 t content rest"
      using m del by simp
    have "sg \<notin> set kept"
      using Cons.prems(2) False by (auto simp: list_all_iff)
    then have "remove1 sg (kept @ sg # rest) = kept @ rest"
      by (simp add: remove1_append)
    then have look: "map_of (signal_dict ?h1) t = Some (kept @ rest)"
      using Cons.prems(3) by (simp add: evict_lookup)
    have other: "t' \<noteq> t \<Longrightarrow> map_of (signal_dict ?h1) t' = map_of (signal_dict h) t'" for t'
      using Cons.prems(3) by (simp add: evict_lookup)
    have "live_or_gone env rest"
      using Cons.prems(1) by simp
    with Cons.prems(2) look obtain h' where
      "fan_out env ?h1 t content rest = (h', None)"
      "emitted h' = emitted ?h1 @ map (\<lambda>sg. EventEmit sg t content) (filter (live env) rest)"
      "map_of (signal_dict h') t = Some (kept @ filter (live env) rest)"
      "\<forall>t'. t' \<noteq> t \<longrightarrow> map_of (signal_dict h') t' = map_of (signal_dict ?h1) t'"
      "pending_requests h' = pending_requests ?h1"
      using Cons.IH [of kept ?h1] by blast
    with step False other show ?thesis by (simp add: evict_fields)
  qed
qed

text \<open>
  A signal whose emit raises a \<^verbatim>\<open>RuntimeError\<close> that does not mention "deleted" ends
  the loop: the error is raised again, and the signals after it are not visited.
\<close>

lemma fan_out_other_error:
  assumes "list_all (live env) before"
    and "env sg = EmitRuntimeError m"
    and "\<not> str_in ''deleted'' (lower m)"
  shows "fan_out env h t content (before @ sg # after)
           = (h\<lparr>emitted := emitted h @ map (\<lambda>sg. EventEmit sg t content) before\<rparr>,
              Some (Exc RuntimeError m))"
  using assms(1)
proof (induction before arbitrary: h)
  case Nil
  show ?case
    using assms(2,3) by (simp add: emit_def mentions_deleted_def)
next
  case (Cons b before)
  then have "live env b" and "list_all (live env) before" by simp_all
  then show ?case
    by (simp add: emit_live Cons.IH)
qed

lemma fan_out_other_error_evicting:
  assumes "live_or_gone env before"
    and "list_all (live env) kept"
    and "map_of (signal_dict h) t = Some (kept @ before @ sg # after)"
    and "env sg = EmitRuntimeError m"
    and "\<not> str_in ''deleted'' (lower m)"
  shows "\<exists>h'. fan_out env h t content (before @ sg # after) = (h', Some (Exc RuntimeError m))
           \<and> emitted h' = emitted h @ map (\<lambda>sg. EventEmit sg t content) (filter (live env) before)
           \<and> map_of (signal_dict h') t = Some (kept @ filter (live env) before @ sg # after)"
  using assms(1,2,3)
proof (induction before arbitrary: h kept)
  case Nil
  then show ?case
    using assms(4,5) by (simp add: emit_def mentions_deleted_def)
next
  case (Cons b before)
  show ?case
  proof (cases "live env b")
    case True
    let ?h1 = "h\<lparr>emitted := emitted h @ [EventEmit b t content]\<rparr>"
    have step: "fan_out env h t content ((b # before) @ sg # after)
        = fan_out env ?h1 t content (before @ sg # after)"
      using True by (simp add: emit_live)
    have "live_or_gone env before"
      using Cons.prems(1) by simp
    moreover have "list_all (live env) (kept @ [b])"
      using Cons.prems(2) True by simp
    moreover have "map_of (signal_dict ?h1) t = Some ((kept @ [b]) @ before @ sg # after)"
      using Cons.prems(3) by simp
    ultimately obtain h' where
      "fan_out env ?h1 t content (before @ sg # after) = (h', Some (Exc RuntimeError m))"
      "emitted h' = emitted ?h1
         @ map (\<lambda>sg. EventEmit sg t content) (filter (live env) before)"
      "map_of (signal_dict h') t = Some ((kept @ [b]) @ filter (live env) before @ sg # after)"
      using Cons.IH [of "kept @ [b]" ?h1] by blast
    with step True show ?thesis by simp
  next
    case False
    with Cons.prems(1) have "gone env b" by simp
    then obtain m' where m': "emit env h b (EventEmit b t content) = (h, Some (Exc RuntimeError m'))"
      and del: "mentions_deleted (Exc RuntimeError m')"
      using emit_gone by blast
    let ?h1 = "evict h t b"
    have step: "fan_out env h t content ((b # before) @ sg # after)
        = fan_out env ?h1 t content (before @ sg # after)"
      using m' del by simp
    have "b \<notin> set kept"
      using Cons.prems(2) False by (auto simp: list_all_iff)
    then have "remove1 b (kept @ b # before @ sg # after) = kept @ before @ sg # after"
      by (simp add: remove1_append)
    then have look: "map_of (signal_dict ?h1) t = Some (kept @ before @ sg # after)"
      using Cons.prems(3) by (simp add: evict_lookup)
    have "live_or_gone env before"
      using Cons.prems(1) by simp
    with Cons.prems(2) look obtain h' where
      "fan_out env ?h1 t content (before @ sg # after) = (h', Some (Exc RuntimeError m))"
      "emitted h' = emitted ?h1
         @ map (\<lambda>sg. EventEmit sg t content) (filter (live env) before)"
      "map_of (signal_dict h') t = Some (kept @ filter (live env) before @ sg # after)"
      using Cons.IH [of kept ?h1] by blast
    with step False show ?thesis by (simp add: evict_fields)
  qed
qed

text \<open>
  Every list of signals is of one of the two kinds: all its signals are live or gone, or
  it has a first signal whose emit raises a \<^verbatim>\<open>RuntimeError\<close> that does not mention
  "deleted".
\<close>

lemma fan_out_cases:
  "live_or_gone env sgs
   \<or> (\<exists>before sg after m. sgs = before @ sg # after \<and> live_or_gone env before
         \<and> env sg = EmitRuntimeError m \<and> \<not> str_in ''deleted'' (lower m))"
proof (induction sgs)
  case Nil
  show ?case by simp
next
  case (Cons a sgs)
  show ?case
  proof (cases "live env a \<or> gone env a")
    case False
    then obtain m where "env a = EmitRuntimeError m" and "\<not> str_in ''deleted'' (lower m)"
      by (cases "env a") (auto simp: live_def gone_def)
    then have "a # sgs = [] @ a # sgs \<and> live_or_gone env []
        \<and> env a = EmitRuntimeError m \<and> \<not> str_in ''deleted'' (lower m)"
      by simp
    then show ?thesis by blast
  next
    case True
    from Cons.IH show ?thesis
    proof
      assume "live_or_gone env sgs"
      with True show ?thesis by simp
    next
      assume "\<exists>before sg after m. sgs = before @ sg # after \<and> live_or_gone env before
         \<and> env sg = EmitRuntimeError m \<and> \<not> str_in ''deleted'' (lower m)"
      then obtain before sg after m where
        "sgs = before @ sg # after" "live_or_gone env before"
        "env sg = EmitRuntimeError m" "\<not> str_in ''deleted'' (lower m)"
        by blast
      with True have "a # sgs = (a # before) @ sg # after \<and> live_or_gone env (a # before)
          \<and> env sg = EmitRuntimeError m \<and> \<not> str_in ''deleted'' (lower m)"
        by simp
      then show ?thesis by blast
    qed
  qed
qed

lemma sort_data_event:
  "msg_type header \<noteq> ''response'' \<Longrightarrow>
   sort_data env validate h header content
     = fan_out env h (msg_type header) content
         (case map_of (signal_dict h) (msg_type header) of None \<Rightarrow> [] | Some sgs \<Rightarrow> sgs)"
  by (simp add: sort_data_def)

text \<open>
  C8, as amended. Thread-based client: when an event that is no response is fanned out
  to the signals subscribed to its type, and every signal is either live or gone (its
  emit raises a \<^verbatim>\<open>RuntimeError\<close> that mentions "deleted"), then no exception leaves
  \<^verbatim>\<open>sort_data\<close>, every live signal is sent the event, in subscription order, and after
  the call the type is subscribed by the live signals only: the gone ones were taken
  out at this dispatch, and no other type's subscribers changed. The first signal whose
  emit raises a \<^verbatim>\<open>RuntimeError\<close> that does not mention "deleted" ends the fan-out: the
  error is raised again; of the signals before it the live ones were sent the event and
  the gone ones were taken out; that signal and the ones after it are sent nothing and
  stay subscribed. Every list of subscribers is of one of these two kinds. Server:
  \<^verbatim>\<open>_real_broadcast\<close> calls \<^verbatim>\<open>send_text\<close> once on every active connection and evicts
  none of them.
\<close>

theorem fan_out_best_effort:
  "(msg_type header \<noteq> ''response''
      \<and> map_of (signal_dict h) (msg_type header) = Some sgs
      \<and> live_or_gone env sgs \<longrightarrow>
      snd (sort_data env validate h header content) = None
      \<and> emitted (fst (sort_data env validate h header content))
          = emitted h @ map (\<lambda>sg. EventEmit sg (msg_type header) content) (filter (live env) sgs)
      \<and> map_of (signal_dict (fst (sort_data env validate h header content))) (msg_type header)
          = Some (filter (live env) sgs)
      \<and> (\<forall>t'. t' \<noteq> msg_type header \<longrightarrow>
            map_of (signal_dict (fst (sort_data env validate h header content))) t'
              = map_of (signal_dict h) t'))
   \<and> (msg_type header \<noteq> ''response''
      \<and> map_of (signal_dict h) (msg_type header) = Some (before @ sg # after)
      \<and> live_or_gone env before \<and> env sg = EmitRuntimeError m
      \<and> \<not> str_in ''deleted'' (lower m) \<longrightarrow>
      snd (sort_data env validate h header content) = Some (Exc RuntimeError m)
      \<and> emitted (fst (sort_data env validate h header content))
          = emitted h
            @ map (\<lambda>sg. EventEmit sg (msg_type header) content) (filter (live env) before)
      \<and> map_of (signal_dict (fst (sort_data env validate h header content))) (msg_type header)
          = Some (filter (live env) before @ sg # after))
   \<and> (live_or_gone env subscribers
      \<or> (\<exists>before sg after m. subscribers = before @ sg # after \<and> live_or_gone env before
            \<and> env sg = EmitRuntimeError m \<and> \<not> str_in ''deleted'' (lower m)))
   \<and> active_connections (real_broadcast s t d) = active_connections s
   \<and> sent_to c (wire (real_broadcast s t d))
       = sent_to c (wire s) @ replicate (count_list (active_connections s) c) (t, d)"
proof -
  have part1: "snd (sort_data env validate h header content) = None
      \<and> emitted (fst (sort_data env validate h header content))
          = emitted h @ map (\<lambda>sg. EventEmit sg (msg_type header) content) (filter (live env) sgs)
      \<and> map_of (signal_dict (fst (sort_data env validate h header content))) (msg_type header)
          = Some (filter (live env) sgs)
      \<and> (\<forall>t'. t' \<noteq> msg_type header \<longrightarrow>
            map_of (signal_dict (fst (sort_data env validate h header content))) t'
              = map_of (signal_dict h) t')"
    if "msg_type header \<noteq> ''response''"
      and "map_of (signal_dict h) (msg_type header) = Some sgs"
      and "live_or_gone env sgs"
  proof -
    have "map_of (signal_dict h) (msg_type header) = Some ([] @ sgs)"
      using that(2) by simp
    with that(3) obtain h' where
      "fan_out env h (msg_type header) content sgs = (h', None)"
      "emitted h' = emitted h
         @ map (\<lambda>sg. EventEmit sg (msg_type header) content) (filter (live env) sgs)"
      "map_of (signal_dict h') (msg_type header) = Some ([] @ filter (live env) sgs)"
      "\<forall>t'. t' \<noteq> msg_type header \<longrightarrow> map_of (signal_dict h') t' = map_of (signal_dict h) t'"
      using fan_out_live_or_gone [of env sgs "[]" h "msg_type header" content] by auto
    then show ?thesis
      using that(1,2) by (simp add: sort_data_event)
  qed
  have part2: "snd (sort_data env validate h header content) = Some (Exc RuntimeError m)
      \<and> emitted (fst (sort_data env validate h header content))
          = emitted h
            @ map (\<lambda>sg. EventEmit sg (msg_type header) content) (filter (live env) before)
      \<and> map_of (signal_dict (fst (sort_data env validate h header content))) (msg_type header)
          = Some (filter (live env) before @ sg # after)"
    if "msg_type header \<noteq> ''response''"
      and "map_of (signal_dict h) (msg_type header) = Some (before @ sg # after)"
      and "live_or_gone env before" and "env sg = EmitRuntimeError m"
      and "\<not> str_in ''deleted'' (lower m)"
  proof -
    have "map_of (signal_dict h) (msg_type header) = Some ([] @ before @ sg # after)"
      using that(2) by simp
    with that(3,4,5) obtain h' where
      "fan_out env h (msg_type header) content (before @ sg # after)
         = (h', Some (Exc RuntimeError m))"
      "emitted h' = emitted h
         @ map (\<lambda>sg. EventEmit sg (msg_type header) content) (filter (live env) before)"
      "map_of (signal_dict h') (msg_type header)
         = Some ([] @ filter (live env) before @ sg # after)"
      using fan_out_other_error_evicting
          [of env before "[]" h "msg_type header" sg after m content]
      by auto
    then show ?thesis
      using that(1,2) by (simp add: sort_data_event)
  qed
  show ?thesis
    using part1 part2 fan_out_cases [of env subscribers]
      real_broadcast_fields(4) [of s t d] real_broadcast_sent [of c s t d]
    by blast
qed

lemma demo_env_signals:
  "live demo_env 1" "gone demo_env 2" "live demo_env 3"
  "demo_env 9 = EmitRuntimeError ''boom''" "\<not> str_in ''deleted'' (lower ''boom'')"
  by (simp_all add: demo_env_def live_def gone_def lower_def char_lower_def)

lemma demo_subscribed_by_subscribe:
  "subscribe MessageHandler_init [''message''] 1 = Inr (demo_subscribed [1])"
  by (simp add: subscribe_def demo_subscribed_def MessageHandler_init_def)

theorem fan_out_best_effort_witness:
  "msg_type demo_event_header \<noteq> ''response''
   \<and> map_of (signal_dict (demo_subscribed [1, 2, 3])) (msg_type demo_event_header) = Some [1, 2, 3]
   \<and> live_or_gone demo_env [1, 2, 3]
   \<and> snd (sort_data demo_env demo_validate (demo_subscribed [1, 2, 3]) demo_event_header []) = None
   \<and> emitted (fst (sort_data demo_env demo_validate (demo_subscribed [1, 2, 3]) demo_event_header []))
       = [EventEmit 1 ''message'' [], EventEmit 3 ''message'' []]
   \<and> map_of (signal_dict
        (fst (sort_data demo_env demo_validate (demo_subscribed [1, 2, 3]) demo_event_header [])))
        ''message'' = Some [1, 3]
   \<and> map_of (signal_dict (demo_subscribed [1, 2, 9, 3])) (msg_type demo_event_header)
       = Some ([1, 2] @ 9 # [3])
   \<and> live_or_gone demo_env [1, 2]
   \<and> demo_env 9 = EmitRuntimeError ''boom''
   \<and> \<not> str_in ''deleted'' (lower ''boom'')
   \<and> snd (sort_data demo_env demo_validate (demo_subscribed [1, 2, 9, 3]) demo_event_header [])
       = Some (Exc RuntimeError ''boom'')
   \<and> emitted (fst (sort_data demo_env demo_validate (demo_subscribed [1, 2, 9, 3])
        demo_event_header [])) = [EventEmit 1 ''message'' []]
   \<and> map_of (signal_dict
        (fst (sort_data demo_env demo_validate (demo_subscribed [1, 2, 9, 3]) demo_event_header [])))
        ''message'' = Some [1, 9, 3]
   \<and> \<not> live_or_gone demo_env [1, 2, 9, 3]"
proof -
  have ty: "msg_type demo_event_header = ''message''"
    by (simp add: demo_event_header_def)
  have look: "map_of (signal_dict (demo_subscribed sgs)) ''message'' = Some sgs" for sgs
    by (simp add: demo_subscribed_def)
  have em: "emitted (demo_subscribed sgs) = []" for sgs
    by (simp add: demo_subscribed_def MessageHandler_init_def)
  have all: "live_or_gone demo_env [1, 2, 3]" "live_or_gone demo_env [1, 2]"
    using demo_env_signals by simp_all
  have nl: "\<not> live demo_env 2" "\<not> live demo_env 9" "\<not> gone demo_env 9"
    by (simp_all add: demo_env_def live_def gone_def lower_def char_lower_def)
  show ?thesis
    using fan_out_best_effort
        [where header = demo_event_header and h = "demo_subscribed [1, 2, 3]"
           and sgs = "[1, 2, 3]" and env = demo_env and validate = demo_validate and content = "[]"
           and before = "[]" and sg = 0 and after = "[]" and m = "[]"
           and subscribers = "[1, 2, 3]"]
      fan_out_best_effort
        [where header = demo_event_header and h = "demo_subscribed [1, 2, 9, 3]"
           and sgs = "[]" and env = demo_env and validate = demo_validate and content = "[]"
           and before = "[1, 2]" and sg = 9 and after = "[3]" and m = "''boom''"
           and subscribers = "[1, 2, 9, 3]"]
      demo_env_signals all nl
    by (simp add: ty look em)
qed

text \<open>
  Against C8 as stated. Signals 1, 9 and 3 subscribe to "message" and the emit on
  signal 9 fails with a \<^verbatim>\<open>RuntimeError\<close> that does not mention "deleted": the error
  leaves \<^verbatim>\<open>sort_data\<close>, signal 3 is not sent the event, and signal 9 stays subscribed.
  And the server's \<^verbatim>\<open>_real_broadcast\<close> leaves both of two active connections in the
  set, whatever becomes of its sends.
\<close>

theorem fan_out_stops_counterexample:
  "snd (sort_data demo_env demo_validate (demo_subscribed [1, 9, 3]) demo_event_header [])
     = Some (Exc RuntimeError ''boom'')
   \<and> emitted (fst (sort_data demo_env demo_validate (demo_subscribed [1, 9, 3]) demo_event_header []))
       = [EventEmit 1 ''message'' []]
   \<and> map_of (signal_dict
        (fst (sort_data demo_env demo_validate (demo_subscribed [1, 9, 3]) demo_event_header [])))
        ''message'' = Some [1, 9, 3]
   \<and> active_connections (real_broadcast (Server_init\<lparr>active_connections := [1, 2]\<rparr>) ''message'' [])
       = [1, 2]"
proof -
  have ty: "msg_type demo_event_header = ''message''"
    by (simp add: demo_event_header_def)
  have "sort_data demo_env demo_validate (demo_subscribed [1, 9, 3]) demo_event_header []
       = ((demo_subscribed [1, 9, 3])\<lparr>emitted := emitted (demo_subscribed [1, 9, 3])
              @ map (\<lambda>sg. EventEmit sg ''message'' []) [1]\<rparr>,
          Some (Exc RuntimeError ''boom''))"
    using fan_out_other_error [of demo_env "[1]" 9 "''boom''" "demo_subscribed [1, 9, 3]"
        "''message''" "[]" "[3]"] demo_env_signals
    by (simp add: sort_data_event ty demo_subscribed_def)
  then show ?thesis
    by (simp add: demo_subscribed_def MessageHandler_init_def real_broadcast_def)
qed

subsection \<open>Requests of the thread-based client\<close>

lemma str_in_suffix: "str_in x (p @ x)"
proof (induction p)
  case Nil
  show ?case by (cases x) simp_all
next
  case (Cons c p)
  then show ?case by simp
qed

lemma fst_emit: "fst (emit env h sg e) = (if live env sg then h\<lparr>emitted := emitted h @ [e]\<rparr> else h)"
  by (simp add: emit_def live_def split: emit_result.splits)

lemma emit_fields:
  "pending_requests (fst (emit env h sg e)) = pending_requests h"
  "running_timers (fst (emit env h sg e)) = running_timers h"
  "client (fst (emit env h sg e)) = client h"
  "signal_dict (fst (emit env h sg e)) = signal_dict h"
  by (simp_all add: fst_emit)

lemma handle_timeout_absent:
  "map_of (pending_requests h) mid = None \<Longrightarrow> handle_timeout env h mid = (h, None)"
  by (simp add: handle_timeout_def)

lemma handle_timeout_fields:
  assumes "map_of (pending_requests h) mid = Some request_info"
  shows "pending_requests (fst (handle_timeout env h mid)) = AList.delete mid (pending_requests h)"
    and "running_timers (fst (handle_timeout env h mid)) = running_timers h"
    and "client (fst (handle_timeout env h mid)) = client h"
    and "signal_dict (fst (handle_timeout env h mid)) = signal_dict h"
  using assms
  by (simp_all add: handle_timeout_def Let_def emit_fields split: option.splits)

lemma handle_timeout_emitted:
  assumes "map_of (pending_requests h) mid = Some request_info"
  shows "emitted (fst (handle_timeout env h mid))
           = emitted h @
             (case error_signal request_info of
                Some sg \<Rightarrow>
                  if live env sg
                  then [RequestEmit mid sg (TextValue (''Request timeout for '' @ mid))]
                  else []
              | None \<Rightarrow> [])"
  using assms
  by (simp add: handle_timeout_def Let_def fst_emit split: option.splits)

lemma deleted_lookup: "map_of (AList.delete k al) k = None"
  by (simp add: delete_conv')

lemma wait_for_timeout_pending:
  assumes "map_of (a_pending_requests a) mid = Some future" and "futures a future = Pending"
  shows "snd (wait_for_timeout a mid future) = Some (Exc TimeoutError [])"
    and "a_pending_requests (fst (wait_for_timeout a mid future))
           = AList.delete mid (a_pending_requests a)"
    and "futures (fst (wait_for_timeout a mid future)) = (futures a)(future := Cancelled)"
    and "a_client (fst (wait_for_timeout a mid future)) = a_client a"
  using assms by (simp_all add: wait_for_timeout_def Let_def)

lemma wait_for_timeout_done:
  "futures a future \<noteq> Pending \<Longrightarrow> wait_for_timeout a mid future = (a, None)"
  by (simp add: wait_for_timeout_def)

subsection \<open>Shutdown\<close>

lemma stop_requests_fields:
  "pending_requests (stop_requests env h reqs) = pending_requests h"
  "client (stop_requests env h reqs) = client h"
  "signal_dict (stop_requests env h reqs) = signal_dict h"
  by (induction reqs arbitrary: h) (auto simp: Let_def fst_emit split: option.splits)

lemma stop_requests_timers:
  "running_timers (stop_requests env h reqs) = running_timers h - fst ` set reqs"
proof (induction reqs arbitrary: h)
  case Nil
  show ?case by simp
next
  case (Cons entry reqs)
  obtain mid request_info where entry: "entry = (mid, request_info)"
    by (cases entry)
  have "running_timers (stop_requests env h (entry # reqs))
      = (running_timers h - {mid}) - fst ` set reqs"
    by (simp add: entry Let_def Cons.IH emit_fields split: option.splits)
  also have "\<dots> = running_timers h - fst ` set (entry # reqs)"
    by (auto simp: entry)
  finally show ?case .
qed

lemma stop_requests_emitted:
  "emitted (stop_requests env h reqs) = emitted h @ concat (map (shutdown_emissions env) reqs)"
  by (induction reqs arbitrary: h)
     (auto simp: Let_def fst_emit shutdown_emissions_def split: option.splits)

lemma stop_pending: "pending_requests (MessageHandler_stop env h) = []"
  by (simp add: MessageHandler_stop_def Let_def)

lemma stop_timers:
  "running_timers (MessageHandler_stop env h) = running_timers h - fst ` set (pending_requests h)"
  by (simp add: MessageHandler_stop_def Let_def stop_requests_timers)

lemma stop_emitted:
  "emitted (MessageHandler_stop env h)
     = emitted h @ HookEmit Stopping # concat (map (shutdown_emissions env) (pending_requests h))"
  by (simp add: MessageHandler_stop_def Let_def stop_requests_emitted)

lemma stop_client: "client (MessageHandler_stop env h) = WebSocketClient_stop (client h)"
  by (simp add: MessageHandler_stop_def Let_def stop_requests_fields)

lemma handle_response_absent:
  "map_of (pending_requests h) mid = None \<Longrightarrow>
   handle_response env validate h mid content = (h, None)"
  by (simp add: handle_response_def)

lemma connection_lost_fields:
  "pending_requests (WebSocketWorker_connection_lost h) = pending_requests h"
  "running_timers (WebSocketWorker_connection_lost h) = running_timers h"
  "emitted (WebSocketWorker_connection_lost h) = emitted h"
  by (simp_all add: WebSocketWorker_connection_lost_def connection_state_signal_def
        handle_connection_change_def Let_def)

text \<open>
  C5, as amended. Thread-based client, explicit teardown: \<^verbatim>\<open>MessageHandler.stop\<close>
  leaves the pending table empty, stops the timer of every entry that was pending, and
  emits, after its \<^verbatim>\<open>stopping\<close> hook and in the order of the table, the text
  \<^verbatim>\<open>Client is shutting down. Request cancelled.\<close> on the error signal of every entry
  that has a live one, at once and not at the entry's timeout. After it no timer of
  those entries fires, however much time passes, and the timeout handler and the
  response handler do nothing for any id. A connection that drops while the thread-based client receives, and the
  clean-up of the async client's connection, leave the pending entries, their timers
  and their futures as they are, and emit nothing.
\<close>

theorem stop_fails_pending_requests:
  "pending_requests (MessageHandler_stop env h) = []
   \<and> running_timers (MessageHandler_stop env h)
       = running_timers h - fst ` set (pending_requests h)
   \<and> emitted (MessageHandler_stop env h)
       = emitted h @ HookEmit Stopping
           # concat (map (shutdown_emissions env) (pending_requests h))
   \<and> ((mid, request_info) \<in> set (pending_requests h)
        \<and> error_signal request_info = Some sg \<and> live env sg \<longrightarrow>
        RequestEmit mid sg (TextValue ''Client is shutting down. Request cancelled.'')
          \<in> set (emitted (MessageHandler_stop env h)))
   \<and> (mid \<in> fst ` set (pending_requests h) \<longrightarrow>
        timer_fires env' (elapse (MessageHandler_stop env h) d) mid
          = (elapse (MessageHandler_stop env h) d, None))
   \<and> handle_timeout env' (MessageHandler_stop env h) mid' = (MessageHandler_stop env h, None)
   \<and> handle_response env' validate (MessageHandler_stop env h) mid' content
       = (MessageHandler_stop env h, None)
   \<and> pending_requests (WebSocketWorker_connection_lost h) = pending_requests h
   \<and> running_timers (WebSocketWorker_connection_lost h) = running_timers h
   \<and> emitted (WebSocketWorker_connection_lost h) = emitted h
   \<and> a_pending_requests (async_step validate a ACleanup) = a_pending_requests a
   \<and> futures (async_step validate a ACleanup) = futures a"
proof -
  let ?h' = "MessageHandler_stop env h"
  have emitted_one: "RequestEmit mid sg (TextValue ''Client is shutting down. Request cancelled.'')
        \<in> set (emitted ?h')"
    if "(mid, request_info) \<in> set (pending_requests h)"
      and "error_signal request_info = Some sg" and "live env sg"
  proof -
    have "RequestEmit mid sg (TextValue ''Client is shutting down. Request cancelled.'')
        \<in> set (shutdown_emissions env (mid, request_info))"
      using that(2,3) by (simp add: shutdown_emissions_def)
    with that(1) show ?thesis
      by (auto simp: stop_emitted)
  qed
  have no_timer: "timer_fires env' (elapse ?h' d) mid = (elapse ?h' d, None)"
    if "mid \<in> fst ` set (pending_requests h)"
    using that by (simp add: timer_fires_def elapse_def stop_timers)
  have none: "map_of (pending_requests ?h') mid' = None"
    by (simp add: stop_pending)
  have no_timeout: "handle_timeout env' ?h' mid' = (?h', None)"
    using none by (rule handle_timeout_absent)
  have no_response: "handle_response env' validate ?h' mid' content = (?h', None)"
    using none by (rule handle_response_absent)
  have async: "a_pending_requests (async_step validate a ACleanup) = a_pending_requests a
      \<and> futures (async_step validate a ACleanup) = futures a"
    by simp
  show ?thesis
    using stop_pending [of env h] stop_timers [of env h] stop_emitted [of env h]
      emitted_one no_timer no_timeout no_response connection_lost_fields [of h] async
    by blast
qed

theorem stop_fails_pending_requests_witness:
  "(''r2'', \<lparr>success_signal = Some 1, error_signal = Some 3\<rparr>) \<in> set (pending_requests demo_pending)
   \<and> live demo_env 3
   \<and> ''r2'' \<in> fst ` set (pending_requests demo_pending)
   \<and> pending_requests (MessageHandler_stop demo_env demo_pending) = []
   \<and> running_timers (MessageHandler_stop demo_env demo_pending) = {}
   \<and> emitted (MessageHandler_stop demo_env demo_pending)
       = [HookEmit Stopping,
          RequestEmit ''r1'' 3 (TextValue ''Client is shutting down. Request cancelled.''),
          RequestEmit ''r2'' 3 (TextValue ''Client is shutting down. Request cancelled.'')]
   \<and> timer_fires demo_env (elapse (MessageHandler_stop demo_env demo_pending) 5000) ''r2''
       = (elapse (MessageHandler_stop demo_env demo_pending) 5000, None)"
proof -
  have l3: "live demo_env 3"
    by (simp add: demo_env_def live_def)
  have mem: "(''r2'', \<lparr>success_signal = Some 1, error_signal = Some 3\<rparr>)
      \<in> set (pending_requests demo_pending)"
    by (simp add: demo_pending_state)
  have key: "''r2'' \<in> fst ` set (pending_requests demo_pending)"
    by (simp add: demo_pending_state)
  have timers: "running_timers demo_pending - fst ` set (pending_requests demo_pending) = {}"
    by (auto simp: demo_pending_state)
  have ems: "concat (map (shutdown_emissions demo_env) (pending_requests demo_pending))
      = [RequestEmit ''r1'' 3 (TextValue ''Client is shutting down. Request cancelled.''),
         RequestEmit ''r2'' 3 (TextValue ''Client is shutting down. Request cancelled.'')]"
    using l3 by (simp add: demo_pending_state shutdown_emissions_def)
  show ?thesis
    using stop_fails_pending_requests
        [where env = demo_env and h = demo_pending and mid = "''r2''" and sg = 3
           and request_info = "\<lparr>success_signal = Some 1, error_signal = Some 3\<rparr>"
           and env' = demo_env and d = 5000]
      l3 mem key
    by (simp only: timers ems demo_pending_state(3)) simp
qed

text \<open>
  Against C5 as stated, with three requests pending. Thread-based client: the
  connection drops while the worker receives; the three entries stay in the table,
  their timers keep running and nothing is emitted. Async client: the connection is
  cleaned up; the three entries stay in the table and their futures stay pending.
\<close>

theorem connection_drop_counterexample:
  "map fst (pending_requests (WebSocketWorker_connection_lost demo_pending))
     = [''r1'', ''r2'', ''r3'']
   \<and> running_timers (WebSocketWorker_connection_lost demo_pending) = {''r1'', ''r2'', ''r3''}
   \<and> emitted (WebSocketWorker_connection_lost demo_pending) = []
   \<and> a_pending_requests (async_step demo_validate demo_async_pending ACleanup)
       = [(''r1'', 0), (''r2'', 1), (''r3'', 2)]
   \<and> futures (async_step demo_validate demo_async_pending ACleanup) 0 = Pending
   \<and> futures (async_step demo_validate demo_async_pending ACleanup) 1 = Pending
   \<and> futures (async_step demo_validate demo_async_pending ACleanup) 2 = Pending"
  by (simp add: connection_lost_fields demo_pending_state demo_async_pending_state
        demo_async_futures)

subsection \<open>At most one resolution per request\<close>

lemma emissions_for_append:
  "emissions_for mid (xs @ ys) = emissions_for mid xs @ emissions_for mid ys"
  by (induction mid xs rule: emissions_for.induct) auto

lemma request_emission_length:
  "length (request_emission env k target v) \<le> 1"
  "length (request_emission env k target v) \<le> Suc 0"
  by (simp_all add: request_emission_def split: option.splits)

lemma emissions_for_request_emission:
  "emissions_for mid (request_emission env k target v)
     = (if k = mid then request_emission env k target v else [])"
  by (simp add: request_emission_def split: option.splits)

lemma shutdown_emissions_request:
  "shutdown_emissions env (k, request_info)
     = request_emission env k (error_signal request_info)
         (TextValue ''Client is shutting down. Request cancelled.'')"
  by (simp add: shutdown_emissions_def request_emission_def split: option.splits)

lemma emit_request_emission:
  "emitted (fst (emit env h sg (RequestEmit k sg v)))
     = emitted h @ request_emission env k (Some sg) v"
  by (simp add: fst_emit request_emission_def)

lemma handle_timeout_emission:
  assumes "map_of (pending_requests h) mid = Some request_info"
  shows "emitted (fst (handle_timeout env h mid))
           = emitted h @ request_emission env mid (error_signal request_info)
                           (TextValue (''Request timeout for '' @ mid))"
  using assms
  by (simp add: handle_timeout_emitted request_emission_def split: option.splits)

lemma handle_response_fields:
  assumes "map_of (pending_requests h) mid = Some request_info"
  shows "pending_requests (fst (handle_response env validate h mid content))
           = AList.delete mid (pending_requests h)"
    and "running_timers (fst (handle_response env validate h mid content))
           = running_timers h - {mid}"
    and "client (fst (handle_response env validate h mid content)) = client h"
  using assms
  by (auto simp: handle_response_def Let_def emit_def
           split: option.splits emit_result.splits prod.splits)

lemma handle_response_emission:
  assumes "map_of (pending_requests h) mid = Some request_info"
  shows "emitted (fst (handle_response env validate h mid content))
           = emitted h @
             (case validate content of
                None \<Rightarrow> []
              | Some response \<Rightarrow>
                  request_emission env mid (response_target request_info content)
                    (ResponseValue response))"
  using assms
  by (auto simp: handle_response_def Let_def emit_def request_emission_def response_target_def
                 live_def
           split: option.splits emit_result.splits prod.splits)

lemma fan_out_requests:
  "pending_requests (fst (fan_out env h t content sgs)) = pending_requests h
   \<and> emissions_for mid (emitted (fst (fan_out env h t content sgs))) = emissions_for mid (emitted h)"
proof (induction sgs arbitrary: h)
  case Nil
  show ?case by simp
next
  case (Cons sg sgs)
  show ?case
  proof (cases "env sg")
    case Emitted
    then have "fan_out env h t content (sg # sgs)
        = fan_out env (h\<lparr>emitted := emitted h @ [EventEmit sg t content]\<rparr>) t content sgs"
      by (simp add: emit_def)
    then show ?thesis
      by (simp add: Cons.IH emissions_for_append)
  next
    case (EmitRuntimeError m)
    show ?thesis
    proof (cases "mentions_deleted (Exc RuntimeError m)")
      case True
      with EmitRuntimeError have "fan_out env h t content (sg # sgs)
          = fan_out env (evict h t sg) t content sgs"
        by (simp add: emit_def)
      then show ?thesis
        by (simp add: Cons.IH evict_fields)
    next
      case False
      with EmitRuntimeError show ?thesis
        by (simp add: emit_def)
    qed
  qed
qed

lemma delete_keys:
  "distinct (map fst al) \<Longrightarrow>
   distinct (map fst (AList.delete k al)) \<and> fst ` set (AList.delete k al) \<subseteq> fst ` set al"
  using distinct_delete [of al k] dom_delete_subset [of k al] by simp

text \<open>The keys of the table are the message ids with an entry.\<close>

lemma lookup_keys:
  "map_of (pending_requests h) mid = None \<longleftrightarrow> mid \<notin> fst ` set (pending_requests h)"
  by (simp add: map_of_eq_None_iff)

lemma shutdown_emissions_distinct:
  assumes "distinct (map fst reqs)"
  shows "length (emissions_for mid (concat (map (shutdown_emissions env) reqs))) \<le> 1
         \<and> (mid \<notin> fst ` set reqs \<longrightarrow>
              emissions_for mid (concat (map (shutdown_emissions env) reqs)) = [])"
  using assms
proof (induction reqs)
  case Nil
  show ?case by simp
next
  case (Cons entry reqs)
  obtain k request_info where entry: "entry = (k, request_info)"
    by (cases entry)
  from Cons.prems have k: "k \<notin> fst ` set reqs" and d: "distinct (map fst reqs)"
    by (auto simp: entry)
  note ih = Cons.IH [OF d]
  show ?case
  proof (cases "k = mid")
    case True
    with k ih have "emissions_for mid (concat (map (shutdown_emissions env) reqs)) = []"
      by simp
    then show ?thesis
      using True
      by (simp add: entry emissions_for_append shutdown_emissions_request
            emissions_for_request_emission request_emission_length)
  next
    case False
    then show ?thesis
      using ih
      by (simp add: entry emissions_for_append shutdown_emissions_request
            emissions_for_request_emission)
  qed
qed

text \<open>
  One step of the handler: the table only loses entries, and the step resolves every
  message id at most once.
\<close>

lemma resolves_unchanged:
  "emissions_for mid (emitted h') = emissions_for mid (emitted h) \<Longrightarrow>
   resolves_at_most_once mid h h'"
  by (simp add: resolves_at_most_once_def)

lemma resolves_by_request_emission:
  assumes "map_of (pending_requests h) k = Some request_info"
    and "pending_requests h' = AList.delete k (pending_requests h)"
    and "emitted h' = emitted h @ request_emission env k target v"
  shows "resolves_at_most_once mid h h'"
proof (cases "k = mid")
  case True
  have "mid \<in> fst ` set (pending_requests h)"
    using assms(1) True lookup_keys [of h mid] by auto
  moreover have "mid \<notin> fst ` set (pending_requests h')"
    using True by (simp add: assms(2) delete_notin_dom)
  ultimately show ?thesis
    unfolding resolves_at_most_once_def
    using True
    by (simp add: assms(3) emissions_for_append emissions_for_request_emission
          request_emission_length)
next
  case False
  then show ?thesis
    by (simp add: resolves_unchanged assms(3) emissions_for_append emissions_for_request_emission)
qed

lemma handle_timeout_resolves:
  "resolves_at_most_once mid h (fst (handle_timeout env h k))"
proof (cases "map_of (pending_requests h) k")
  case None
  then show ?thesis
    by (simp add: handle_timeout_absent resolves_unchanged)
next
  case (Some request_info)
  show ?thesis
    using Some handle_timeout_fields(1) [OF Some] handle_timeout_emission [OF Some]
    by (rule resolves_by_request_emission)
qed

lemma handle_response_resolves:
  "resolves_at_most_once mid h (fst (handle_response env validate h k content))"
proof (cases "map_of (pending_requests h) k")
  case None
  then show ?thesis
    by (simp add: handle_response_absent resolves_unchanged)
next
  case (Some request_info)
  show ?thesis
  proof (cases "validate content")
    case None
    have "emitted (fst (handle_response env validate h k content))
        = emitted h @ request_emission env k None (TextValue [])"
      using handle_response_emission [OF Some, of env validate content] None
      by (simp add: request_emission_def)
    with Some handle_response_fields(1) [OF Some] show ?thesis
      by (rule resolves_by_request_emission)
  next
    case (Some response)
    have "emitted (fst (handle_response env validate h k content))
        = emitted h @ request_emission env k (response_target request_info content)
                        (ResponseValue response)"
      using handle_response_emission [OF \<open>map_of (pending_requests h) k = Some request_info\<close>,
          of env validate content] Some
      by simp
    with \<open>map_of (pending_requests h) k = Some request_info\<close>
      handle_response_fields(1) [OF \<open>map_of (pending_requests h) k = Some request_info\<close>]
    show ?thesis
      by (rule resolves_by_request_emission)
  qed
qed

lemma sort_data_resolves:
  "resolves_at_most_once mid h (fst (sort_data env validate h header content))"
  by (auto simp: sort_data_def Let_def handle_response_resolves fan_out_requests
                 resolves_unchanged
           split: option.splits list.splits)

lemma stop_resolves:
  assumes "distinct (map fst (pending_requests h))"
  shows "resolves_at_most_once mid h (MessageHandler_stop env h)"
proof -
  let ?xs = "emissions_for mid (concat (map (shutdown_emissions env) (pending_requests h)))"
  have "emissions_for mid (emitted (MessageHandler_stop env h))
      = emissions_for mid (emitted h) @ ?xs"
    by (simp add: stop_emitted emissions_for_append)
  moreover have "length ?xs \<le> 1"
    and "?xs \<noteq> [] \<longrightarrow> mid \<in> fst ` set (pending_requests h)"
    using shutdown_emissions_distinct [OF assms, of mid env] by auto
  moreover have "mid \<notin> fst ` set (pending_requests (MessageHandler_stop env h))"
    by (simp add: stop_pending)
  ultimately show ?thesis
    unfolding resolves_at_most_once_def by blast
qed

lemma handler_step_keys:
  "distinct (map fst (pending_requests h)) \<Longrightarrow>
   distinct (map fst (pending_requests (handler_step env validate h e)))
   \<and> fst ` set (pending_requests (handler_step env validate h e))
       \<subseteq> fst ` set (pending_requests h)"
proof (cases e)
  case (Frame header content)
  assume d: "distinct (map fst (pending_requests h))"
  have "pending_requests (fst (sort_data env validate h header content)) = pending_requests h
      \<or> (\<exists>k. pending_requests (fst (sort_data env validate h header content))
               = AList.delete k (pending_requests h))"
  proof (cases "if msg_type header = ''response'' then correlation_id header else None")
    case None
    then show ?thesis
      by (simp add: sort_data_def fan_out_requests)
  next
    case (Some cid)
    show ?thesis
    proof (cases cid)
      case Nil
      with Some show ?thesis
        by (simp add: sort_data_def fan_out_requests)
    next
      case (Cons c cs)
      show ?thesis
      proof (cases "map_of (pending_requests h) cid")
        case None
        with Some Cons show ?thesis
          by (simp add: sort_data_def handle_response_absent)
      next
        case (Some request_info)
        with \<open>(if msg_type header = ''response'' then correlation_id header else None) = Some cid\<close>
          Cons handle_response_fields(1) [OF Some, of env validate content]
        show ?thesis
          by (auto simp: sort_data_def)
      qed
    qed
  qed
  then show ?thesis
  proof
    assume "pending_requests (fst (sort_data env validate h header content)) = pending_requests h"
    with d show ?thesis by (simp add: Frame)
  next
    assume "\<exists>k. pending_requests (fst (sort_data env validate h header content))
               = AList.delete k (pending_requests h)"
    then obtain k where "pending_requests (fst (sort_data env validate h header content))
               = AList.delete k (pending_requests h)"
      by blast
    with delete_keys [OF d, of k] show ?thesis by (simp add: Frame)
  qed
next
  case (Timeout k)
  assume d: "distinct (map fst (pending_requests h))"
  show ?thesis
  proof (cases "map_of (pending_requests h) k")
    case None
    with d show ?thesis
      by (simp add: Timeout handle_timeout_absent)
  next
    case (Some request_info)
    with delete_keys [OF d, of k] show ?thesis
      by (simp add: Timeout handle_timeout_fields(1) [OF Some])
  qed
next
  case Stop
  show ?thesis
    by (simp add: Stop stop_pending)
qed

lemma handler_step_resolves:
  "distinct (map fst (pending_requests h)) \<Longrightarrow>
   resolves_at_most_once mid h (handler_step env validate h e)"
  by (cases e) (simp_all add: sort_data_resolves handle_timeout_resolves stop_resolves)

lemma handler_run_resolves:
  assumes "distinct (map fst (pending_requests h))"
  shows "\<exists>xs. emissions_for mid (emitted (handler_run env validate h es))
                = emissions_for mid (emitted h) @ xs
              \<and> length xs \<le> 1
              \<and> (mid \<notin> fst ` set (pending_requests h) \<longrightarrow> xs = [])"
  using assms
proof (induction es arbitrary: h)
  case Nil
  show ?case by (simp add: handler_run_def)
next
  case (Cons e es)
  let ?h1 = "handler_step env validate h e"
  from handler_step_keys [OF Cons.prems, of env validate e]
  have d1: "distinct (map fst (pending_requests ?h1))"
    and sub: "fst ` set (pending_requests ?h1) \<subseteq> fst ` set (pending_requests h)"
    by simp_all
  from handler_step_resolves [OF Cons.prems, of mid env validate e]
  obtain xs1 where xs1: "emissions_for mid (emitted ?h1) = emissions_for mid (emitted h) @ xs1"
    and l1: "length xs1 \<le> 1"
    and c1: "xs1 \<noteq> [] \<longrightarrow> mid \<in> fst ` set (pending_requests h)
                            \<and> mid \<notin> fst ` set (pending_requests ?h1)"
    unfolding resolves_at_most_once_def by blast
  from Cons.IH [OF d1]
  obtain xs2 where xs2: "emissions_for mid (emitted (handler_run env validate ?h1 es))
        = emissions_for mid (emitted ?h1) @ xs2"
    and l2: "length xs2 \<le> 1"
    and c2: "mid \<notin> fst ` set (pending_requests ?h1) \<longrightarrow> xs2 = []"
    by blast
  have run: "handler_run env validate h (e # es) = handler_run env validate ?h1 es"
    by (simp add: handler_run_def)
  have "emissions_for mid (emitted (handler_run env validate h (e # es)))
      = emissions_for mid (emitted h) @ (xs1 @ xs2)"
    by (simp add: run xs1 xs2)
  moreover have "length (xs1 @ xs2) \<le> 1"
    using l1 l2 c1 c2 by (cases "xs1 = []") auto
  moreover have "mid \<notin> fst ` set (pending_requests h) \<longrightarrow> xs1 @ xs2 = []"
    using c1 c2 sub by auto
  ultimately show ?case by blast
qed

lemma shutdown_emissions_exact:
  assumes "distinct (map fst reqs)" and "map_of reqs mid = Some request_info"
  shows "emissions_for mid (concat (map (shutdown_emissions env) reqs))
           = shutdown_emissions env (mid, request_info)"
  using assms
proof (induction reqs)
  case Nil
  then show ?case by simp
next
  case (Cons entry reqs)
  obtain k i where entry: "entry = (k, i)"
    by (cases entry)
  from Cons.prems(1) have k: "k \<notin> fst ` set reqs" and d: "distinct (map fst reqs)"
    by (auto simp: entry)
  show ?case
  proof (cases "k = mid")
    case True
    with Cons.prems(2) have i: "i = request_info"
      by (simp add: entry)
    have "emissions_for mid (concat (map (shutdown_emissions env) reqs)) = []"
      using shutdown_emissions_distinct [OF d, of mid env] k True by simp
    then show ?thesis
      using True i
      by (simp add: entry emissions_for_append shutdown_emissions_request
            emissions_for_request_emission)
  next
    case False
    with Cons.prems(2) have "map_of reqs mid = Some request_info"
      by (simp add: entry)
    from Cons.IH [OF d this] False show ?thesis
      by (simp add: entry emissions_for_append shutdown_emissions_request
            emissions_for_request_emission)
  qed
qed

lemma handler_run_absent:
  assumes "distinct (map fst (pending_requests h))"
    and "mid \<notin> fst ` set (pending_requests h)"
  shows "emissions_for mid (emitted (handler_run env validate h es))
           = emissions_for mid (emitted h)"
  using handler_run_resolves [OF assms(1), of mid env validate es] assms(2) by auto

lemma handler_run_at_most_one:
  assumes "distinct (map fst (pending_requests h))"
  shows "length (emissions_for mid (emitted (handler_run env validate h es)))
           \<le> length (emissions_for mid (emitted h)) + 1"
  using handler_run_resolves [OF assms, of mid env validate es] by auto

text \<open>
  The first of the three paths, taken for a request with live signals, makes one
  emission for it.
\<close>

lemma first_path_emits_once:
  assumes d: "distinct (map fst (pending_requests h))"
    and pend: "map_of (pending_requests h) mid = Some request_info"
    and first: "first = Frame header content \<or> first = Timeout mid \<or> first = Stop"
    and hdr: "msg_type header = ''response''" "correlation_id header = Some mid" "mid \<noteq> []"
    and val: "validate content = Some response"
    and ok: "success_signal request_info = Some ss" "live env ss"
      and err: "error_signal request_info = Some es'" "live env es'"
  shows "length (emissions_for mid (emitted (handler_step env validate h first)))
           = length (emissions_for mid (emitted h)) + 1
         \<and> mid \<notin> fst ` set (pending_requests (handler_step env validate h first))"
proof -
  have target: "request_emission env mid (response_target request_info content)
        (ResponseValue response)
      = [RequestEmit mid (if response_target request_info content = Some es' then es' else ss)
           (ResponseValue response)]"
    using ok err by (auto simp: request_emission_def response_target_def)
  from first show ?thesis
  proof (elim disjE)
    assume f: "first = Frame header content"
    obtain c cs where mid: "mid = c # cs"
      using hdr(3) by (cases mid) auto
    have sd: "sort_data env validate h header content
        = handle_response env validate h mid content"
      using hdr(1,2) by (simp add: sort_data_def mid)
    show ?thesis
      using handle_response_emission [OF pend, of env validate content]
        handle_response_fields(1) [OF pend, of env validate content] val target
      by (simp add: f sd emissions_for_append delete_notin_dom)
  next
    assume f: "first = Timeout mid"
    have "request_emission env mid (error_signal request_info)
        (TextValue (''Request timeout for '' @ mid))
      = [RequestEmit mid es' (TextValue (''Request timeout for '' @ mid))]"
      using err by (simp add: request_emission_def)
    then show ?thesis
      using handle_timeout_emission [OF pend, of env] handle_timeout_fields(1) [OF pend, of env]
      by (simp add: f emissions_for_append delete_notin_dom)
  next
    assume f: "first = Stop"
    have "shutdown_emissions env (mid, request_info)
      = [RequestEmit mid es' (TextValue ''Client is shutting down. Request cancelled.'')]"
      using err by (simp add: shutdown_emissions_def)
    then show ?thesis
      using shutdown_emissions_exact [OF d pend, of env]
      by (simp add: f stop_emitted stop_pending emissions_for_append)
  qed
qed

lemma first_path_wins:
  assumes "distinct (map fst (pending_requests h))"
    and "map_of (pending_requests h) mid = Some request_info"
    and "first = Frame header content \<or> first = Timeout mid \<or> first = Stop"
    and "msg_type header = ''response''" "correlation_id header = Some mid" "mid \<noteq> []"
    and "validate content = Some response"
    and "success_signal request_info = Some ss" "live env ss"
    and "error_signal request_info = Some es'" "live env es'"
  shows "length (emissions_for mid (emitted (handler_run env validate h (first # es))))
           = length (emissions_for mid (emitted h)) + 1"
proof -
  let ?h1 = "handler_step env validate h first"
  have d1: "distinct (map fst (pending_requests ?h1))"
    using handler_step_keys [OF assms(1), of env validate first] by simp
  have one: "length (emissions_for mid (emitted ?h1)) = length (emissions_for mid (emitted h)) + 1"
    and out: "mid \<notin> fst ` set (pending_requests ?h1)"
    using first_path_emits_once
        [of h mid request_info first header content validate response ss env es'] assms
    by simp_all
  have "handler_run env validate h (first # es) = handler_run env validate ?h1 es"
    by (simp add: handler_run_def)
  then show ?thesis
    using handler_run_absent [OF d1 out, of env validate es] one by simp
qed

subsection \<open>Futures of the async client\<close>

lemma async_step_done:
  "futures a r \<noteq> Pending \<Longrightarrow> futures (async_step validate a e) r = futures a r"
  by (cases e)
     (auto simp: async_sort_data_def wait_for_timeout_def Let_def split: option.splits)

lemma async_run_done:
  "futures a r \<noteq> Pending \<Longrightarrow> futures (async_run validate a es) r = futures a r"
  unfolding async_run_def
proof (induction es arbitrary: a)
  case Nil
  show ?case by simp
next
  case (Cons e es)
  from Cons.prems have "futures (async_step validate a e) r = futures a r"
    by (rule async_step_done)
  with Cons.prems Cons.IH [of "async_step validate a e"] show ?case
    by simp
qed

lemma async_response_resolves:
  assumes "map_of (a_pending_requests a) mid = Some r" and "futures a r = Pending"
    and "msg_type header = ''response''" and "correlation_id header = Some mid"
  shows "futures (async_sort_data validate a header content) r
           = (case validate content of
                Some response \<Rightarrow> Result response
              | None \<Rightarrow> Exception (Exc ValidationError []))"
    and "map_of (a_pending_requests (async_sort_data validate a header content)) mid = None"
  using assms
  by (simp_all add: async_sort_data_def Let_def deleted_lookup split: option.splits)

text \<open>
  C1, as amended. Thread-based client, for a handler whose table has one entry per
  message id: over every sequence of frames, timeout-handler runs and stops, at most
  one emission is ever made for a message id, and none for an id with no entry. The
  response handler and the timeout handler do nothing for an id with no entry; each of
  the three paths (response, timeout, stop) takes the entry of an id out of the table,
  so the first of them to run for an id is the only one that can emit for it. When the
  request has a live success signal and a live error signal and the response
  validates, the first path does emit, and exactly one emission is made for the id
  however the other paths follow. Async client: a future that is done is never changed
  again; a response or a timeout for a pending future makes it done and takes the
  entry out of the table; cleaning up the connection resolves nothing.
\<close>

theorem at_most_one_resolution:
  "(distinct (map fst (pending_requests h)) \<longrightarrow>
      length (emissions_for mid (emitted (handler_run env validate h es)))
        \<le> length (emissions_for mid (emitted h)) + 1
      \<and> (mid \<notin> fst ` set (pending_requests h) \<longrightarrow>
           emissions_for mid (emitted (handler_run env validate h es))
             = emissions_for mid (emitted h)))
   \<and> (map_of (pending_requests h) mid = None \<longrightarrow>
        handle_response env validate h mid content = (h, None)
        \<and> handle_timeout env h mid = (h, None))
   \<and> (map_of (pending_requests h) mid = Some request_info \<longrightarrow>
        map_of (pending_requests (fst (handle_response env validate h mid content))) mid = None
        \<and> map_of (pending_requests (fst (handle_timeout env h mid))) mid = None
        \<and> map_of (pending_requests (MessageHandler_stop env h)) mid = None)
   \<and> (distinct (map fst (pending_requests h))
        \<and> map_of (pending_requests h) mid = Some request_info
        \<and> (first = Frame header content \<or> first = Timeout mid \<or> first = Stop)
        \<and> msg_type header = ''response'' \<and> correlation_id header = Some mid \<and> mid \<noteq> []
        \<and> validate content = Some response
        \<and> success_signal request_info = Some ss \<and> live env ss
        \<and> error_signal request_info = Some es' \<and> live env es' \<longrightarrow>
        length (emissions_for mid (emitted (handler_run env validate h (first # es))))
          = length (emissions_for mid (emitted h)) + 1)
   \<and> (futures a r \<noteq> Pending \<longrightarrow> futures (async_run validate a aes) r = futures a r)
   \<and> (map_of (a_pending_requests a) mid = Some r \<and> futures a r = Pending
        \<and> msg_type header = ''response'' \<and> correlation_id header = Some mid \<longrightarrow>
        futures (async_sort_data validate a header content) r \<noteq> Pending
        \<and> map_of (a_pending_requests (async_sort_data validate a header content)) mid = None)
   \<and> (map_of (a_pending_requests a) mid = Some r \<and> futures a r = Pending \<longrightarrow>
        futures (fst (wait_for_timeout a mid r)) r = Cancelled
        \<and> map_of (a_pending_requests (fst (wait_for_timeout a mid r))) mid = None)
   \<and> futures (async_step validate a ACleanup) = futures a
   \<and> a_pending_requests (async_step validate a ACleanup) = a_pending_requests a"
proof -
  have c1: "distinct (map fst (pending_requests h)) \<longrightarrow>
      length (emissions_for mid (emitted (handler_run env validate h es)))
        \<le> length (emissions_for mid (emitted h)) + 1
      \<and> (mid \<notin> fst ` set (pending_requests h) \<longrightarrow>
           emissions_for mid (emitted (handler_run env validate h es))
             = emissions_for mid (emitted h))"
    using handler_run_at_most_one [of h mid env validate es]
      handler_run_absent [of h mid env validate es]
    by blast
  have c2: "map_of (pending_requests h) mid = None \<longrightarrow>
        handle_response env validate h mid content = (h, None)
        \<and> handle_timeout env h mid = (h, None)"
    using handle_response_absent [of h mid env validate content]
      handle_timeout_absent [of h mid env]
    by blast
  have c3: "map_of (pending_requests h) mid = Some request_info \<longrightarrow>
        map_of (pending_requests (fst (handle_response env validate h mid content))) mid = None
        \<and> map_of (pending_requests (fst (handle_timeout env h mid))) mid = None
        \<and> map_of (pending_requests (MessageHandler_stop env h)) mid = None"
  proof
    assume p: "map_of (pending_requests h) mid = Some request_info"
    show "map_of (pending_requests (fst (handle_response env validate h mid content))) mid = None
        \<and> map_of (pending_requests (fst (handle_timeout env h mid))) mid = None
        \<and> map_of (pending_requests (MessageHandler_stop env h)) mid = None"
      using handle_response_fields(1) [OF p, of env validate content]
        handle_timeout_fields(1) [OF p, of env]
      by (simp add: deleted_lookup stop_pending)
  qed
  have c4: "distinct (map fst (pending_requests h))
        \<and> map_of (pending_requests h) mid = Some request_info
        \<and> (first = Frame header content \<or> first = Timeout mid \<or> first = Stop)
        \<and> msg_type header = ''response'' \<and> correlation_id header = Some mid \<and> mid \<noteq> []
        \<and> validate content = Some response
        \<and> success_signal request_info = Some ss \<and> live env ss
        \<and> error_signal request_info = Some es' \<and> live env es' \<longrightarrow>
        length (emissions_for mid (emitted (handler_run env validate h (first # es))))
          = length (emissions_for mid (emitted h)) + 1"
    using first_path_wins
        [of h mid request_info first header content validate response ss env es' es]
    by blast
  have c5: "futures a r \<noteq> Pending \<longrightarrow> futures (async_run validate a aes) r = futures a r"
    using async_run_done [of a r validate aes] by blast
  have c6: "map_of (a_pending_requests a) mid = Some r \<and> futures a r = Pending
        \<and> msg_type header = ''response'' \<and> correlation_id header = Some mid \<longrightarrow>
        futures (async_sort_data validate a header content) r \<noteq> Pending
        \<and> map_of (a_pending_requests (async_sort_data validate a header content)) mid = None"
  proof
    assume "map_of (a_pending_requests a) mid = Some r \<and> futures a r = Pending
        \<and> msg_type header = ''response'' \<and> correlation_id header = Some mid"
    then have "map_of (a_pending_requests a) mid = Some r" and "futures a r = Pending"
      and "msg_type header = ''response''" and "correlation_id header = Some mid"
      by simp_all
    from async_response_resolves [OF this, of validate content]
    show "futures (async_sort_data validate a header content) r \<noteq> Pending
        \<and> map_of (a_pending_requests (async_sort_data validate a header content)) mid = None"
      by (simp split: option.splits)
  qed
  have c7: "map_of (a_pending_requests a) mid = Some r \<and> futures a r = Pending \<longrightarrow>
        futures (fst (wait_for_timeout a mid r)) r = Cancelled
        \<and> map_of (a_pending_requests (fst (wait_for_timeout a mid r))) mid = None"
  proof
    assume "map_of (a_pending_requests a) mid = Some r \<and> futures a r = Pending"
    then have "map_of (a_pending_requests a) mid = Some r" and "futures a r = Pending"
      by simp_all
    from wait_for_timeout_pending [OF this]
    show "futures (fst (wait_for_timeout a mid r)) r = Cancelled
        \<and> map_of (a_pending_requests (fst (wait_for_timeout a mid r))) mid = None"
      by (simp add: deleted_lookup)
  qed
  have c8: "futures (async_step validate a ACleanup) = futures a"
    by simp
  have c9: "a_pending_requests (async_step validate a ACleanup) = a_pending_requests a"
    by simp
  show ?thesis
    by (intro conjI c1 c2 c3 c4 c5 c6 c7 c8 c9)
qed

lemma demo_pending_distinct: "distinct (map fst (pending_requests demo_pending))"
  by (simp add: demo_pending_state)

lemma demo_pending_value:
  "demo_pending =
     \<lparr>client = WebSocketClient_init\<lparr>ws := Some 7, connected := True\<rparr>,
      signal_dict = [],
      pending_requests =
        [(''r1'', \<lparr>success_signal = Some 1, error_signal = Some 3\<rparr>),
         (''r2'', \<lparr>success_signal = Some 1, error_signal = Some 3\<rparr>),
         (''r3'', \<lparr>success_signal = None, error_signal = None\<rparr>)],
      started_emitted_this_session = False,
      running_timers = {''r1'', ''r2'', ''r3''},
      emitted = [],
      clock = 0,
      timer_due = (\<lambda>mid. 0)(''r1'' := 3000, ''r2'' := 3000, ''r3'' := 3000)\<rparr>"
  by (auto simp: demo_pending_def send_request_def send_raw_message_def demo_connected_def
        MessageHandler_init_def WebSocketClient_init_def Let_def start_timer_def py_int_def)

lemma demo_validate_ok:
  "demo_validate demo_ok
     = Some \<lparr>code = 200, data = Some (JDict [(''result'', JNull)]), error = None\<rparr>"
  by (simp add: demo_validate_def demo_ok_def)

theorem at_most_one_resolution_witness:
  "distinct (map fst (pending_requests demo_pending))
   \<and> map_of (pending_requests demo_pending) ''r1''
       = Some \<lparr>success_signal = Some 1, error_signal = Some 3\<rparr>
   \<and> live demo_env 1 \<and> live demo_env 3
   \<and> msg_type (demo_response_header ''r1'') = ''response''
   \<and> correlation_id (demo_response_header ''r1'') = Some ''r1''
   \<and> demo_validate demo_ok
       = Some \<lparr>code = 200, data = Some (JDict [(''result'', JNull)]), error = None\<rparr>
   \<and> length (emissions_for ''r1'' (emitted (handler_run demo_env demo_validate demo_pending
        [Frame (demo_response_header ''r1'') demo_ok, Timeout ''r1'', Stop]))) = 1
   \<and> length (emissions_for ''r1'' (emitted (handler_run demo_env demo_validate demo_pending
        [Timeout ''r1'', Stop, Frame (demo_response_header ''r1'') demo_ok]))) = 1
   \<and> length (emissions_for ''r1'' (emitted (handler_run demo_env demo_validate demo_pending
        [Stop, Frame (demo_response_header ''r1'') demo_ok, Timeout ''r1'']))) = 1
   \<and> map_of (pending_requests demo_pending) ''zz'' = None
   \<and> ''zz'' \<notin> fst ` set (pending_requests demo_pending)
   \<and> handle_timeout demo_env demo_pending ''zz'' = (demo_pending, None)
   \<and> map_of (a_pending_requests demo_async_pending) ''r1'' = Some 0
   \<and> futures demo_async_pending 0 = Pending
   \<and> futures (async_sort_data demo_validate demo_async_pending
        (demo_response_header ''r1'') demo_ok) 0 \<noteq> Pending
   \<and> futures (async_run demo_validate
        (async_sort_data demo_validate demo_async_pending
          (demo_response_header ''r1'') demo_ok)
        [ATimeout ''r1'' 0, ACleanup]) 0
       = futures (async_sort_data demo_validate demo_async_pending
          (demo_response_header ''r1'') demo_ok) 0"
proof -
  let ?hdr = "demo_response_header ''r1''"
  let ?c = demo_ok
  let ?info = "\<lparr>success_signal = Some 1, error_signal = Some 3\<rparr>"
  let ?resp = "\<lparr>code = 200, data = Some (JDict [(''result'', JNull)]), error = None\<rparr>"
  have l: "live demo_env 1" "live demo_env 3"
    by (simp_all add: demo_env_def live_def)
  have hdr: "msg_type ?hdr = ''response''" "correlation_id ?hdr = Some ''r1''"
    by (simp_all add: demo_response_header_def)
  have p: "map_of (pending_requests demo_pending) ''r1'' = Some ?info"
    "map_of (pending_requests demo_pending) ''zz'' = None"
    "''zz'' \<notin> fst ` set (pending_requests demo_pending)"
    by (simp_all add: demo_pending_state)
  have e0: "emitted demo_pending = []"
    by (simp add: demo_pending_state)
  have ap: "map_of (a_pending_requests demo_async_pending) ''r1'' = Some 0"
    "futures demo_async_pending 0 = Pending"
    by (simp_all add: demo_async_pending_state)
  note t = at_most_one_resolution
      [where h = demo_pending and env = demo_env and validate = demo_validate
         and request_info = ?info and header = ?hdr and content = ?c and response = ?resp
         and ss = 1 and es' = 3 and r = 0]
  have resolved: "futures (async_sort_data demo_validate demo_async_pending ?hdr ?c) 0 \<noteq> Pending"
    using t [where mid = "''r1''" and a = demo_async_pending] ap hdr by simp
  show ?thesis
    using t [where mid = "''r1''" and first = "Frame ?hdr ?c" and es = "[Timeout ''r1'', Stop]"
               and a = demo_async_pending]
      t [where mid = "''r1''" and first = "Timeout ''r1''" and es = "[Stop, Frame ?hdr ?c]"
               and a = demo_async_pending]
      t [where mid = "''r1''" and first = Stop and es = "[Frame ?hdr ?c, Timeout ''r1'']"
               and a = demo_async_pending]
      t [where mid = "''zz''" and a = demo_async_pending]
      t [where mid = "''r1''" and a = "async_sort_data demo_validate demo_async_pending ?hdr ?c"
               and aes = "[ATimeout ''r1'' 0, ACleanup]"]
      l hdr p ap resolved demo_pending_distinct demo_validate_ok
    by (simp add: e0)
qed

text \<open>
  Against C1 as stated: request "r3" was sent with no success signal and no error
  signal, which is what \<^verbatim>\<open>send_request\<close> does by default. In each order of a response
  arriving, the timeout handler running and the handler being stopped, no emission at
  all is made for "r3": the caller observes none of the three outcomes.
\<close>

theorem no_signal_no_outcome_counterexample:
  "map_of (pending_requests demo_pending) ''r3''
     = Some \<lparr>success_signal = None, error_signal = None\<rparr>
   \<and> emissions_for ''r3'' (emitted (handler_run demo_env demo_validate demo_pending
        [Frame (demo_response_header ''r3'') demo_ok, Timeout ''r3'', Stop])) = []
   \<and> emissions_for ''r3'' (emitted (handler_run demo_env demo_validate demo_pending
        [Timeout ''r3'', Stop, Frame (demo_response_header ''r3'') demo_ok])) = []
   \<and> emissions_for ''r3'' (emitted (handler_run demo_env demo_validate demo_pending
        [Stop, Frame (demo_response_header ''r3'') demo_ok, Timeout ''r3''])) = []"
proof -
  have l: "live demo_env 3"
    by (simp add: demo_env_def live_def)
  show ?thesis
    using l
    by (simp add: demo_pending_value handler_run_def sort_data_def demo_response_header_def
          handle_response_def handle_timeout_def demo_validate_def demo_ok_def Let_def
          MessageHandler_stop_def emit_def live_def AList.delete_eq)
qed

subsection \<open>Timeouts and the clock\<close>

lemma py_int_bounds:
  assumes "0 \<le> x"
  shows "0 \<le> py_int x" and "real_of_int (py_int x) \<le> x" and "x < real_of_int (py_int x) + 1"
  using assms by (simp_all add: py_int_def)

lemma send_request_sent:
  assumes "connected (client h)" and "ws (client h) \<noteq> None" and "0 \<le> timeout"
  shows "send_request env SendOk h mid on_success on_error timeout =
     (h\<lparr>pending_requests :=
          AList.update mid \<lparr>success_signal = on_success, error_signal = on_error\<rparr>
            (pending_requests h),
        running_timers := insert mid (running_timers h),
        timer_due := (timer_due h)(mid := clock h + nat (py_int (timeout * 1000)))\<rparr>, None)"
proof -
  have "0 \<le> py_int (timeout * 1000)"
    using assms(3) by (simp add: py_int_bounds)
  then show ?thesis
    using assms(1,2)
    by (auto simp: send_request_def start_timer_def send_raw_message_def Let_def)
qed

lemma timer_fires_early: "clock h < timer_due h mid \<Longrightarrow> timer_fires env h mid = (h, None)"
  by (simp add: timer_fires_def)

lemma timer_fires_stopped: "mid \<notin> running_timers h \<Longrightarrow> timer_fires env h mid = (h, None)"
  by (simp add: timer_fires_def)

lemma timer_fires_due:
  "mid \<in> running_timers h \<Longrightarrow> timer_due h mid \<le> clock h \<Longrightarrow>
   timer_fires env h mid
     = handle_timeout env (h\<lparr>running_timers := running_timers h - {mid}\<rparr>) mid"
  by (simp add: timer_fires_def)

lemma emit_clock:
  "clock (fst (emit env h sg e)) = clock h"
  "timer_due (fst (emit env h sg e)) = timer_due h"
  by (simp_all add: fst_emit)

lemma handle_timeout_clock:
  "clock (fst (handle_timeout env h mid)) = clock h"
  "timer_due (fst (handle_timeout env h mid)) = timer_due h"
  by (simp_all add: handle_timeout_def Let_def emit_clock split: option.splits)

text \<open>What the timer of a pending request does once it is due.\<close>

lemma timer_fires_pending:
  assumes run: "mid \<in> running_timers h" and due: "timer_due h mid \<le> clock h"
    and pend: "map_of (pending_requests h) mid = Some request_info"
  shows "pending_requests (fst (timer_fires env h mid)) = AList.delete mid (pending_requests h)"
    and "map_of (pending_requests (fst (timer_fires env h mid))) mid = None"
    and "client (fst (timer_fires env h mid)) = client h"
    and "timer_fires env (fst (timer_fires env h mid)) mid = (fst (timer_fires env h mid), None)"
    and "handle_timeout env (fst (timer_fires env h mid)) mid
          = (fst (timer_fires env h mid), None)"
    and "emitted (fst (timer_fires env h mid))
          = emitted h @
             (case error_signal request_info of
                Some sg \<Rightarrow>
                  if live env sg
                  then [RequestEmit mid sg (TextValue (''Request timeout for '' @ mid))]
                  else []
              | None \<Rightarrow> [])"
proof -
  let ?h0 = "h\<lparr>running_timers := running_timers h - {mid}\<rparr>"
  let ?h1 = "fst (handle_timeout env ?h0 mid)"
  have tf: "timer_fires env h mid = handle_timeout env ?h0 mid"
    using run due by (rule timer_fires_due)
  have pend0: "map_of (pending_requests ?h0) mid = Some request_info"
    using pend by simp
  have p1: "pending_requests ?h1 = AList.delete mid (pending_requests h)"
    using handle_timeout_fields(1) [OF pend0, of env] by simp
  have t1: "running_timers ?h1 = running_timers h - {mid}"
    using handle_timeout_fields(2) [OF pend0, of env] by simp
  have c1: "client ?h1 = client h"
    using handle_timeout_fields(3) [OF pend0, of env] by simp
  have e1: "emitted ?h1 = emitted h @
           (case error_signal request_info of
              Some sg \<Rightarrow>
                if live env sg
                then [RequestEmit mid sg (TextValue (''Request timeout for '' @ mid))]
                else []
            | None \<Rightarrow> [])"
    using handle_timeout_emitted [OF pend0, of env] by simp
  have gone1: "map_of (pending_requests ?h1) mid = None"
    by (simp add: p1 deleted_lookup)
  have again: "timer_fires env ?h1 mid = (?h1, None)"
    by (simp add: timer_fires_def t1)
  have again': "handle_timeout env ?h1 mid = (?h1, None)"
    using gone1 by (rule handle_timeout_absent)
  show "pending_requests (fst (timer_fires env h mid)) = AList.delete mid (pending_requests h)"
    and "map_of (pending_requests (fst (timer_fires env h mid))) mid = None"
    and "client (fst (timer_fires env h mid)) = client h"
    and "timer_fires env (fst (timer_fires env h mid)) mid = (fst (timer_fires env h mid), None)"
    and "handle_timeout env (fst (timer_fires env h mid)) mid
          = (fst (timer_fires env h mid), None)"
    and "emitted (fst (timer_fires env h mid))
          = emitted h @
             (case error_signal request_info of
                Some sg \<Rightarrow>
                  if live env sg
                  then [RequestEmit mid sg (TextValue (''Request timeout for '' @ mid))]
                  else []
              | None \<Rightarrow> [])"
    unfolding tf using p1 gone1 c1 again again' e1 by simp_all
qed

text \<open>
  No step but the turn of a due timer adds the timeout of a message id to the
  emissions; no step changes when a timer is due, and the clock does not go back.
\<close>

lemma fan_out_clock:
  "clock (fst (fan_out env h t content sgs)) = clock h"
  "timer_due (fst (fan_out env h t content sgs)) = timer_due h"
  "list_ex (is_timeout_of mid) (emitted (fst (fan_out env h t content sgs)))
     = list_ex (is_timeout_of mid) (emitted h)"
  by (induction sgs arbitrary: h;
      simp add: emit_def evict_def Let_def split: emit_result.splits option.splits)+

lemma request_emission_no_timeout:
  "\<not> list_ex (is_timeout_of mid) (request_emission env k target (ResponseValue response))"
  by (simp add: request_emission_def timeout_text_def split: option.splits)

lemma handle_response_clock:
  "clock (fst (handle_response env validate h k content)) = clock h"
  "timer_due (fst (handle_response env validate h k content)) = timer_due h"
  by (auto simp: handle_response_def Let_def emit_def
           split: option.splits emit_result.splits prod.splits)

lemma handle_response_no_timeout:
  "list_ex (is_timeout_of mid) (emitted (fst (handle_response env validate h k content)))
     = list_ex (is_timeout_of mid) (emitted h)"
proof (cases "map_of (pending_requests h) k")
  case None
  then show ?thesis by (simp add: handle_response_absent)
next
  case (Some request_info)
  show ?thesis
    by (simp add: handle_response_emission [OF Some] request_emission_no_timeout
          split: option.splits)
qed

lemma sort_data_clock:
  "clock (fst (sort_data env validate h header content)) = clock h"
  "timer_due (fst (sort_data env validate h header content)) = timer_due h"
  "list_ex (is_timeout_of mid) (emitted (fst (sort_data env validate h header content)))
     = list_ex (is_timeout_of mid) (emitted h)"
  by (simp_all add: sort_data_def fan_out_clock handle_response_clock handle_response_no_timeout
        split: option.splits list.splits)

lemma stop_requests_clock:
  "clock (stop_requests env h reqs) = clock h"
  "timer_due (stop_requests env h reqs) = timer_due h"
  by (induction reqs arbitrary: h; auto simp: Let_def emit_clock split: option.splits)+

lemma stop_clock:
  "clock (MessageHandler_stop env h) = clock h"
  "timer_due (MessageHandler_stop env h) = timer_due h"
  by (simp_all add: MessageHandler_stop_def Let_def stop_requests_clock)

lemma shutdown_no_timeout:
  "\<not> list_ex (is_timeout_of mid) (concat (map (shutdown_emissions env) reqs))"
  by (induction reqs) (auto simp: shutdown_emissions_def timeout_text_def split: option.splits)

lemma stop_no_timeout:
  "list_ex (is_timeout_of mid) (emitted (MessageHandler_stop env h))
     = list_ex (is_timeout_of mid) (emitted h)"
  by (simp add: stop_emitted shutdown_no_timeout)

lemma timer_fires_clock:
  "clock (fst (timer_fires env h k)) = clock h"
  "timer_due (fst (timer_fires env h k)) = timer_due h"
  by (simp_all add: timer_fires_def handle_timeout_clock)

lemma timer_fires_no_early_timeout:
  assumes "clock h < timer_due h mid"
  shows "list_ex (is_timeout_of mid) (emitted (fst (timer_fires env h k)))
     = list_ex (is_timeout_of mid) (emitted h)"
proof (cases "k \<in> running_timers h \<and> timer_due h k \<le> clock h")
  case False
  then show ?thesis by (auto simp: timer_fires_def)
next
  case True
  with assms have ne: "k \<noteq> mid" by auto
  let ?h0 = "h\<lparr>running_timers := running_timers h - {k}\<rparr>"
  have tf: "timer_fires env h k = handle_timeout env ?h0 k"
    using True by (simp add: timer_fires_def)
  show ?thesis
  proof (cases "map_of (pending_requests h) k")
    case None
    then show ?thesis
      unfolding tf by (simp add: handle_timeout_absent)
  next
    case (Some request_info)
    then have "map_of (pending_requests ?h0) k = Some request_info" by simp
    from handle_timeout_emitted [OF this, of env] ne show ?thesis
      unfolding tf by (simp split: option.splits)
  qed
qed

lemma clock_step_fields:
  "timer_due (clock_step env validate h e) = timer_due h"
  "clock h \<le> clock (clock_step env validate h e)"
  by (cases e; simp add: sort_data_clock timer_fires_clock stop_clock elapse_def)+

lemma clock_run_fields:
  "timer_due (clock_run env validate h es) = timer_due h"
  "clock h \<le> clock (clock_run env validate h es)"
proof (induction es arbitrary: h)
  case Nil
  {
    case 1 show ?case by (simp add: clock_run_def)
  next
    case 2 show ?case by (simp add: clock_run_def)
  }
next
  case (Cons e es)
  {
    case 1
    show ?case
      using Cons.IH(1) [of "clock_step env validate h e"]
      by (simp add: clock_run_def clock_step_fields)
  next
    case 2
    show ?case
      using Cons.IH(2) [of "clock_step env validate h e"] clock_step_fields(2) [of h env validate e]
      by (simp add: clock_run_def)
  }
qed

lemma clock_step_no_early_timeout:
  assumes "clock (clock_step env validate h e) < timer_due h mid"
  shows "list_ex (is_timeout_of mid) (emitted (clock_step env validate h e))
     = list_ex (is_timeout_of mid) (emitted h)"
proof (cases e)
  case (Arrives header content)
  then show ?thesis by (simp add: sort_data_clock)
next
  case (TimerTurn k)
  with assms have "clock h < timer_due h mid"
    by (simp add: timer_fires_clock)
  then show ?thesis
    by (simp add: TimerTurn timer_fires_no_early_timeout)
next
  case Stops
  then show ?thesis by (simp add: stop_no_timeout)
next
  case (Elapses d)
  then show ?thesis by (simp add: elapse_def)
qed

lemma clock_run_no_early_timeout:
  assumes "clock (clock_run env validate h es) < timer_due h mid"
  shows "list_ex (is_timeout_of mid) (emitted (clock_run env validate h es))
     = list_ex (is_timeout_of mid) (emitted h)"
  using assms
proof (induction es arbitrary: h)
  case Nil
  show ?case by (simp add: clock_run_def)
next
  case (Cons e es)
  let ?h1 = "clock_step env validate h e"
  have run: "clock_run env validate h (e # es) = clock_run env validate ?h1 es"
    by (simp add: clock_run_def)
  have due: "timer_due ?h1 mid = timer_due h mid"
    by (simp add: clock_step_fields)
  have "clock ?h1 \<le> clock (clock_run env validate ?h1 es)"
    by (rule clock_run_fields)
  with Cons.prems have early: "clock ?h1 < timer_due h mid"
    by (simp add: run)
  have "list_ex (is_timeout_of mid) (emitted (clock_run env validate ?h1 es))
      = list_ex (is_timeout_of mid) (emitted ?h1)"
    using Cons.prems by (intro Cons.IH) (simp add: run due)
  also have "\<dots> = list_ex (is_timeout_of mid) (emitted h)"
    using early by (rule clock_step_no_early_timeout)
  finally show ?case by (simp add: run)
qed

text \<open>The wait of a caller of the async client.\<close>

lemma wait_for_expires_early:
  "map_of (waits a) mid = Some (future, deadline) \<Longrightarrow> a_clock a < deadline \<Longrightarrow>
   wait_for_expires a mid = (a, None)"
  by (simp add: wait_for_expires_def)

lemma wait_for_expires_nobody:
  "map_of (waits a) mid = None \<Longrightarrow> wait_for_expires a mid = (a, None)"
  by (simp add: wait_for_expires_def)

lemma wait_for_expires_due:
  assumes w: "map_of (waits a) mid = Some (future, deadline)" and due: "deadline \<le> a_clock a"
    and pend: "map_of (a_pending_requests a) mid = Some future"
    and fut: "futures a future = Pending"
  shows "snd (wait_for_expires a mid) = Some (Exc TimeoutError [])"
    and "a_pending_requests (fst (wait_for_expires a mid))
           = AList.delete mid (a_pending_requests a)"
    and "map_of (a_pending_requests (fst (wait_for_expires a mid))) mid = None"
    and "futures (fst (wait_for_expires a mid)) future = Cancelled"
    and "a_client (fst (wait_for_expires a mid)) = a_client a"
    and "wait_for_expires (fst (wait_for_expires a mid)) mid
           = (fst (wait_for_expires a mid), None)"
proof -
  let ?a0 = "a\<lparr>waits := AList.delete mid (waits a)\<rparr>"
  have ex: "wait_for_expires a mid = wait_for_timeout ?a0 mid future"
    using w due by (simp add: wait_for_expires_def)
  have pend0: "map_of (a_pending_requests ?a0) mid = Some future"
    and fut0: "futures ?a0 future = Pending"
    using pend fut by simp_all
  note t = wait_for_timeout_pending [OF pend0 fut0]
  have nobody: "map_of (waits (fst (wait_for_timeout ?a0 mid future))) mid = None"
    using pend0 fut0 by (simp add: wait_for_timeout_def Let_def deleted_lookup)
  show "snd (wait_for_expires a mid) = Some (Exc TimeoutError [])"
    and "a_pending_requests (fst (wait_for_expires a mid))
           = AList.delete mid (a_pending_requests a)"
    and "map_of (a_pending_requests (fst (wait_for_expires a mid))) mid = None"
    and "futures (fst (wait_for_expires a mid)) future = Cancelled"
    and "a_client (fst (wait_for_expires a mid)) = a_client a"
    and "wait_for_expires (fst (wait_for_expires a mid)) mid
           = (fst (wait_for_expires a mid), None)"
    unfolding ex using t nobody
    by (simp_all add: deleted_lookup wait_for_expires_nobody)
qed

lemma async_send_request_wait:
  "map_of (waits (fst (async_send_request a mid send_closed timeout True))) mid
     = Some (next_future a, a_clock a + timeout)"
  "map_of (a_pending_requests (fst (async_send_request a mid send_closed timeout True))) mid
     = Some (next_future a)"
  "futures (fst (async_send_request a mid send_closed timeout True)) (next_future a) = Pending"
  "a_clock (fst (async_send_request a mid send_closed timeout True)) = a_clock a"
  "snd (async_send_request a mid send_closed timeout wait) = next_future a"
  by (simp_all add: async_send_request_def Let_def update_conv')

lemma async_send_request_no_wait:
  "waits (fst (async_send_request a mid send_closed timeout False)) = waits a"
  "map_of (a_pending_requests (fst (async_send_request a mid send_closed timeout False))) mid
     = Some (next_future a)"
  "futures (fst (async_send_request a mid send_closed timeout False)) (next_future a) = Pending"
  by (simp_all add: async_send_request_def Let_def update_conv')

lemma async_elapse_fields:
  "waits (async_elapse a d) = waits a"
  "a_pending_requests (async_elapse a d) = a_pending_requests a"
  "futures (async_elapse a d) = futures a"
  "a_clock (async_elapse a d) = a_clock a + d"
  "a_client (async_elapse a d) = a_client a"
  by (simp_all add: async_elapse_def)
text \<open>
  C6, as amended. Thread-based client. The turn of a timer that is not yet due does
  nothing. When the timer of a pending request is due and fires, the entry is taken out
  of the table, the client (the connection) is left as it is, and a second firing or a
  later run of the timeout handler for the id does nothing; when the entry has a live
  error signal, that signal is sent the text \<^verbatim>\<open>Request timeout for <id>\<close>, which holds
  the message id. Whatever frames arrive, timers get their turn, stops are made and time
  passes: as long as the clock is before the time at which the timer of a message id is
  due, no timeout of that id has been emitted. A request sent on an open connection
  with a timeout that is not negative has its entry in the table and its timer running
  and due \<^verbatim>\<open>int(timeout * 1000)\<close> milliseconds after the send, which is less than a
  millisecond short of the timeout; before that many milliseconds have passed the
  timer's turn does nothing, and from then on it sends the error signal the text.

  Async client. The wait of nobody, or of a caller whose time has not run out, does not
  time out. When the time of the caller who waits on a pending future has run out, the
  caller gets the \<^verbatim>\<open>TimeoutError\<close> of \<^verbatim>\<open>wait_for\<close>, the entry is taken out of the table,
  the future is cancelled, the client is left as it is and a later turn does nothing;
  the text of that \<^verbatim>\<open>TimeoutError\<close> is empty and so does not hold the message id. A
  request sent with \<^verbatim>\<open>wait\<close> true makes its caller wait until \<open>timeout\<close> seconds
  after the send: before that nothing times out, from then on the wait times out. A
  request sent with \<^verbatim>\<open>wait\<close> false never times out, and its entry stays in the table.
\<close>

theorem timeout_failure:
  "(clock h < timer_due h mid \<longrightarrow> timer_fires env h mid = (h, None))
   \<and> (mid \<in> running_timers h \<and> timer_due h mid \<le> clock h
      \<and> map_of (pending_requests h) mid = Some request_info \<longrightarrow>
      pending_requests (fst (timer_fires env h mid)) = AList.delete mid (pending_requests h)
      \<and> map_of (pending_requests (fst (timer_fires env h mid))) mid = None
      \<and> client (fst (timer_fires env h mid)) = client h
      \<and> timer_fires env (fst (timer_fires env h mid)) mid = (fst (timer_fires env h mid), None)
      \<and> handle_timeout env (fst (timer_fires env h mid)) mid
          = (fst (timer_fires env h mid), None))
   \<and> (mid \<in> running_timers h \<and> timer_due h mid \<le> clock h
      \<and> map_of (pending_requests h) mid = Some request_info
      \<and> error_signal request_info = Some sg \<and> live env sg \<longrightarrow>
      emitted (fst (timer_fires env h mid)) = emitted h @ [RequestEmit mid sg (TextValue (''Request timeout for '' @ mid))]
      \<and> str_in mid (''Request timeout for '' @ mid))
   \<and> (\<not> list_ex (is_timeout_of mid) (emitted h)
      \<and> clock (clock_run env validate h es) < timer_due h mid \<longrightarrow>
      \<not> list_ex (is_timeout_of mid) (emitted (clock_run env validate h es)))
   \<and> (connected (client h) \<and> ws (client h) \<noteq> None \<and> 0 \<le> timeout \<longrightarrow>
      snd (send_request env SendOk h mid on_success on_error timeout) = None
      \<and> mid \<in> running_timers (fst (send_request env SendOk h mid on_success on_error timeout))
      \<and> timer_due (fst (send_request env SendOk h mid on_success on_error timeout)) mid
          = clock h + nat (py_int (timeout * 1000))
      \<and> clock (fst (send_request env SendOk h mid on_success on_error timeout)) = clock h
      \<and> map_of (pending_requests (fst (send_request env SendOk h mid on_success on_error timeout))) mid
          = Some \<lparr>success_signal = on_success, error_signal = on_error\<rparr>
      \<and> real_of_int (py_int (timeout * 1000)) \<le> timeout * 1000
      \<and> timeout * 1000 < real_of_int (py_int (timeout * 1000)) + 1)
   \<and> (connected (client h) \<and> ws (client h) \<noteq> None \<and> 0 \<le> timeout \<and> d < nat (py_int (timeout * 1000)) \<longrightarrow>
      timer_fires env (elapse (fst (send_request env SendOk h mid on_success on_error timeout)) d) mid
        = (elapse (fst (send_request env SendOk h mid on_success on_error timeout)) d, None))
   \<and> (connected (client h) \<and> ws (client h) \<noteq> None \<and> 0 \<le> timeout \<and> nat (py_int (timeout * 1000)) \<le> d
      \<and> on_error = Some sg \<and> live env sg \<longrightarrow>
      emitted (fst (timer_fires env (elapse (fst (send_request env SendOk h mid on_success on_error timeout)) d) mid))
        = emitted h @ [RequestEmit mid sg (TextValue (''Request timeout for '' @ mid))]
      \<and> map_of (pending_requests
            (fst (timer_fires env (elapse (fst (send_request env SendOk h mid on_success on_error timeout)) d) mid))) mid = None
      \<and> client (fst (timer_fires env (elapse (fst (send_request env SendOk h mid on_success on_error timeout)) d) mid))
          = client h)
   \<and> (map_of (waits a) mid = Some (future, deadline) \<and> a_clock a < deadline \<longrightarrow>
      wait_for_expires a mid = (a, None))
   \<and> (map_of (waits a) mid = None \<longrightarrow> wait_for_expires a mid = (a, None))
   \<and> (map_of (waits a) mid = Some (future, deadline) \<and> deadline \<le> a_clock a
      \<and> map_of (a_pending_requests a) mid = Some future \<and> futures a future = Pending \<longrightarrow>
      snd (wait_for_expires a mid) = Some (Exc TimeoutError [])
      \<and> a_pending_requests (fst (wait_for_expires a mid))
          = AList.delete mid (a_pending_requests a)
      \<and> map_of (a_pending_requests (fst (wait_for_expires a mid))) mid = None
      \<and> futures (fst (wait_for_expires a mid)) future = Cancelled
      \<and> a_client (fst (wait_for_expires a mid)) = a_client a
      \<and> wait_for_expires (fst (wait_for_expires a mid)) mid
          = (fst (wait_for_expires a mid), None)
      \<and> (mid \<noteq> [] \<longrightarrow> \<not> str_in mid (exc_str (Exc TimeoutError []))))
   \<and> map_of (waits (fst (async_send_request a mid send_closed timeout True))) mid
        = Some (next_future a, a_clock a + timeout)
   \<and> map_of (a_pending_requests (fst (async_send_request a mid send_closed timeout True))) mid
        = Some (next_future a)
   \<and> futures (fst (async_send_request a mid send_closed timeout True)) (next_future a) = Pending
   \<and> (seconds < timeout \<longrightarrow>
      wait_for_expires (async_elapse (fst (async_send_request a mid send_closed timeout True)) seconds) mid
        = (async_elapse (fst (async_send_request a mid send_closed timeout True)) seconds, None))
   \<and> (timeout \<le> seconds \<longrightarrow>
      snd (wait_for_expires (async_elapse (fst (async_send_request a mid send_closed timeout True)) seconds) mid)
        = Some (Exc TimeoutError [])
      \<and> map_of (a_pending_requests (fst (wait_for_expires
            (async_elapse (fst (async_send_request a mid send_closed timeout True)) seconds) mid))) mid
          = None
      \<and> futures (fst (wait_for_expires
            (async_elapse (fst (async_send_request a mid send_closed timeout True)) seconds) mid))
            (next_future a) = Cancelled)
   \<and> (map_of (waits a) mid = None \<longrightarrow>
      wait_for_expires (async_elapse (fst (async_send_request a mid send_closed timeout False)) seconds) mid
        = (async_elapse (fst (async_send_request a mid send_closed timeout False)) seconds, None)
      \<and> map_of (a_pending_requests
            (async_elapse (fst (async_send_request a mid send_closed timeout False)) seconds)) mid
          = Some (next_future a))"
proof -
  have c_early: "clock h < timer_due h mid \<longrightarrow> timer_fires env h mid = (h, None)"
    using timer_fires_early [of h mid env] by blast
  have c_due: "mid \<in> running_timers h \<and> timer_due h mid \<le> clock h
      \<and> map_of (pending_requests h) mid = Some request_info \<longrightarrow>
      pending_requests (fst (timer_fires env h mid)) = AList.delete mid (pending_requests h)
      \<and> map_of (pending_requests (fst (timer_fires env h mid))) mid = None
      \<and> client (fst (timer_fires env h mid)) = client h
      \<and> timer_fires env (fst (timer_fires env h mid)) mid = (fst (timer_fires env h mid), None)
      \<and> handle_timeout env (fst (timer_fires env h mid)) mid
          = (fst (timer_fires env h mid), None)"
    using timer_fires_pending(1-5) [of mid h request_info env] by blast
  have c_text: "mid \<in> running_timers h \<and> timer_due h mid \<le> clock h
      \<and> map_of (pending_requests h) mid = Some request_info
      \<and> error_signal request_info = Some sg \<and> live env sg \<longrightarrow>
      emitted (fst (timer_fires env h mid)) = emitted h @ [RequestEmit mid sg (TextValue (''Request timeout for '' @ mid))]
      \<and> str_in mid (''Request timeout for '' @ mid)"
  proof (intro impI conjI)
    assume a: "mid \<in> running_timers h \<and> timer_due h mid \<le> clock h
      \<and> map_of (pending_requests h) mid = Some request_info
      \<and> error_signal request_info = Some sg \<and> live env sg"
    then show "emitted (fst (timer_fires env h mid)) = emitted h @ [RequestEmit mid sg (TextValue (''Request timeout for '' @ mid))]"
      using timer_fires_pending(6) [of mid h request_info env] by simp
    show "str_in mid (''Request timeout for '' @ mid)"
      by (rule str_in_suffix)
  qed
  have c_trace: "\<not> list_ex (is_timeout_of mid) (emitted h)
      \<and> clock (clock_run env validate h es) < timer_due h mid \<longrightarrow>
      \<not> list_ex (is_timeout_of mid) (emitted (clock_run env validate h es))"
    using clock_run_no_early_timeout [of env validate h es mid] by blast
  have c_sent: "connected (client h) \<and> ws (client h) \<noteq> None \<and> 0 \<le> timeout \<longrightarrow>
      snd (send_request env SendOk h mid on_success on_error timeout) = None
      \<and> mid \<in> running_timers (fst (send_request env SendOk h mid on_success on_error timeout))
      \<and> timer_due (fst (send_request env SendOk h mid on_success on_error timeout)) mid
          = clock h + nat (py_int (timeout * 1000))
      \<and> clock (fst (send_request env SendOk h mid on_success on_error timeout)) = clock h
      \<and> map_of (pending_requests (fst (send_request env SendOk h mid on_success on_error timeout))) mid
          = Some \<lparr>success_signal = on_success, error_signal = on_error\<rparr>
      \<and> real_of_int (py_int (timeout * 1000)) \<le> timeout * 1000
      \<and> timeout * 1000 < real_of_int (py_int (timeout * 1000)) + 1"
  proof (intro impI)
    assume a: "connected (client h) \<and> ws (client h) \<noteq> None \<and> 0 \<le> timeout"
    then have s: "send_request env SendOk h mid on_success on_error timeout
        = (h\<lparr>pending_requests :=
             AList.update mid \<lparr>success_signal = on_success, error_signal = on_error\<rparr>
               (pending_requests h),
           running_timers := insert mid (running_timers h),
           timer_due := (timer_due h)(mid := clock h + nat (py_int (timeout * 1000)))\<rparr>, None)"
      by (simp add: send_request_sent)
    from a have "0 \<le> timeout * 1000" by simp
    from py_int_bounds(2,3) [OF this] show "snd (send_request env SendOk h mid on_success on_error timeout) = None
      \<and> mid \<in> running_timers (fst (send_request env SendOk h mid on_success on_error timeout))
      \<and> timer_due (fst (send_request env SendOk h mid on_success on_error timeout)) mid
          = clock h + nat (py_int (timeout * 1000))
      \<and> clock (fst (send_request env SendOk h mid on_success on_error timeout)) = clock h
      \<and> map_of (pending_requests (fst (send_request env SendOk h mid on_success on_error timeout))) mid
          = Some \<lparr>success_signal = on_success, error_signal = on_error\<rparr>
      \<and> real_of_int (py_int (timeout * 1000)) \<le> timeout * 1000
      \<and> timeout * 1000 < real_of_int (py_int (timeout * 1000)) + 1"
      unfolding s by (simp add: update_conv')
  qed
  have c_sent_early: "connected (client h) \<and> ws (client h) \<noteq> None \<and> 0 \<le> timeout \<and> d < nat (py_int (timeout * 1000)) \<longrightarrow>
      timer_fires env (elapse (fst (send_request env SendOk h mid on_success on_error timeout)) d) mid
        = (elapse (fst (send_request env SendOk h mid on_success on_error timeout)) d, None)"
  proof (intro impI)
    assume a: "connected (client h) \<and> ws (client h) \<noteq> None \<and> 0 \<le> timeout \<and> d < nat (py_int (timeout * 1000))"
    then have s: "send_request env SendOk h mid on_success on_error timeout
        = (h\<lparr>pending_requests :=
             AList.update mid \<lparr>success_signal = on_success, error_signal = on_error\<rparr>
               (pending_requests h),
           running_timers := insert mid (running_timers h),
           timer_due := (timer_due h)(mid := clock h + nat (py_int (timeout * 1000)))\<rparr>, None)"
      by (simp add: send_request_sent)
    show "timer_fires env (elapse (fst (send_request env SendOk h mid on_success on_error timeout)) d) mid
        = (elapse (fst (send_request env SendOk h mid on_success on_error timeout)) d, None)"
      unfolding s using a by (intro timer_fires_early) (simp add: elapse_def)
  qed
  have c_sent_due: "connected (client h) \<and> ws (client h) \<noteq> None \<and> 0 \<le> timeout \<and> nat (py_int (timeout * 1000)) \<le> d
      \<and> on_error = Some sg \<and> live env sg \<longrightarrow>
      emitted (fst (timer_fires env (elapse (fst (send_request env SendOk h mid on_success on_error timeout)) d) mid))
        = emitted h @ [RequestEmit mid sg (TextValue (''Request timeout for '' @ mid))]
      \<and> map_of (pending_requests
            (fst (timer_fires env (elapse (fst (send_request env SendOk h mid on_success on_error timeout)) d) mid))) mid = None
      \<and> client (fst (timer_fires env (elapse (fst (send_request env SendOk h mid on_success on_error timeout)) d) mid))
          = client h"
  proof (intro impI)
    assume a: "connected (client h) \<and> ws (client h) \<noteq> None \<and> 0 \<le> timeout \<and> nat (py_int (timeout * 1000)) \<le> d
      \<and> on_error = Some sg \<and> live env sg"
    then have s: "send_request env SendOk h mid on_success on_error timeout
        = (h\<lparr>pending_requests :=
             AList.update mid \<lparr>success_signal = on_success, error_signal = on_error\<rparr>
               (pending_requests h),
           running_timers := insert mid (running_timers h),
           timer_due := (timer_due h)(mid := clock h + nat (py_int (timeout * 1000)))\<rparr>, None)"
      by (simp add: send_request_sent)
    let ?h = "elapse (fst (send_request env SendOk h mid on_success on_error timeout)) d"
    have run: "mid \<in> running_timers ?h" and due: "timer_due ?h mid \<le> clock ?h"
      and pend: "map_of (pending_requests ?h) mid
          = Some \<lparr>success_signal = on_success, error_signal = on_error\<rparr>"
      and em: "emitted ?h = emitted h" and cl: "client ?h = client h"
      unfolding s using a by (simp_all add: elapse_def update_conv')
    from timer_fires_pending(2,3,6) [OF run due pend, of env] a em cl
    show "emitted (fst (timer_fires env ?h mid))
        = emitted h @ [RequestEmit mid sg (TextValue (''Request timeout for '' @ mid))]
      \<and> map_of (pending_requests (fst (timer_fires env ?h mid))) mid = None
      \<and> client (fst (timer_fires env ?h mid)) = client h"
      by simp
  qed
  have c_a_early: "map_of (waits a) mid = Some (future, deadline) \<and> a_clock a < deadline \<longrightarrow>
      wait_for_expires a mid = (a, None)"
    using wait_for_expires_early [of a mid future deadline] by blast
  have c_a_nobody: "map_of (waits a) mid = None \<longrightarrow> wait_for_expires a mid = (a, None)"
    using wait_for_expires_nobody [of a mid] by blast
  have c_a_due: "map_of (waits a) mid = Some (future, deadline) \<and> deadline \<le> a_clock a
      \<and> map_of (a_pending_requests a) mid = Some future \<and> futures a future = Pending \<longrightarrow>
      snd (wait_for_expires a mid) = Some (Exc TimeoutError [])
      \<and> a_pending_requests (fst (wait_for_expires a mid))
          = AList.delete mid (a_pending_requests a)
      \<and> map_of (a_pending_requests (fst (wait_for_expires a mid))) mid = None
      \<and> futures (fst (wait_for_expires a mid)) future = Cancelled
      \<and> a_client (fst (wait_for_expires a mid)) = a_client a
      \<and> wait_for_expires (fst (wait_for_expires a mid)) mid
          = (fst (wait_for_expires a mid), None)
      \<and> (mid \<noteq> [] \<longrightarrow> \<not> str_in mid (exc_str (Exc TimeoutError [])))"
    using wait_for_expires_due [of a mid future deadline] by simp
  have c_a_sent:
    "map_of (waits (fst (async_send_request a mid send_closed timeout True))) mid
        = Some (next_future a, a_clock a + timeout)"
    "map_of (a_pending_requests (fst (async_send_request a mid send_closed timeout True))) mid
        = Some (next_future a)"
    "futures (fst (async_send_request a mid send_closed timeout True)) (next_future a) = Pending"
    by (simp_all add: async_send_request_wait)
  have c_a_sent_early: "seconds < timeout \<longrightarrow>
      wait_for_expires (async_elapse (fst (async_send_request a mid send_closed timeout True)) seconds) mid
        = (async_elapse (fst (async_send_request a mid send_closed timeout True)) seconds, None)"
  proof (intro impI)
    assume "seconds < timeout"
    then show "wait_for_expires (async_elapse (fst (async_send_request a mid send_closed timeout True)) seconds) mid
        = (async_elapse (fst (async_send_request a mid send_closed timeout True)) seconds, None)"
      by (intro wait_for_expires_early [where future = "next_future a"
            and deadline = "a_clock a + timeout"])
         (simp_all add: async_elapse_fields async_send_request_wait)
  qed
  have c_a_sent_due: "timeout \<le> seconds \<longrightarrow>
      snd (wait_for_expires (async_elapse (fst (async_send_request a mid send_closed timeout True)) seconds) mid)
        = Some (Exc TimeoutError [])
      \<and> map_of (a_pending_requests (fst (wait_for_expires
            (async_elapse (fst (async_send_request a mid send_closed timeout True)) seconds) mid))) mid
          = None
      \<and> futures (fst (wait_for_expires
            (async_elapse (fst (async_send_request a mid send_closed timeout True)) seconds) mid))
            (next_future a) = Cancelled"
  proof (intro impI)
    assume a: "timeout \<le> seconds"
    let ?a = "async_elapse (fst (async_send_request a mid send_closed timeout True)) seconds"
    have w: "map_of (waits ?a) mid = Some (next_future a, a_clock a + timeout)"
      and due: "a_clock a + timeout \<le> a_clock ?a"
      and pend: "map_of (a_pending_requests ?a) mid = Some (next_future a)"
      and fut: "futures ?a (next_future a) = Pending"
      using a by (simp_all add: async_elapse_fields async_send_request_wait)
    from wait_for_expires_due(1,3,4) [OF w due pend fut]
    show "snd (wait_for_expires ?a mid) = Some (Exc TimeoutError [])
      \<and> map_of (a_pending_requests (fst (wait_for_expires ?a mid))) mid = None
      \<and> futures (fst (wait_for_expires ?a mid)) (next_future a) = Cancelled"
      by simp
  qed
  have c_a_no_wait: "map_of (waits a) mid = None \<longrightarrow>
      wait_for_expires (async_elapse (fst (async_send_request a mid send_closed timeout False)) seconds) mid
        = (async_elapse (fst (async_send_request a mid send_closed timeout False)) seconds, None)
      \<and> map_of (a_pending_requests
            (async_elapse (fst (async_send_request a mid send_closed timeout False)) seconds)) mid
          = Some (next_future a)"
    by (simp add: wait_for_expires_nobody async_elapse_fields async_send_request_no_wait)
  show ?thesis
    by (intro conjI c_early c_due c_text c_trace c_sent c_sent_early c_sent_due c_a_early c_a_nobody c_a_due c_a_sent c_a_sent_early c_a_sent_due c_a_no_wait)
qed
theorem timeout_failure_witness:
  "clock demo_pending < timer_due demo_pending ''r1''
   \<and> timer_fires demo_env demo_pending ''r1'' = (demo_pending, None)
   \<and> ''r1'' \<in> running_timers (elapse demo_pending 3000)
   \<and> timer_due (elapse demo_pending 3000) ''r1'' \<le> clock (elapse demo_pending 3000)
   \<and> live demo_env 3
   \<and> emitted (fst (timer_fires demo_env (elapse demo_pending 3000) ''r1''))
       = [RequestEmit ''r1'' 3 (TextValue ''Request timeout for r1'')]
   \<and> map_of (pending_requests (fst (timer_fires demo_env (elapse demo_pending 3000) ''r1''))) ''r1'' = None
   \<and> clock (clock_run demo_env demo_validate demo_pending
         [Elapses 2999, TimerTurn ''r1'', Arrives demo_event_header [], Stops])
       < timer_due demo_pending ''r1''
   \<and> \<not> list_ex (is_timeout_of ''r1'')
         (emitted (clock_run demo_env demo_validate demo_pending
           [Elapses 2999, TimerTurn ''r1'', Arrives demo_event_header [], Stops]))
   \<and> connected (client demo_connected)
   \<and> timer_due (fst (send_request demo_env SendOk demo_connected ''r1'' (Some 1) (Some 3) 1)) ''r1'' = 1000
   \<and> timer_fires demo_env (elapse (fst (send_request demo_env SendOk demo_connected ''r1'' (Some 1) (Some 3) 1)) 999) ''r1''
       = (elapse (fst (send_request demo_env SendOk demo_connected ''r1'' (Some 1) (Some 3) 1)) 999, None)
   \<and> emitted (fst (timer_fires demo_env (elapse (fst (send_request demo_env SendOk demo_connected ''r1'' (Some 1) (Some 3) 1)) 1000) ''r1''))
       = [RequestEmit ''r1'' 3 (TextValue ''Request timeout for r1'')]
   \<and> map_of (waits demo_async_pending) ''r1'' = Some (0, 10)
   \<and> a_clock demo_async_pending < 10
   \<and> wait_for_expires demo_async_pending ''r1'' = (demo_async_pending, None)
   \<and> snd (wait_for_expires (async_elapse demo_async_pending 10) ''r1'') = Some (Exc TimeoutError [])
   \<and> futures (fst (wait_for_expires (async_elapse demo_async_pending 10) ''r1'')) 0 = Cancelled
   \<and> ''r1'' \<noteq> []
   \<and> \<not> str_in ''r1'' (exc_str (Exc TimeoutError []))
   \<and> wait_for_expires (async_elapse (fst (async_send_request demo_async_connected ''r1'' False 1 True)) (1 / 2)) ''r1''
       = (async_elapse (fst (async_send_request demo_async_connected ''r1'' False 1 True)) (1 / 2), None)
   \<and> snd (wait_for_expires (async_elapse (fst (async_send_request demo_async_connected ''r1'' False 1 True)) 1) ''r1'')
       = Some (Exc TimeoutError [])
   \<and> map_of (waits demo_async_connected) ''r1'' = None
   \<and> wait_for_expires (async_elapse (fst (async_send_request demo_async_connected ''r1'' False 1 False)) 100) ''r1''
       = (async_elapse (fst (async_send_request demo_async_connected ''r1'' False 1 False)) 100, None)
   \<and> map_of (a_pending_requests (async_elapse (fst (async_send_request demo_async_connected ''r1'' False 1 False)) 100)) ''r1'' = Some 0"
proof -
  note t = timeout_failure
      [where env = demo_env and mid = "''r1''"
         and request_info = "\<lparr>success_signal = Some 1, error_signal = Some 3\<rparr>"
         and sg = 3 and validate = demo_validate and on_success = "Some 1"
         and on_error = "Some 3" and timeout = 1 and future = 0 and deadline = 10
         and send_closed = False]
  have elapsed:
    "running_timers (elapse demo_pending 3000) = running_timers demo_pending"
    "pending_requests (elapse demo_pending 3000) = pending_requests demo_pending"
    "emitted (elapse demo_pending 3000) = emitted demo_pending"
    "clock (elapse demo_pending 3000) = 3000"
    "timer_due (elapse demo_pending 3000) ''r1'' = 3000"
    by (simp_all add: elapse_def demo_pending_clock)
  have tr: "clock (clock_run demo_env demo_validate demo_pending
        [Elapses 2999, TimerTurn ''r1'', Arrives demo_event_header [], Stops]) = 2999"
    by (simp add: clock_run_def sort_data_clock timer_fires_clock stop_clock elapse_def
          demo_pending_clock)
  have conn: "connected (client demo_connected)" "ws (client demo_connected) \<noteq> None"
    "emitted demo_connected = []" "clock demo_connected = 0"
    by (simp_all add: demo_connected_def MessageHandler_init_def WebSocketClient_init_def)
  have ms: "py_int (1 * 1000) = 1000" "py_int 1000 = 1000"
    by (simp_all add: py_int_def)
  have aconn: "waits demo_async_connected = []" "next_future demo_async_connected = 0"
    "a_clock demo_async_connected = 0"
    by (simp_all add: demo_async_connected_def async_handler_init_def)
  have h1: "clock demo_pending < timer_due demo_pending ''r1''"
    by (simp add: demo_pending_clock)
  have h2: "''r1'' \<in> running_timers (elapse demo_pending 3000)"
    by (simp add: elapsed demo_pending_state)
  have h3: "timer_due (elapse demo_pending 3000) ''r1'' \<le> clock (elapse demo_pending 3000)"
    by (simp add: elapsed)
  have h4: "live demo_env 3"
    by (simp add: demo_env_def live_def)
  have h5: "clock (clock_run demo_env demo_validate demo_pending
         [Elapses 2999, TimerTurn ''r1'', Arrives demo_event_header [], Stops])
       < timer_due demo_pending ''r1''"
    by (simp add: tr demo_pending_clock)
  have h6: "connected (client demo_connected)"
    by (simp add: conn)
  have h7: "map_of (waits demo_async_pending) ''r1'' = Some (0, 10)"
    by (simp add: demo_async_pending_waits)
  have h8: "a_clock demo_async_pending < 10"
    by (simp add: demo_async_pending_waits)
  have h9: "map_of (waits demo_async_connected) ''r1'' = None"
    by (simp add: aconn)
  have h10: "''r1'' \<noteq> []"
    by simp
  have x_pend: "map_of (pending_requests (elapse demo_pending 3000)) ''r1'' = Some \<lparr>success_signal = Some 1, error_signal = Some 3\<rparr>"
    by (simp add: elapsed demo_pending_state)
  have x_sig: "error_signal \<lparr>success_signal = Some 1, error_signal = Some 3\<rparr> = Some 3"
    by simp
  have x_none: "\<not> list_ex (is_timeout_of ''r1'') (emitted demo_pending)"
    by (simp add: demo_pending_state)
  have x_ws: "ws (client demo_connected) \<noteq> None"
    by (simp add: conn)
  have x_pos: "(0::real) \<le> 1"
    by simp
  have x_lt: "999 < nat (py_int (1 * 1000))"
    by (simp add: ms)
  have x_ge: "nat (py_int (1 * 1000)) \<le> 1000"
    by (simp add: ms)
  have x_aw: "map_of (waits (async_elapse demo_async_pending 10)) ''r1'' = Some (0, 10)"
    by (simp add: async_elapse_fields demo_async_pending_waits)
  have x_adue: "10 \<le> a_clock (async_elapse demo_async_pending 10)"
    by (simp add: async_elapse_fields demo_async_pending_waits)
  have x_apend: "map_of (a_pending_requests (async_elapse demo_async_pending 10)) ''r1'' = Some 0"
    by (simp add: async_elapse_fields demo_async_pending_state)
  have x_afut: "futures (async_elapse demo_async_pending 10) 0 = Pending"
    by (simp add: async_elapse_fields demo_async_futures)
  have x_half: "(1 / 2 :: real) < 1"
    by simp
  have x_one: "(1::real) \<le> 1"
    by simp
  have w_early: "timer_fires demo_env demo_pending ''r1'' = (demo_pending, None)"
    using t [where h = demo_pending and a = demo_async_pending and d = 0 and seconds = 0 and es = "[]", THEN conjunct1]
      h1
    by (simp add: deleted_lookup)
  have "emitted (fst (timer_fires demo_env (elapse demo_pending 3000) ''r1''))
       = emitted (elapse demo_pending 3000) @ [RequestEmit ''r1'' 3 (TextValue (''Request timeout for '' @ ''r1''))]"
    using t [where h = "elapse demo_pending 3000" and a = demo_async_pending and d = 0 and seconds = 0 and es = "[]", THEN conjunct2, THEN conjunct2, THEN conjunct1]
      h2 h3 h4 x_pend x_sig
    by simp
  then have w_due: "emitted (fst (timer_fires demo_env (elapse demo_pending 3000) ''r1''))
       = [RequestEmit ''r1'' 3 (TextValue ''Request timeout for r1'')]"
    by (simp add: elapsed demo_pending_state)
  have w_gone: "map_of (pending_requests (fst (timer_fires demo_env (elapse demo_pending 3000) ''r1''))) ''r1'' = None"
    using t [where h = "elapse demo_pending 3000" and a = demo_async_pending and d = 0 and seconds = 0 and es = "[]", THEN conjunct2, THEN conjunct1]
      h2 h3 x_pend
    by (simp add: deleted_lookup)
  have w_trace: "\<not> list_ex (is_timeout_of ''r1'')
         (emitted (clock_run demo_env demo_validate demo_pending
           [Elapses 2999, TimerTurn ''r1'', Arrives demo_event_header [], Stops]))"
    using t [where h = demo_pending and a = demo_async_pending and d = 0 and seconds = 0 and es = "[Elapses 2999, TimerTurn ''r1'', Arrives demo_event_header [], Stops]", THEN conjunct2, THEN conjunct2, THEN conjunct2, THEN conjunct1]
      h5 x_none
    by (simp add: deleted_lookup)
  have "timer_due (fst (send_request demo_env SendOk demo_connected ''r1'' (Some 1) (Some 3) 1)) ''r1''
       = clock demo_connected + nat (py_int (1 * 1000))"
    using t [where h = demo_connected and a = demo_async_pending and d = 0 and seconds = 0 and es = "[]", THEN conjunct2, THEN conjunct2, THEN conjunct2, THEN conjunct2, THEN conjunct1]
      h6 x_ws x_pos
    by simp
  then have w_sent: "timer_due (fst (send_request demo_env SendOk demo_connected ''r1'' (Some 1) (Some 3) 1)) ''r1'' = 1000"
    by (simp add: conn ms)
  have w_sent_early: "timer_fires demo_env (elapse (fst (send_request demo_env SendOk demo_connected ''r1'' (Some 1) (Some 3) 1)) 999) ''r1''
       = (elapse (fst (send_request demo_env SendOk demo_connected ''r1'' (Some 1) (Some 3) 1)) 999, None)"
    using t [where h = demo_connected and a = demo_async_pending and d = 999 and seconds = 0 and es = "[]", THEN conjunct2, THEN conjunct2, THEN conjunct2, THEN conjunct2, THEN conjunct2, THEN conjunct1]
      h6 x_ws x_pos x_lt
    by (simp add: deleted_lookup)
  have "emitted (fst (timer_fires demo_env (elapse (fst (send_request demo_env SendOk demo_connected ''r1'' (Some 1) (Some 3) 1)) 1000) ''r1''))
       = emitted demo_connected @ [RequestEmit ''r1'' 3 (TextValue (''Request timeout for '' @ ''r1''))]"
    using t [where h = demo_connected and a = demo_async_pending and d = 1000 and seconds = 0 and es = "[]", THEN conjunct2, THEN conjunct2, THEN conjunct2, THEN conjunct2, THEN conjunct2, THEN conjunct2, THEN conjunct1]
      h6 x_ws x_pos x_ge h4
    by simp
  then have w_sent_due: "emitted (fst (timer_fires demo_env (elapse (fst (send_request demo_env SendOk demo_connected ''r1'' (Some 1) (Some 3) 1)) 1000) ''r1''))
       = [RequestEmit ''r1'' 3 (TextValue ''Request timeout for r1'')]"
    by (simp add: conn)
  have w_a_early: "wait_for_expires demo_async_pending ''r1'' = (demo_async_pending, None)"
    using t [where h = demo_pending and a = demo_async_pending and d = 0 and seconds = 0 and es = "[]", THEN conjunct2, THEN conjunct2, THEN conjunct2, THEN conjunct2, THEN conjunct2, THEN conjunct2, THEN conjunct2, THEN conjunct1]
      h7 h8
    by (simp add: deleted_lookup)
  have w_a_due: "snd (wait_for_expires (async_elapse demo_async_pending 10) ''r1'') = Some (Exc TimeoutError [])"
    using t [where h = demo_pending and a = "async_elapse demo_async_pending 10" and d = 0 and seconds = 0 and es = "[]", THEN conjunct2, THEN conjunct2, THEN conjunct2, THEN conjunct2, THEN conjunct2, THEN conjunct2, THEN conjunct2, THEN conjunct2, THEN conjunct2, THEN conjunct1]
      x_aw x_adue x_apend x_afut
    by (simp add: deleted_lookup)
  have w_a_cancel: "futures (fst (wait_for_expires (async_elapse demo_async_pending 10) ''r1'')) 0 = Cancelled"
    using t [where h = demo_pending and a = "async_elapse demo_async_pending 10" and d = 0 and seconds = 0 and es = "[]", THEN conjunct2, THEN conjunct2, THEN conjunct2, THEN conjunct2, THEN conjunct2, THEN conjunct2, THEN conjunct2, THEN conjunct2, THEN conjunct2, THEN conjunct1]
      x_aw x_adue x_apend x_afut
    by (simp add: deleted_lookup)
  have w_a_noid: "\<not> str_in ''r1'' (exc_str (Exc TimeoutError []))"
    using t [where h = demo_pending and a = "async_elapse demo_async_pending 10" and d = 0 and seconds = 0 and es = "[]", THEN conjunct2, THEN conjunct2, THEN conjunct2, THEN conjunct2, THEN conjunct2, THEN conjunct2, THEN conjunct2, THEN conjunct2, THEN conjunct2, THEN conjunct1]
      x_aw x_adue x_apend x_afut h10
    by (simp add: deleted_lookup)
  have w_a_sent_early: "wait_for_expires (async_elapse (fst (async_send_request demo_async_connected ''r1'' False 1 True)) (1 / 2)) ''r1''
       = (async_elapse (fst (async_send_request demo_async_connected ''r1'' False 1 True)) (1 / 2), None)"
    using t [where h = demo_pending and a = demo_async_connected and d = 0 and seconds = "1 / 2" and es = "[]", THEN conjunct2, THEN conjunct2, THEN conjunct2, THEN conjunct2, THEN conjunct2, THEN conjunct2, THEN conjunct2, THEN conjunct2, THEN conjunct2, THEN conjunct2, THEN conjunct2, THEN conjunct2, THEN conjunct2, THEN conjunct1]
      x_half
    by (simp add: deleted_lookup)
  have w_a_sent_due: "snd (wait_for_expires (async_elapse (fst (async_send_request demo_async_connected ''r1'' False 1 True)) 1) ''r1'')
       = Some (Exc TimeoutError [])"
    using t [where h = demo_pending and a = demo_async_connected and d = 0 and seconds = 1 and es = "[]", THEN conjunct2, THEN conjunct2, THEN conjunct2, THEN conjunct2, THEN conjunct2, THEN conjunct2, THEN conjunct2, THEN conjunct2, THEN conjunct2, THEN conjunct2, THEN conjunct2, THEN conjunct2, THEN conjunct2, THEN conjunct2, THEN conjunct1]
      x_one
    by (simp add: deleted_lookup)
  have w_a_no_wait: "wait_for_expires (async_elapse (fst (async_send_request demo_async_connected ''r1'' False 1 False)) 100) ''r1''
       = (async_elapse (fst (async_send_request demo_async_connected ''r1'' False 1 False)) 100, None)"
    using t [where h = demo_pending and a = demo_async_connected and d = 0 and seconds = 100 and es = "[]", THEN conjunct2, THEN conjunct2, THEN conjunct2, THEN conjunct2, THEN conjunct2, THEN conjunct2, THEN conjunct2, THEN conjunct2, THEN conjunct2, THEN conjunct2, THEN conjunct2, THEN conjunct2, THEN conjunct2, THEN conjunct2, THEN conjunct2]
      h9
    by (simp add: deleted_lookup)
  have "map_of (a_pending_requests (async_elapse (fst (async_send_request demo_async_connected ''r1'' False 1 False)) 100)) ''r1''
       = Some (next_future demo_async_connected)"
    using t [where h = demo_pending and a = demo_async_connected and d = 0 and seconds = 100 and es = "[]", THEN conjunct2, THEN conjunct2, THEN conjunct2, THEN conjunct2, THEN conjunct2, THEN conjunct2, THEN conjunct2, THEN conjunct2, THEN conjunct2, THEN conjunct2, THEN conjunct2, THEN conjunct2, THEN conjunct2, THEN conjunct2, THEN conjunct2]
      h9
    by simp
  then have w_a_stays: "map_of (a_pending_requests (async_elapse (fst (async_send_request demo_async_connected ''r1'' False 1 False)) 100)) ''r1'' = Some 0"
    by (simp add: aconn)
  show ?thesis
    by (intro conjI h1 w_early h2 h3 h4 w_due w_gone h5 w_trace h6 w_sent w_sent_early w_sent_due h7 h8 w_a_early w_a_due w_a_cancel h10 w_a_noid w_a_sent_early w_a_sent_due h9 w_a_no_wait w_a_stays)
qed

text \<open>
  Against C6 as stated. The async client has waited ten seconds for the response to
  request "r1" and the wait times out: the caller gets a \<^verbatim>\<open>TimeoutError\<close> whose text is
  empty and does not refer to the message id "r1". And request "r4" was sent with
  \<^verbatim>\<open>wait\<close> false: a thousand seconds later no wait has timed out and its entry is
  still in the table.
\<close>

theorem async_timeout_without_id_counterexample:
  "snd (wait_for_expires (async_elapse demo_async_pending 10) ''r1'') = Some (Exc TimeoutError [])
   \<and> \<not> str_in ''r1'' (exc_str (Exc TimeoutError []))
   \<and> wait_for_expires (async_elapse demo_async_no_wait 1000) ''r4''
       = (async_elapse demo_async_no_wait 1000, None)
   \<and> map_of (a_pending_requests (async_elapse demo_async_no_wait 1000)) ''r4'' = Some 3"
  by (simp add: wait_for_expires_def wait_for_timeout_def async_elapse_def Let_def
        demo_async_pending_waits demo_async_pending_state demo_async_futures
        demo_async_no_wait_state)

section \<open>Starting the workers once\<close>

lemma run_when_started: "workers_started c \<Longrightarrow> WebSocketClient_run c = c"
  by (simp add: WebSocketClient_run_def)

lemma run_sets_started: "workers_started (WebSocketClient_run c)"
  by (simp add: WebSocketClient_run_def)

lemma run_twice: "WebSocketClient_run (WebSocketClient_run c) = WebSocketClient_run c"
  by (rule run_when_started) (rule run_sets_started)

lemma run_repeated: "(WebSocketClient_run ^^ Suc n) c = WebSocketClient_run c"
proof (induction n)
  case 0
  show ?case by simp
next
  case (Suc n)
  have "(WebSocketClient_run ^^ Suc (Suc n)) c
      = WebSocketClient_run ((WebSocketClient_run ^^ Suc n) c)"
    by simp
  also have "\<dots> = WebSocketClient_run (WebSocketClient_run c)"
    by (simp only: Suc.IH)
  also have "\<dots> = WebSocketClient_run c"
    by (rule run_twice)
  finally show ?case .
qed

lemma run_first_starts:
  "\<not> workers_started c \<Longrightarrow>
   thread_pool (WebSocketClient_run c) = thread_pool c @ [WebSocketWorker, HeartbeatWorker]"
  by (simp add: WebSocketClient_run_def)

lemma stop_resets_started: "\<not> workers_started (WebSocketClient_stop c)"
  by (simp add: WebSocketClient_stop_def)

lemma stop_keeps_pool: "thread_pool (WebSocketClient_stop c) = thread_pool c"
  by (simp add: WebSocketClient_stop_def)

text \<open>
  C10. \<^verbatim>\<open>WebSocketClient.run\<close> of the thread-based client starts the two workers at most
  once per started period: from a client whose started flag is clear, the first of any
  number of consecutive calls hands the receive worker and the heartbeat worker to the
  thread pool and sets the flag; every later call (and any call while the flag is set)
  returns the client unchanged, so \<open>n + 1\<close> calls equal one call. \<^verbatim>\<open>stop\<close> clears the
  flag, and the calls of \<^verbatim>\<open>run\<close> after it hand the two workers to the pool once more.
\<close>

theorem run_idempotent:
  "WebSocketClient_run (WebSocketClient_run c) = WebSocketClient_run c
   \<and> (WebSocketClient_run ^^ Suc n) c = WebSocketClient_run c
   \<and> (workers_started c \<longrightarrow> WebSocketClient_run c = c)
   \<and> (\<not> workers_started c \<longrightarrow>
        thread_pool ((WebSocketClient_run ^^ Suc n) c)
          = thread_pool c @ [WebSocketWorker, HeartbeatWorker])
   \<and> \<not> workers_started (WebSocketClient_stop c)
   \<and> thread_pool ((WebSocketClient_run ^^ Suc n) (WebSocketClient_stop c))
        = thread_pool c @ [WebSocketWorker, HeartbeatWorker]"
proof -
  have "thread_pool ((WebSocketClient_run ^^ Suc n) (WebSocketClient_stop c))
      = thread_pool (WebSocketClient_run (WebSocketClient_stop c))"
    by (simp only: run_repeated)
  also have "\<dots> = thread_pool (WebSocketClient_stop c) @ [WebSocketWorker, HeartbeatWorker]"
    by (rule run_first_starts) (rule stop_resets_started)
  finally have after_stop:
    "thread_pool ((WebSocketClient_run ^^ Suc n) (WebSocketClient_stop c))
      = thread_pool c @ [WebSocketWorker, HeartbeatWorker]"
    by (simp only: stop_keeps_pool)
  have first: "\<not> workers_started c \<longrightarrow>
        thread_pool ((WebSocketClient_run ^^ Suc n) c)
          = thread_pool c @ [WebSocketWorker, HeartbeatWorker]"
    by (simp only: run_repeated) (simp add: run_first_starts)
  show ?thesis
    using run_twice [of c] run_repeated [of n c] run_when_started [of c] first
      stop_resets_started [of c] after_stop
    by blast
qed

theorem run_idempotent_witness:
  "WebSocketClient_run (WebSocketClient_run WebSocketClient_init)
     = WebSocketClient_run WebSocketClient_init
   \<and> (WebSocketClient_run ^^ 3) WebSocketClient_init = WebSocketClient_run WebSocketClient_init
   \<and> \<not> workers_started WebSocketClient_init
   \<and> thread_pool ((WebSocketClient_run ^^ 3) WebSocketClient_init)
        = [WebSocketWorker, HeartbeatWorker]
   \<and> workers_started (WebSocketClient_run WebSocketClient_init)
   \<and> WebSocketClient_run (WebSocketClient_run WebSocketClient_init)
        = WebSocketClient_run WebSocketClient_init
   \<and> thread_pool ((WebSocketClient_run ^^ 3)
        (WebSocketClient_stop (WebSocketClient_run WebSocketClient_init)))
        = [WebSocketWorker, HeartbeatWorker, WebSocketWorker, HeartbeatWorker]"
proof -
  have three: "(3::nat) = Suc 2" by simp
  have clear: "\<not> workers_started WebSocketClient_init"
    by (simp add: WebSocketClient_init_def)
  have pool0: "thread_pool WebSocketClient_init = []"
    by (simp add: WebSocketClient_init_def)
  have pool1: "thread_pool (WebSocketClient_run WebSocketClient_init)
      = [WebSocketWorker, HeartbeatWorker]"
    by (simp add: WebSocketClient_init_def WebSocketClient_run_def)
  show ?thesis
    using run_idempotent [of WebSocketClient_init 2]
      run_idempotent [of "WebSocketClient_run WebSocketClient_init" 2]
      clear pool0 pool1 run_sets_started [of WebSocketClient_init]
    unfolding three by simp
qed

end
